theory Spec2Isabelle
  imports Complex_Main "HOL-Library.Sublist" "HOL-Library.Word"
begin

section \<open>JavaScript values, as the request body and the executors' results carry them\<close>

text \<open>
  The dispatcher receives a parsed JSON body and the executors return object literals.
  Both are modelled as JavaScript values: the JSON primitives, arrays, and objects as
  association lists in property order. \<open>Undefined\<close> is what a missing property reads as.
  Strings are lists of 8-bit characters; a numeric JSON value is the rational its double
  denotes.
\<close>

datatype jsval =
    Undefined
  | Null
  | Bool bool
  | Num rat
  | Str string
  | Arr "jsval list"
  | Obj "(string \<times> jsval) list"

type_synonym jsobj = "(string \<times> jsval) list"

text \<open>The result of \<open>ToNumber\<close>: a finite number, an infinity, or NaN.\<close>

datatype jsnum = NaN | Fin rat | PosInf | NegInf

text \<open>
  An exception value. What the libraries and the engine throw are \<open>Error\<close> objects; the
  handlers read their \<open>name\<close>, \<open>message\<close> and \<open>code\<close>.
\<close>

datatype jserror = JSError (err_name: string) (err_message: string) (err_code: "string option")

text \<open>
  The built-ins of the JavaScript engine whose exact output is not determined by the
  repository: the numeric reading of a string (\<open>StringToNumber\<close>), the string a
  non-string value converts to in a template literal or under \<open>ToPrimitive\<close>, and the text
  of the engine's \<open>TypeError\<close> messages. They are parameters of every definition below, so
  every theorem holds for whatever the engine computes.
\<close>

record js_runtime =
  StringToNumber :: "string \<Rightarrow> jsnum"
  ToString_nonstring :: "jsval \<Rightarrow> string"
  TypeError_message :: "jsval \<Rightarrow> string \<Rightarrow> string"

definition TypeError :: "js_runtime \<Rightarrow> jsval \<Rightarrow> string \<Rightarrow> jserror" where
  "TypeError R v p = JSError ''TypeError'' (TypeError_message R v p) None"

text \<open>\<open>!v\<close> is \<open>\<not> truthy v\<close>: undefined, null, false, 0 and the empty string are falsy.\<close>

fun truthy :: "jsval \<Rightarrow> bool" where
  "truthy Undefined = False"
| "truthy Null = False"
| "truthy (Bool b) = b"
| "truthy (Num r) = (r \<noteq> 0)"
| "truthy (Str s) = (s \<noteq> [])"
| "truthy (Arr xs) = True"
| "truthy (Obj kvs) = True"

fun ToString :: "js_runtime \<Rightarrow> jsval \<Rightarrow> string" where
  "ToString R (Str s) = s"
| "ToString R v = ToString_nonstring R v"

text \<open>
  \<open>ToNumber\<close>: an array or object is first converted to its string (\<open>ToPrimitive\<close>), and
  that string is read as a number.
\<close>

fun ToNumber :: "js_runtime \<Rightarrow> jsval \<Rightarrow> jsnum" where
  "ToNumber R Undefined = NaN"
| "ToNumber R Null = Fin 0"
| "ToNumber R (Bool b) = Fin (if b then 1 else 0)"
| "ToNumber R (Num r) = Fin r"
| "ToNumber R (Str s) = StringToNumber R s"
| "ToNumber R (Arr xs) = StringToNumber R (ToString_nonstring R (Arr xs))"
| "ToNumber R (Obj kvs) = StringToNumber R (ToString_nonstring R (Obj kvs))"

text \<open>The numeric \<open><\<close>: false as soon as one side is NaN.\<close>

fun num_lt :: "jsnum \<Rightarrow> jsnum \<Rightarrow> bool" where
  "num_lt (Fin a) (Fin b) = (a < b)"
| "num_lt (Fin a) PosInf = True"
| "num_lt NegInf (Fin b) = True"
| "num_lt NegInf PosInf = True"
| "num_lt _ _ = False"

text \<open>\<open>v < n\<close> and \<open>v > n\<close> for a value \<open>v\<close> and a number literal \<open>n\<close>.\<close>

definition js_lt :: "js_runtime \<Rightarrow> jsval \<Rightarrow> rat \<Rightarrow> bool" where
  "js_lt R v n = num_lt (ToNumber R v) (Fin n)"

definition js_gt :: "js_runtime \<Rightarrow> jsval \<Rightarrow> rat \<Rightarrow> bool" where
  "js_gt R v n = num_lt (Fin n) (ToNumber R v)"

text \<open>\<open>s.includes(p)\<close> on strings: \<open>p\<close> occurs in \<open>s\<close> as a contiguous block.\<close>

fun str_includes :: "string \<Rightarrow> string \<Rightarrow> bool" where
  "str_includes [] p = (p = [])"
| "str_includes (c # cs) p = (prefix p (c # cs) \<or> str_includes cs p)"

text \<open>Reading a property of an object literal; a missing one reads as \<open>undefined\<close>.\<close>

definition get_prop :: "jsobj \<Rightarrow> string \<Rightarrow> jsval" where
  "get_prop obj k = (case map_of obj k of Some v \<Rightarrow> v | None \<Rightarrow> Undefined)"

text \<open>
  Writing a property, as an object literal or a spread does: an existing key keeps its
  place and takes the new value, a new key is appended.
\<close>

fun set_prop :: "string \<Rightarrow> jsval \<Rightarrow> jsobj \<Rightarrow> jsobj" where
  "set_prop k v [] = [(k, v)]"
| "set_prop k v ((k', v') # rest) =
     (if k' = k then (k, v) # rest else (k', v') # set_prop k v rest)"

text \<open>\<open>{...target, ...src}\<close>: the properties of \<open>src\<close> are written onto \<open>target\<close> in order.\<close>

definition spread :: "jsobj \<Rightarrow> jsobj \<Rightarrow> jsobj" where
  "spread target src = fold (\<lambda>(k, v) obj. set_prop k v obj) src target"

text \<open>The object literal \<open>{ success: false, msg: m, code: c }\<close>.\<close>

definition failure :: "string \<Rightarrow> string \<Rightarrow> jsobj" where
  "failure m c = [(''success'', Bool False), (''msg'', Str m), (''code'', Str c)]"

text \<open>Decimal digits of a natural number, as \<open>BigInt.prototype.toString\<close> prints it.\<close>

definition digit_char :: "nat \<Rightarrow> char" where
  "digit_char d = ''0123456789'' ! d"

fun decimal :: "nat \<Rightarrow> string" where
  "decimal n =
     (if n < 10 then [digit_char n]
      else decimal (n div 10) @ [digit_char (n mod 10)])"

declare decimal.simps [simp del]

section \<open>What an executor does to the outside world\<close>

text \<open>
  Every interaction of an executor with the network is recorded, in order, together with
  the local steps the specification names (key parsing, the retry delay). An executor is
  a function from its input and its environment to this trace and its result.
\<close>

type_synonym url = string

datatype mint_call = MintCall (fn_name: string) (fn_args: "jsval list")

datatype event =
    Probe url
  | ParseKey
  | GetBalance url string
  | GetCode url
  | GetFeeData url
  | EstimateGas url mint_call
  | SendTransaction url mint_call nat nat
  | WaitConfirmation url string
  | GetAccountInfo url string
  | GetLatestBlockhash url
  | SendRawTransaction url
  | ConfirmTransaction url string
  | AxiosPost nat
  | Delay nat

text \<open>
  The three ways a step of an executor ends: the executor returns a result, an exception
  propagates to the enclosing \<open>catch\<close>, or execution continues with a value.
\<close>

datatype 'a step = Return jsobj | Throw jserror | Next 'a

definition and_then ::
  "event list \<times> 'a step \<Rightarrow> ('a \<Rightarrow> event list \<times> 'b step) \<Rightarrow> event list \<times> 'b step" where
  "and_then m f =
     (case snd m of
        Return r \<Rightarrow> (fst m, Return r)
      | Throw e \<Rightarrow> (fst m, Throw e)
      | Next x \<Rightarrow> (fst m @ fst (f x), snd (f x)))"

text \<open>The executor's outermost \<open>try { ... } catch (err) { ... }\<close>.\<close>

definition catch_all :: "(jserror \<Rightarrow> jsobj) \<Rightarrow> event list \<times> jsobj step \<Rightarrow> event list \<times> jsobj" where
  "catch_all handler m =
     (fst m, case snd m of Return r \<Rightarrow> r | Throw e \<Rightarrow> handler e | Next r \<Rightarrow> r)"

text \<open>
  \<open>Promise.race([wait, timer])\<close> with a timer that rejects after 300000 ms: the wait
  resolves first, rejects first, or is still pending when the timer fires.
\<close>

datatype 'r wait_outcome = Resolved 'r | Rejected jserror | Pending

definition race_with_timeout :: "'r wait_outcome \<Rightarrow> jserror + 'r" where
  "race_with_timeout w =
     (case w of
        Resolved r \<Rightarrow> Inr r
      | Rejected e \<Rightarrow> Inl e
      | Pending \<Rightarrow> Inl (JSError ''Error'' ''Transaction confirmation timeout'' None))"

text \<open>
  The connection loop shared by the BASE, BSC and SOL executors: probe each endpoint of
  the list in order and stop at the first probe that does not throw.
\<close>

fun connect :: "(url \<Rightarrow> jserror + unit) \<Rightarrow> url list \<Rightarrow> event list \<times> url option" where
  "connect probe [] = ([], None)"
| "connect probe (rpcUrl # rest) =
     (case probe rpcUrl of
        Inr _ \<Rightarrow> ([Probe rpcUrl], Some rpcUrl)
      | Inl rpcError \<Rightarrow> (Probe rpcUrl # fst (connect probe rest), snd (connect probe rest)))"

section \<open>The EVM executors: BASE and BSC\<close>

text \<open>The receipt \<open>tx.wait()\<close> resolves to, with the properties the executors read.\<close>

record receipt =
  receipt_status :: "nat option"
  receipt_transactionHash :: jsval
  receipt_gasUsed :: nat
  receipt_blockNumber :: nat

text \<open>
  The environment of an EVM executor: the \<open>ethers\<close> library and the JSON-RPC endpoints
  behind it. Every network function takes the endpoint the provider was built on.
  \<open>sendTransaction\<close> also takes the number of the attempt for the same candidate (0 for the
  first, 1 for the resubmission with a fixed gas limit), so that two submissions of one
  run never share an answer by construction. \<open>balance_toFixed4\<close> is
  \<open>parseFloat(ethers.formatEther(balance)).toFixed(4)\<close>.
\<close>

record evm_env =
  isAddress :: "jsval \<Rightarrow> bool"
  getNetwork :: "url \<Rightarrow> jserror + unit"
  new_Wallet :: "jsval \<Rightarrow> jserror + string"
  getBalance :: "url \<Rightarrow> string \<Rightarrow> jserror + nat"
  balance_toFixed4 :: "nat \<Rightarrow> string"
  new_Contract :: "jsval \<Rightarrow> jserror + unit"
  getCode :: "url \<Rightarrow> jsval \<Rightarrow> jserror + string"
  getFeeData :: "url \<Rightarrow> jserror + nat option"
  has_function :: "string \<Rightarrow> bool"
  estimateGas :: "url \<Rightarrow> mint_call \<Rightarrow> jserror + nat"
  sendTransaction :: "url \<Rightarrow> mint_call \<Rightarrow> nat \<Rightarrow> nat \<Rightarrow> nat \<Rightarrow> jserror + string"
  wait_tx :: "url \<Rightarrow> string \<Rightarrow> receipt wait_outcome"

text \<open>\<open>ethers.parseUnits(n, "gwei")\<close>.\<close>

definition gwei :: "nat \<Rightarrow> nat" where
  "gwei n = n * 10 ^ 9"

text \<open>Input validation, the same four checks and messages in both executors.\<close>

definition evm_validate :: "js_runtime \<Rightarrow> evm_env \<Rightarrow> jsval \<Rightarrow> jsval \<Rightarrow> jsval \<Rightarrow> jsobj option" where
  "evm_validate R E privateKey contractAddress mintQuantity =
     (if \<not> truthy privateKey then
        Some (failure ''Private key is required'' ''MISSING_PRIVATE_KEY'')
      else if \<not> truthy contractAddress then
        Some (failure ''Contract address is required'' ''MISSING_CONTRACT_ADDRESS'')
      else if \<not> truthy mintQuantity \<or> js_lt R mintQuantity 1 then
        Some (failure ''Mint quantity must be at least 1'' ''INVALID_QUANTITY'')
      else if \<not> isAddress E contractAddress then
        Some (failure ''Invalid contract address format'' ''INVALID_ADDRESS_FORMAT'')
      else None)"

definition base_rpcUrls :: "url list" where
  "base_rpcUrls =
     [''https://base.drpc.org/'', ''https://mainnet.base.org/'',
      ''https://base-mainnet.public.blastapi.io'']"

definition bsc_rpcUrls :: "url list" where
  "bsc_rpcUrls =
     [''https://bsc-dataseed.binance.org/'', ''https://bsc-dataseed1.defibit.io/'',
      ''https://bsc-dataseed1.ninicoin.io/'', ''https://bsc.drpc.org/'']"

text \<open>\<open>new ethers.Wallet(privateKey, provider)\<close>; on success the wallet's address.\<close>

definition evm_wallet :: "evm_env \<Rightarrow> jsval \<Rightarrow> event list \<times> string step" where
  "evm_wallet E privateKey =
     ([ParseKey],
      case new_Wallet E privateKey of
        Inl keyError \<Rightarrow> Return (failure ''Invalid private key format'' ''INVALID_PRIVATE_KEY'')
      | Inr address \<Rightarrow> Next address)"

text \<open>
  The balance check. The source compares \<open>parseFloat(formatEther(balance))\<close> with the
  double \<open>0.001\<close> (BASE) or \<open>0.005\<close> (BSC). A balance is a whole number of wei, that is a
  multiple of \<open>10^-18\<close>, and doubles near these thresholds are less than \<open>10^-18\<close> apart,
  so the comparison holds exactly when the balance is below \<open>10^15\<close> wei, respectively
  \<open>5 * 10^15\<close> wei.
\<close>

definition base_min_wei :: nat where
  "base_min_wei = 10 ^ 15"

definition bsc_min_wei :: nat where
  "bsc_min_wei = 5 * 10 ^ 15"

definition base_balance :: "evm_env \<Rightarrow> url \<Rightarrow> string \<Rightarrow> event list \<times> unit step" where
  "base_balance E u address =
     ([GetBalance u address],
      case getBalance E u address of
        Inl balanceError \<Rightarrow> Return (failure ''Failed to check wallet balance'' ''BALANCE_CHECK_FAILED'')
      | Inr balance \<Rightarrow>
          if balance < base_min_wei then
            Return (failure
              (''Insufficient balance. Current: '' @ balance_toFixed4 E balance @
               '' ETH. Minimum required: 0.001 ETH'')
              ''INSUFFICIENT_BALANCE'')
          else Next ())"

definition bsc_balance :: "evm_env \<Rightarrow> url \<Rightarrow> string \<Rightarrow> event list \<times> unit step" where
  "bsc_balance E u address =
     ([GetBalance u address],
      case getBalance E u address of
        Inl balanceError \<Rightarrow> Return (failure ''Failed to check wallet balance'' ''BALANCE_CHECK_FAILED'')
      | Inr balance \<Rightarrow>
          if balance < bsc_min_wei then
            Return (failure
              (''Insufficient BNB balance. Current: '' @ balance_toFixed4 E balance @
               '' BNB. Minimum required: 0.005 BNB'')
              ''INSUFFICIENT_BALANCE'')
          else Next ())"

text \<open>\<open>new ethers.Contract(...)\<close>, then the check that code is deployed at the address.\<close>

definition evm_contract :: "evm_env \<Rightarrow> url \<Rightarrow> jsval \<Rightarrow> event list \<times> unit step" where
  "evm_contract E u contractAddress =
     (case new_Contract E contractAddress of
        Inl contractError \<Rightarrow>
          ([], Return (failure ''Failed to create contract instance'' ''CONTRACT_INSTANCE_FAILED''))
      | Inr _ \<Rightarrow>
          ([GetCode u],
           case getCode E u contractAddress of
             Inl codeError \<Rightarrow>
               Return (failure ''Failed to verify contract existence'' ''CONTRACT_VERIFICATION_FAILED'')
           | Inr code \<Rightarrow>
               if code = ''0x'' then
                 Return (failure ''Contract not found at the provided address'' ''CONTRACT_NOT_FOUND'')
               else Next ()))"

text \<open>
  The outcome of the loop over the candidate mint functions: the events, the hash of the
  transaction sent (if one was), and \<open>lastError\<close>.
\<close>

type_synonym mint_attempt = "event list \<times> string option \<times> jserror option"

definition after_events :: "event list \<Rightarrow> mint_attempt \<Rightarrow> mint_attempt" where
  "after_events evs m = (evs @ fst m, snd m)"

definition base_mintFunctions :: "string \<Rightarrow> jsval \<Rightarrow> mint_call list" where
  "base_mintFunctions address mintQuantity =
     [MintCall ''mint'' [mintQuantity],
      MintCall ''publicMint'' [mintQuantity],
      MintCall ''mint'' [Str address, mintQuantity],
      MintCall ''mintTo'' [Str address, mintQuantity]]"

text \<open>
  BASE: a candidate whose gas estimate throws is skipped (\<open>lastError\<close> is left as it is);
  otherwise it is sent with the gas limit 500000 and the gas price 20 gwei, and a failed
  send becomes \<open>lastError\<close>.
\<close>

fun base_try_mint :: "evm_env \<Rightarrow> url \<Rightarrow> mint_call list \<Rightarrow> jserror option \<Rightarrow> mint_attempt" where
  "base_try_mint E u [] lastError = ([], None, lastError)"
| "base_try_mint E u (func # rest) lastError =
     (if has_function E (fn_name func) then
        (case estimateGas E u func of
           Inl gasError \<Rightarrow> after_events [EstimateGas u func] (base_try_mint E u rest lastError)
         | Inr gasEstimate \<Rightarrow>
             (case sendTransaction E u func 0 500000 (gwei 20) of
                Inr tx \<Rightarrow>
                  ([EstimateGas u func, SendTransaction u func 500000 (gwei 20)], Some tx, lastError)
              | Inl funcError \<Rightarrow>
                  after_events [EstimateGas u func, SendTransaction u func 500000 (gwei 20)]
                    (base_try_mint E u rest (Some funcError))))
      else base_try_mint E u rest lastError)"

definition bsc_mintFunctions :: "string \<Rightarrow> jsval \<Rightarrow> mint_call list" where
  "bsc_mintFunctions address mintQuantity =
     [MintCall ''mint'' [mintQuantity],
      MintCall ''publicMint'' [mintQuantity],
      MintCall ''batchMint'' [mintQuantity],
      MintCall ''mint'' [Str address, mintQuantity],
      MintCall ''mintTo'' [Str address, mintQuantity]]"

text \<open>
  BSC: \<open>feeData.gasPrice || parseUnits("5", "gwei")\<close>, and 5 gwei as well when
  \<open>getFeeData\<close> throws. A null or zero gas price is falsy.
\<close>

definition bsc_gasPrice :: "evm_env \<Rightarrow> url \<Rightarrow> nat" where
  "bsc_gasPrice E u =
     (case getFeeData E u of
        Inl gasPriceError \<Rightarrow> gwei 5
      | Inr None \<Rightarrow> gwei 5
      | Inr (Some p) \<Rightarrow> if p = 0 then gwei 5 else p)"

text \<open>
  BSC: a candidate is sent with the estimate plus 50000; when the estimate or that send
  throws, the inner \<open>catch\<close> sends it again with the fixed limit 300000, and only a failure
  of this second send becomes \<open>lastError\<close>.
\<close>

fun bsc_try_mint :: "evm_env \<Rightarrow> url \<Rightarrow> nat \<Rightarrow> mint_call list \<Rightarrow> jserror option \<Rightarrow> mint_attempt" where
  "bsc_try_mint E u gasPrice [] lastError = ([], None, lastError)"
| "bsc_try_mint E u gasPrice (func # rest) lastError =
     (if has_function E (fn_name func) then
        (let first_try =
               (case estimateGas E u func of
                  Inl gasError \<Rightarrow> ([EstimateGas u func], None)
                | Inr gasEstimate \<Rightarrow>
                    ([EstimateGas u func, SendTransaction u func (gasEstimate + 50000) gasPrice],
                     (case sendTransaction E u func 0 (gasEstimate + 50000) gasPrice of
                        Inr tx \<Rightarrow> Some tx
                      | Inl gasError \<Rightarrow> None)))
         in case snd first_try of
              Some tx \<Rightarrow> (fst first_try, Some tx, lastError)
            | None \<Rightarrow>
                (case sendTransaction E u func 1 300000 gasPrice of
                   Inr tx \<Rightarrow>
                     (fst first_try @ [SendTransaction u func 300000 gasPrice], Some tx, lastError)
                 | Inl fixedGasError \<Rightarrow>
                     after_events (fst first_try @ [SendTransaction u func 300000 gasPrice])
                       (bsc_try_mint E u gasPrice rest (Some fixedGasError))))
      else bsc_try_mint E u gasPrice rest lastError)"

text \<open>
  The regular expression \<open>/reason string '(.+?)'/\<close>: after the literal text, the shortest
  run of at least one character, none of them a line terminator, that a quote follows;
  the leftmost position where this matches wins.
\<close>

definition quote_char :: char where
  "quote_char = CHR 0x27"

definition line_terminator :: "char \<Rightarrow> bool" where
  "line_terminator c = (c = CHR 0x0A \<or> c = CHR 0x0D)"

fun lazy_group :: "string \<Rightarrow> string \<Rightarrow> string option" where
  "lazy_group acc [] = None"
| "lazy_group acc (c # cs) =
     (if c = quote_char then Some acc
      else if line_terminator c then None
      else lazy_group (acc @ [c]) cs)"

definition reason_group :: "string \<Rightarrow> string option" where
  "reason_group s =
     (case s of
        [] \<Rightarrow> None
      | c # cs \<Rightarrow> if line_terminator c then None else lazy_group [c] cs)"

definition reason_prefix :: string where
  "reason_prefix = ''reason string '' @ [quote_char]"

fun match_reason :: "string \<Rightarrow> string option" where
  "match_reason [] = None"
| "match_reason (c # cs) =
     (case (if prefix reason_prefix (c # cs)
            then reason_group (drop (length reason_prefix) (c # cs)) else None) of
        Some g \<Rightarrow> Some g
      | None \<Rightarrow> match_reason cs)"

text \<open>\<open>lastError?.message || ""\<close>.\<close>

definition last_message :: "jserror option \<Rightarrow> string" where
  "last_message lastError = (case lastError of None \<Rightarrow> [] | Some e \<Rightarrow> err_message e)"

definition revert_msg :: "string \<Rightarrow> string" where
  "revert_msg errorMsg =
     ''Transaction reverted: '' @
       (case match_reason errorMsg of Some g \<Rightarrow> g | None \<Rightarrow> ''Unknown reason'')"

text \<open>The result when the loop ends with no transaction sent.\<close>

definition base_no_tx :: "jserror option \<Rightarrow> jsobj" where
  "base_no_tx lastError =
     (let errorMsg = last_message lastError in
      if str_includes errorMsg ''insufficient funds'' then
        failure ''Insufficient funds for transaction + gas fees'' ''INSUFFICIENT_FUNDS''
      else if str_includes errorMsg ''execution reverted'' then
        failure (revert_msg errorMsg) ''TRANSACTION_REVERTED''
      else if str_includes errorMsg ''nonce too low'' then
        failure ''Transaction nonce error. Please try again.'' ''NONCE_ERROR''
      else if str_includes errorMsg ''replacement transaction underpriced'' then
        failure ''Gas price too low. Please try again with higher gas.'' ''GAS_PRICE_LOW''
      else if str_includes errorMsg ''intrinsic gas too low'' then
        failure ''Gas limit too low for this transaction'' ''GAS_LIMIT_LOW''
      else
        failure ''No compatible mint function found or all mint attempts failed''
          ''MINT_FUNCTION_FAILED'')"

definition bsc_no_tx :: "jserror option \<Rightarrow> jsobj" where
  "bsc_no_tx lastError =
     (let errorMsg = last_message lastError in
      if str_includes errorMsg ''insufficient funds'' then
        failure ''Insufficient BNB for transaction + gas fees'' ''INSUFFICIENT_FUNDS''
      else if str_includes errorMsg ''execution reverted'' then
        failure (revert_msg errorMsg) ''TRANSACTION_REVERTED''
      else if str_includes errorMsg ''nonce too low'' then
        failure ''Transaction nonce error. Please try again.'' ''NONCE_ERROR''
      else if str_includes errorMsg ''replacement transaction underpriced'' then
        failure ''Gas price too low. Please try again.'' ''GAS_PRICE_LOW''
      else if str_includes errorMsg ''intrinsic gas too low'' then
        failure ''Gas limit too low for this transaction'' ''GAS_LIMIT_LOW''
      else if str_includes errorMsg ''max fee per gas less than block base fee'' then
        failure ''Gas fee too low for current network conditions'' ''GAS_FEE_TOO_LOW''
      else
        failure ''No compatible mint function found or all mint attempts failed''
          ''MINT_FUNCTION_FAILED'')"

text \<open>
  The confirmation wait, the same in both executors. A rejection whose message does not
  contain \<open>timeout\<close> is thrown again, to the outer \<open>catch\<close>.
\<close>

definition evm_success :: "receipt \<Rightarrow> jsobj" where
  "evm_success r =
     [(''success'', Bool True),
      (''txHash'', receipt_transactionHash r),
      (''gasUsed'', Str (decimal (receipt_gasUsed r))),
      (''blockNumber'', Num (of_nat (receipt_blockNumber r)))]"

definition evm_timeout :: "string \<Rightarrow> jsobj" where
  "evm_timeout tx_hash =
     [(''success'', Bool False),
      (''msg'', Str ''Transaction sent but confirmation timed out. Check transaction status manually.''),
      (''code'', Str ''CONFIRMATION_TIMEOUT''),
      (''txHash'', Str tx_hash)]"

definition evm_confirm :: "evm_env \<Rightarrow> url \<Rightarrow> string \<Rightarrow> event list \<times> jsobj step" where
  "evm_confirm E u tx_hash =
     ([WaitConfirmation u tx_hash],
      case race_with_timeout (wait_tx E u tx_hash) of
        Inr r \<Rightarrow>
          if receipt_status r = Some 0 then
            Return (failure ''Transaction failed during execution'' ''TRANSACTION_FAILED'')
          else Return (evm_success r)
      | Inl confirmError \<Rightarrow>
          if str_includes (err_message confirmError) ''timeout'' then Return (evm_timeout tx_hash)
          else Throw confirmError)"

text \<open>The outer \<open>catch\<close> of each executor.\<close>

definition details_result :: "string \<Rightarrow> string \<Rightarrow> jsval \<Rightarrow> jsobj" where
  "details_result m c d =
     [(''success'', Bool False), (''msg'', Str m), (''code'', Str c), (''details'', d)]"

definition base_catch :: "jserror \<Rightarrow> jsobj" where
  "base_catch err =
     (let errorMsg = err_message err in
      if err_code err = Some ''NETWORK_ERROR'' then
        failure ''Network connection error. Please check your internet and try again.''
          ''NETWORK_ERROR''
      else if err_code err = Some ''TIMEOUT'' then
        failure ''Request timed out. Network might be congested.'' ''TIMEOUT''
      else if str_includes errorMsg ''insufficient funds'' then
        failure ''Insufficient funds to cover transaction and gas fees'' ''INSUFFICIENT_FUNDS''
      else if str_includes errorMsg ''invalid address'' \<or> str_includes errorMsg ''invalid contract'' then
        failure ''Invalid or non-existent contract address'' ''INVALID_CONTRACT''
      else if str_includes errorMsg ''gas required exceeds allowance'' then
        failure ''Transaction requires more gas than available'' ''GAS_LIMIT_EXCEEDED''
      else if str_includes errorMsg ''nonce'' then
        failure ''Transaction nonce error. Please try again.'' ''NONCE_ERROR''
      else if str_includes errorMsg ''429'' \<or> str_includes errorMsg ''rate limit'' then
        failure ''Rate limited by RPC provider. Please try again in a moment.'' ''RATE_LIMITED''
      else
        details_result ''Transaction failed. Please verify your inputs and try again.''
          ''UNKNOWN_ERROR'' (Str (err_message err)))"

definition bsc_catch :: "jserror \<Rightarrow> jsobj" where
  "bsc_catch err =
     (let errorMsg = err_message err in
      if err_code err = Some ''NETWORK_ERROR'' then
        failure ''BSC network connection error. Please try again.'' ''NETWORK_ERROR''
      else if err_code err = Some ''TIMEOUT'' then
        failure ''Request timed out. BSC network might be congested.'' ''TIMEOUT''
      else if str_includes errorMsg ''insufficient funds'' then
        failure ''Insufficient BNB to cover transaction and gas fees'' ''INSUFFICIENT_FUNDS''
      else if str_includes errorMsg ''invalid address'' \<or> str_includes errorMsg ''invalid contract'' then
        failure ''Invalid or non-existent contract address'' ''INVALID_CONTRACT''
      else if str_includes errorMsg ''gas required exceeds allowance'' then
        failure ''Transaction requires more gas than available'' ''GAS_LIMIT_EXCEEDED''
      else if str_includes errorMsg ''nonce'' then
        failure ''Transaction nonce error. Please try again.'' ''NONCE_ERROR''
      else if str_includes errorMsg ''429'' \<or> str_includes errorMsg ''rate limit'' then
        failure ''Rate limited by BSC RPC provider. Please try again in a moment.'' ''RATE_LIMITED''
      else
        details_result ''BSC transaction failed. Please verify your inputs and try again.''
          ''UNKNOWN_ERROR'' (Str (err_message err)))"

text \<open>
  BASE, from the endpoint the connection loop chose: wallet, balance, contract, the
  candidate loop, confirmation.
\<close>

definition base_submit :: "evm_env \<Rightarrow> url \<Rightarrow> string \<Rightarrow> jsval \<Rightarrow> event list \<times> jsobj step" where
  "base_submit E u address mintQuantity =
     (let m = base_try_mint E u (base_mintFunctions address mintQuantity) None in
      case fst (snd m) of
        None \<Rightarrow> (fst m, Return (base_no_tx (snd (snd m))))
      | Some tx_hash \<Rightarrow> and_then (fst m, Next tx_hash) (evm_confirm E u))"

definition base_connected :: "evm_env \<Rightarrow> url \<Rightarrow> jsval \<Rightarrow> jsval \<Rightarrow> jsval \<Rightarrow> event list \<times> jsobj step" where
  "base_connected E u privateKey contractAddress mintQuantity =
     and_then (evm_wallet E privateKey) (\<lambda>address.
     and_then (base_balance E u address) (\<lambda>_.
     and_then (evm_contract E u contractAddress) (\<lambda>_.
     base_submit E u address mintQuantity)))"

definition base_body :: "js_runtime \<Rightarrow> evm_env \<Rightarrow> jsval \<Rightarrow> jsval \<Rightarrow> jsval \<Rightarrow> event list \<times> jsobj step" where
  "base_body R E privateKey contractAddress mintQuantity =
     (case evm_validate R E privateKey contractAddress mintQuantity of
        Some r \<Rightarrow> ([], Return r)
      | None \<Rightarrow>
          (case snd (connect (getNetwork E) base_rpcUrls) of
             None \<Rightarrow>
               (fst (connect (getNetwork E) base_rpcUrls),
                Return (failure ''Unable to connect to BASE network. All RPC endpoints are down.''
                  ''RPC_CONNECTION_FAILED''))
           | Some u \<Rightarrow>
               and_then (fst (connect (getNetwork E) base_rpcUrls), Next u)
                 (\<lambda>u. base_connected E u privateKey contractAddress mintQuantity)))"

text \<open>
  The executor itself: \<open>module.exports = async ({ privateKey, contractAddress,
  mintQuantity }) => ...\<close> applied to the object it is given.
\<close>

definition mintBASE :: "js_runtime \<Rightarrow> evm_env \<Rightarrow> jsobj \<Rightarrow> event list \<times> jsobj" where
  "mintBASE R E mintData =
     catch_all base_catch
       (base_body R E (get_prop mintData ''privateKey'') (get_prop mintData ''contractAddress'')
          (get_prop mintData ''mintQuantity''))"

text \<open>BSC has the same steps, with the fee data read before the candidate loop.\<close>

definition bsc_submit :: "evm_env \<Rightarrow> url \<Rightarrow> string \<Rightarrow> jsval \<Rightarrow> event list \<times> jsobj step" where
  "bsc_submit E u address mintQuantity =
     (let m = after_events [GetFeeData u]
                (bsc_try_mint E u (bsc_gasPrice E u) (bsc_mintFunctions address mintQuantity) None) in
      case fst (snd m) of
        None \<Rightarrow> (fst m, Return (bsc_no_tx (snd (snd m))))
      | Some tx_hash \<Rightarrow> and_then (fst m, Next tx_hash) (evm_confirm E u))"

definition bsc_connected :: "evm_env \<Rightarrow> url \<Rightarrow> jsval \<Rightarrow> jsval \<Rightarrow> jsval \<Rightarrow> event list \<times> jsobj step" where
  "bsc_connected E u privateKey contractAddress mintQuantity =
     and_then (evm_wallet E privateKey) (\<lambda>address.
     and_then (bsc_balance E u address) (\<lambda>_.
     and_then (evm_contract E u contractAddress) (\<lambda>_.
     bsc_submit E u address mintQuantity)))"

definition bsc_body :: "js_runtime \<Rightarrow> evm_env \<Rightarrow> jsval \<Rightarrow> jsval \<Rightarrow> jsval \<Rightarrow> event list \<times> jsobj step" where
  "bsc_body R E privateKey contractAddress mintQuantity =
     (case evm_validate R E privateKey contractAddress mintQuantity of
        Some r \<Rightarrow> ([], Return r)
      | None \<Rightarrow>
          (case snd (connect (getNetwork E) bsc_rpcUrls) of
             None \<Rightarrow>
               (fst (connect (getNetwork E) bsc_rpcUrls),
                Return (failure ''Unable to connect to BSC network. All RPC endpoints are down.''
                  ''RPC_CONNECTION_FAILED''))
           | Some u \<Rightarrow>
               and_then (fst (connect (getNetwork E) bsc_rpcUrls), Next u)
                 (\<lambda>u. bsc_connected E u privateKey contractAddress mintQuantity)))"

definition mintBSC :: "js_runtime \<Rightarrow> evm_env \<Rightarrow> jsobj \<Rightarrow> event list \<times> jsobj" where
  "mintBSC R E mintData =
     catch_all bsc_catch
       (bsc_body R E (get_prop mintData ''privateKey'') (get_prop mintData ''contractAddress'')
          (get_prop mintData ''mintQuantity''))"

section \<open>The SOL executor\<close>

text \<open>
  The environment of the SOL executor: \<open>@solana/web3.js\<close>, \<open>@solana/spl-token\<close>,
  \<open>bs58\<close>, \<open>JSON\<close>, \<open>Buffer\<close> and the RPC endpoints. \<open>json_bytes s\<close> is
  \<open>new Uint8Array(JSON.parse(s))\<close>, \<open>hex_bytes s\<close> is
  \<open>new Uint8Array(Buffer.from(s, 'hex'))\<close>, \<open>bs58_decode s\<close> is
  \<open>require('bs58').decode(s)\<close>; \<open>fromSecretKey\<close> and \<open>new_PublicKey\<close> give the public key
  they build, \<open>getAccountInfo\<close> the owner of the account (or \<open>None\<close> for \<open>null\<close>),
  \<open>confirmTransaction\<close> the \<open>value.err\<close> of the confirmation, and \<open>sol_toFixed4\<close> is
  \<open>(balance / LAMPORTS_PER_SOL).toFixed(4)\<close>. \<open>build_instructions\<close> stands for the two
  instruction constructors and \<open>sign_and_serialize\<close> for \<open>transaction.sign\<close> and
  \<open>transaction.serialize\<close>: local steps that may throw.
\<close>

record sol_env =
  getVersion :: "url \<Rightarrow> jserror + unit"
  json_bytes :: "string \<Rightarrow> jserror + 8 word list"
  hex_bytes :: "string \<Rightarrow> jserror + 8 word list"
  bs58_decode :: "string \<Rightarrow> jserror + 8 word list"
  fromSecretKey :: "8 word list \<Rightarrow> jserror + string"
  new_PublicKey :: "jsval \<Rightarrow> jserror + string"
  sol_getBalance :: "url \<Rightarrow> string \<Rightarrow> jserror + nat"
  sol_toFixed4 :: "nat \<Rightarrow> string"
  TOKEN_PROGRAM_ID :: string
  getAccountInfo :: "url \<Rightarrow> string \<Rightarrow> jserror + string option"
  getAssociatedTokenAddress :: "string \<Rightarrow> string \<Rightarrow> jserror + string"
  build_instructions :: "bool \<Rightarrow> jsval \<Rightarrow> jserror + unit"
  getLatestBlockhash :: "url \<Rightarrow> jserror + string"
  sign_and_serialize :: "string \<Rightarrow> jserror + unit"
  sendRawTransaction :: "url \<Rightarrow> jserror + string"
  confirmTransaction :: "url \<Rightarrow> string \<Rightarrow> jsval wait_outcome"
  JSON_stringify :: "jsval \<Rightarrow> string"

definition sol_validate :: "js_runtime \<Rightarrow> jsval \<Rightarrow> jsval \<Rightarrow> jsval \<Rightarrow> jsobj option" where
  "sol_validate R privateKey contractAddress mintQuantity =
     (if \<not> truthy privateKey then
        Some (failure ''Private key is required'' ''MISSING_PRIVATE_KEY'')
      else if \<not> truthy contractAddress then
        Some (failure ''Contract address (Mint Address) is required'' ''MISSING_CONTRACT_ADDRESS'')
      else if \<not> truthy mintQuantity \<or> js_lt R mintQuantity 1 then
        Some (failure ''Mint quantity must be at least 1'' ''INVALID_QUANTITY'')
      else None)"

definition sol_rpcUrls :: "url list" where
  "sol_rpcUrls =
     [''https://api.mainnet-beta.solana.com'', ''https://solana-api.projectserum.com'',
      ''https://rpc.ankr.com/solana'', ''https://solana.drpc.org'']"

text \<open>
  The private key parser. The three branches are chosen by the shape of the string alone;
  a value that is not a string has no \<open>startsWith\<close>, and the \<open>TypeError\<close> is caught like
  every other exception of this block.
\<close>

definition bracketed :: "string \<Rightarrow> bool" where
  "bracketed s = (prefix ''['' s \<and> suffix '']'' s)"

definition decode_secret :: "js_runtime \<Rightarrow> sol_env \<Rightarrow> jsval \<Rightarrow> jserror + 8 word list option" where
  "decode_secret R S privateKey =
     (case privateKey of
        Str s \<Rightarrow>
          if bracketed s then map_sum id Some (json_bytes S s)
          else if length s = 128 then map_sum id Some (hex_bytes S s)
          else if length s = 88 then map_sum id Some (bs58_decode S s)
          else Inr None
      | v \<Rightarrow> Inl (TypeError R v ''startsWith''))"

definition sol_keypair :: "js_runtime \<Rightarrow> sol_env \<Rightarrow> jsval \<Rightarrow> event list \<times> string step" where
  "sol_keypair R S privateKey =
     ([ParseKey],
      case decode_secret R S privateKey of
        Inl keyError \<Rightarrow>
          Return (failure ''Invalid private key format or corrupted key'' ''INVALID_PRIVATE_KEY'')
      | Inr None \<Rightarrow>
          Return (failure ''Invalid private key format. Use base58, hex, or array format.''
            ''INVALID_PRIVATE_KEY_FORMAT'')
      | Inr (Some secretKey) \<Rightarrow>
          if length secretKey \<noteq> 64 then
            Return (failure ''Private key must be 64 bytes long'' ''INVALID_PRIVATE_KEY_LENGTH'')
          else
            (case fromSecretKey S secretKey of
               Inl keyError \<Rightarrow>
                 Return (failure ''Invalid private key format or corrupted key'' ''INVALID_PRIVATE_KEY'')
             | Inr publicKey \<Rightarrow> Next publicKey))"

definition sol_mint_address :: "sol_env \<Rightarrow> jsval \<Rightarrow> event list \<times> string step" where
  "sol_mint_address S contractAddress =
     ([],
      case new_PublicKey S contractAddress of
        Inl addressError \<Rightarrow>
          Return (failure ''Invalid Solana contract address format'' ''INVALID_ADDRESS_FORMAT'')
      | Inr mintPublicKey \<Rightarrow> Next mintPublicKey)"

text \<open>
  The balance check compares \<open>balance / LAMPORTS_PER_SOL\<close> with the double \<open>0.01\<close>; the
  balance is a whole number of lamports (\<open>10^-9\<close> SOL), so the comparison holds exactly
  when the balance is below \<open>10^7\<close> lamports.
\<close>

definition sol_min_lamports :: nat where
  "sol_min_lamports = 10 ^ 7"

definition sol_balance :: "sol_env \<Rightarrow> url \<Rightarrow> string \<Rightarrow> event list \<times> unit step" where
  "sol_balance S u publicKey =
     ([GetBalance u publicKey],
      case sol_getBalance S u publicKey of
        Inl balanceError \<Rightarrow> Return (failure ''Failed to check wallet balance'' ''BALANCE_CHECK_FAILED'')
      | Inr balance \<Rightarrow>
          if balance < sol_min_lamports then
            Return (failure
              (''Insufficient SOL balance. Current: '' @ sol_toFixed4 S balance @
               '' SOL. Minimum required: 0.01 SOL'')
              ''INSUFFICIENT_BALANCE'')
          else Next ())"

definition sol_mint_account :: "sol_env \<Rightarrow> url \<Rightarrow> string \<Rightarrow> event list \<times> unit step" where
  "sol_mint_account S u mintPublicKey =
     ([GetAccountInfo u mintPublicKey],
      case getAccountInfo S u mintPublicKey of
        Inl mintError \<Rightarrow> Return (failure ''Failed to verify mint account'' ''MINT_VERIFICATION_FAILED'')
      | Inr None \<Rightarrow>
          Return (failure ''Mint account not found. Invalid contract address.'' ''MINT_NOT_FOUND'')
      | Inr (Some owner) \<Rightarrow>
          if owner \<noteq> TOKEN_PROGRAM_ID S then
            Return (failure ''Provided address is not a valid SPL token mint'' ''INVALID_MINT_ACCOUNT'')
          else Next ())"

text \<open>
  The transaction block. A step that throws ends the block with its exception; the
  events up to and including that step have happened.
\<close>

definition try_step ::
  "event list \<Rightarrow> jserror + 'a \<Rightarrow> ('a \<Rightarrow> event list \<times> (jserror + 'b)) \<Rightarrow> event list \<times> (jserror + 'b)" where
  "try_step evs r f =
     (case r of
        Inl e \<Rightarrow> (evs, Inl e)
      | Inr x \<Rightarrow> (evs @ fst (f x), snd (f x)))"

definition sol_transaction_failed :: "sol_env \<Rightarrow> jsval \<Rightarrow> string \<Rightarrow> jsobj" where
  "sol_transaction_failed S err signature =
     [(''success'', Bool False),
      (''msg'', Str (''Transaction failed: '' @ JSON_stringify S err)),
      (''code'', Str ''TRANSACTION_FAILED''),
      (''signature'', Str signature)]"

definition sol_success :: "string \<Rightarrow> string \<Rightarrow> jsobj" where
  "sol_success signature associatedTokenAccount =
     [(''success'', Bool True),
      (''txHash'', Str signature),
      (''associatedTokenAccount'', Str associatedTokenAccount)]"

definition sol_try_transaction ::
  "sol_env \<Rightarrow> url \<Rightarrow> string \<Rightarrow> string \<Rightarrow> jsval \<Rightarrow> event list \<times> (jserror + jsobj)" where
  "sol_try_transaction S u publicKey mintPublicKey mintQuantity =
     try_step [] (getAssociatedTokenAddress S mintPublicKey publicKey) (\<lambda>associatedTokenAccount.
     try_step [GetAccountInfo u associatedTokenAccount] (getAccountInfo S u associatedTokenAccount)
       (\<lambda>accountInfo.
     try_step [] (build_instructions S (accountInfo = None) mintQuantity) (\<lambda>_.
     try_step [GetLatestBlockhash u] (getLatestBlockhash S u) (\<lambda>blockhash.
     try_step [] (sign_and_serialize S blockhash) (\<lambda>_.
     try_step [SendRawTransaction u] (sendRawTransaction S u) (\<lambda>signature.
     try_step [ConfirmTransaction u signature]
       (race_with_timeout (confirmTransaction S u signature)) (\<lambda>err.
     ([], Inr (if truthy err then sol_transaction_failed S err signature
               else sol_success signature associatedTokenAccount)))))))))"

text \<open>\<open>catch (transactionError)\<close>: the result is chosen by the message alone.\<close>

definition sol_transaction_error :: "jserror \<Rightarrow> jsobj" where
  "sol_transaction_error transactionError =
     (let errorMsg = err_message transactionError in
      if str_includes errorMsg ''insufficient funds'' then
        failure ''Insufficient SOL for transaction fees'' ''INSUFFICIENT_FUNDS''
      else if str_includes errorMsg ''custom program error: 0x1'' then
        failure ''Insufficient funds in mint account'' ''MINT_INSUFFICIENT_FUNDS''
      else if str_includes errorMsg ''custom program error: 0x0'' then
        failure (''Mint authority error - you don'' @ [quote_char] @ ''t have permission to mint'')
          ''MINT_AUTHORITY_ERROR''
      else if str_includes errorMsg ''InvalidAccountData'' then
        failure ''Invalid account data - contract address may be incorrect'' ''INVALID_ACCOUNT_DATA''
      else if str_includes errorMsg ''AccountNotFound'' then
        failure ''Account not found - invalid contract address'' ''ACCOUNT_NOT_FOUND''
      else if str_includes errorMsg ''timeout'' then
        failure ''Transaction timed out. It may still be processing.'' ''TRANSACTION_TIMEOUT''
      else if str_includes errorMsg ''blockhash not found'' then
        failure ''Transaction expired. Please try again.'' ''BLOCKHASH_EXPIRED''
      else
        details_result ''Solana transaction failed. Please verify contract address and try again.''
          ''TRANSACTION_ERROR'' (Str errorMsg))"

definition sol_transaction ::
  "sol_env \<Rightarrow> url \<Rightarrow> string \<Rightarrow> string \<Rightarrow> jsval \<Rightarrow> event list \<times> jsobj step" where
  "sol_transaction S u publicKey mintPublicKey mintQuantity =
     (fst (sol_try_transaction S u publicKey mintPublicKey mintQuantity),
      case snd (sol_try_transaction S u publicKey mintPublicKey mintQuantity) of
        Inl transactionError \<Rightarrow> Return (sol_transaction_error transactionError)
      | Inr r \<Rightarrow> Return r)"

definition sol_catch :: "jserror \<Rightarrow> jsobj" where
  "sol_catch err =
     (if err_code err = Some ''ENOTFOUND'' \<or> err_code err = Some ''ECONNREFUSED'' then
        failure ''Network connection error. Please check your internet.'' ''NETWORK_ERROR''
      else if err_code err = Some ''TIMEOUT'' then
        failure ''Solana network request timed out. Please try again.'' ''TIMEOUT''
      else if str_includes (err_message err) ''429'' \<or> str_includes (err_message err) ''rate limit'' then
        failure ''Rate limited by Solana RPC. Please try again in a moment.'' ''RATE_LIMITED''
      else
        details_result ''Solana minting failed. Please verify your inputs and try again.''
          ''UNKNOWN_ERROR'' (Str (err_message err)))"

definition sol_connected ::
  "js_runtime \<Rightarrow> sol_env \<Rightarrow> url \<Rightarrow> jsval \<Rightarrow> jsval \<Rightarrow> jsval \<Rightarrow> event list \<times> jsobj step" where
  "sol_connected R S u privateKey contractAddress mintQuantity =
     and_then (sol_keypair R S privateKey) (\<lambda>publicKey.
     and_then (sol_mint_address S contractAddress) (\<lambda>mintPublicKey.
     and_then (sol_balance S u publicKey) (\<lambda>_.
     and_then (sol_mint_account S u mintPublicKey) (\<lambda>_.
     sol_transaction S u publicKey mintPublicKey mintQuantity))))"

definition sol_body ::
  "js_runtime \<Rightarrow> sol_env \<Rightarrow> jsval \<Rightarrow> jsval \<Rightarrow> jsval \<Rightarrow> event list \<times> jsobj step" where
  "sol_body R S privateKey contractAddress mintQuantity =
     (case sol_validate R privateKey contractAddress mintQuantity of
        Some r \<Rightarrow> ([], Return r)
      | None \<Rightarrow>
          (case snd (connect (getVersion S) sol_rpcUrls) of
             None \<Rightarrow>
               (fst (connect (getVersion S) sol_rpcUrls),
                Return (failure ''Unable to connect to Solana network. All RPC endpoints are down.''
                  ''RPC_CONNECTION_FAILED''))
           | Some u \<Rightarrow>
               and_then (fst (connect (getVersion S) sol_rpcUrls), Next u)
                 (\<lambda>u. sol_connected R S u privateKey contractAddress mintQuantity)))"

definition mintSOL :: "js_runtime \<Rightarrow> sol_env \<Rightarrow> jsobj \<Rightarrow> event list \<times> jsobj" where
  "mintSOL R S mintData =
     catch_all sol_catch
       (sol_body R S (get_prop mintData ''privateKey'') (get_prop mintData ''contractAddress'')
          (get_prop mintData ''mintQuantity''))"

section \<open>The SUI executor\<close>

text \<open>
  Property reads on a value that came off the wire. \<open>js_member\<close> reads a property whose
  name is not an array index, \<open>js_first\<close> reads \<open>v[0]\<close>; both throw on \<open>undefined\<close> and
  \<open>null\<close>. \<open>js_includes\<close> is the method call \<open>v.includes(p)\<close>, which strings and arrays
  have and no other JSON value has.
\<close>

fun js_member :: "js_runtime \<Rightarrow> jsval \<Rightarrow> string \<Rightarrow> jserror + jsval" where
  "js_member R Undefined k = Inl (TypeError R Undefined k)"
| "js_member R Null k = Inl (TypeError R Null k)"
| "js_member R (Obj kvs) k = Inr (get_prop kvs k)"
| "js_member R (Arr xs) k = Inr (if k = ''length'' then Num (of_nat (length xs)) else Undefined)"
| "js_member R (Str s) k = Inr (if k = ''length'' then Num (of_nat (length s)) else Undefined)"
| "js_member R (Num r) k = Inr Undefined"
| "js_member R (Bool b) k = Inr Undefined"

fun js_first :: "js_runtime \<Rightarrow> jsval \<Rightarrow> jserror + jsval" where
  "js_first R Undefined = Inl (TypeError R Undefined ''0'')"
| "js_first R Null = Inl (TypeError R Null ''0'')"
| "js_first R (Obj kvs) = Inr (get_prop kvs ''0'')"
| "js_first R (Arr xs) = Inr (case xs of [] \<Rightarrow> Undefined | x # _ \<Rightarrow> x)"
| "js_first R (Str s) = Inr (case s of [] \<Rightarrow> Undefined | c # _ \<Rightarrow> Str [c])"
| "js_first R (Num r) = Inr Undefined"
| "js_first R (Bool b) = Inr Undefined"

fun js_includes :: "js_runtime \<Rightarrow> jsval \<Rightarrow> string \<Rightarrow> jserror + bool" where
  "js_includes R (Str s) p = Inr (str_includes s p)"
| "js_includes R (Arr xs) p = Inr (Str p \<in> set xs)"
| "js_includes R v p = Inl (TypeError R v ''includes'')"

text \<open>
  The same read where it cannot throw: \<open>v?.k\<close>, which is \<open>undefined\<close> when \<open>v\<close> is
  \<open>undefined\<close> or \<open>null\<close>, and \<open>v.k\<close> on a value the code has just tested to be truthy.
\<close>

fun js_read :: "jsval \<Rightarrow> string \<Rightarrow> jsval" where
  "js_read Undefined k = Undefined"
| "js_read Null k = Undefined"
| "js_read (Obj kvs) k = get_prop kvs k"
| "js_read (Arr xs) k = (if k = ''length'' then Num (of_nat (length xs)) else Undefined)"
| "js_read (Str s) k = (if k = ''length'' then Num (of_nat (length s)) else Undefined)"
| "js_read (Num r) k = Undefined"
| "js_read (Bool b) k = Undefined"

text \<open>\<open>a || b\<close>.\<close>

definition js_or :: "jsval \<Rightarrow> jsval \<Rightarrow> jsval" where
  "js_or a b = (if truthy a then a else b)"

text \<open>
  \<open>collectionId.match(/^[a-fA-F0-9]+$/)\<close>: only a string has \<open>match\<close>; the pattern matches
  a non-empty string of hexadecimal digits.
\<close>

definition hex_digit :: "char \<Rightarrow> bool" where
  "hex_digit c = (c \<in> set ''0123456789abcdefABCDEF'')"

definition matches_hex :: "js_runtime \<Rightarrow> jsval \<Rightarrow> jserror + bool" where
  "matches_hex R collectionId =
     (case collectionId of
        Str s \<Rightarrow> Inr (s \<noteq> [] \<and> list_all hex_digit s)
      | v \<Rightarrow> Inl (TypeError R v ''match''))"

text \<open>
  The environment of the SUI executor: the three variables of \<open>process.env\<close> and the
  HTTP transport. \<open>http_post n\<close> is what the \<open>n\<close>-th request meets: a transport error or
  a response. \<open>status_error\<close> is the error \<open>axios\<close> throws for a status its
  \<open>validateStatus\<close> refuses.
\<close>

record http_response =
  response_status :: nat
  response_data :: jsval

record sui_env =
  INDEXER_ENDPOINT :: "string option"
  TRADEPORT_API_USER :: "string option"
  TRADEPORT_API_KEY :: "string option"
  http_post :: "nat \<Rightarrow> jserror + http_response"
  status_error :: "http_response \<Rightarrow> jserror"

text \<open>\<open>!process.env.X\<close>: the variable is unset or empty.\<close>

definition env_missing :: "string option \<Rightarrow> bool" where
  "env_missing v = (case v of None \<Rightarrow> True | Some s \<Rightarrow> s = [])"

text \<open>\<open>axios(requestConfig)\<close> with \<open>validateStatus: status < 500\<close>.\<close>

definition axios :: "sui_env \<Rightarrow> nat \<Rightarrow> jserror + http_response" where
  "axios E n =
     (case http_post E n of
        Inl e \<Rightarrow> Inl e
      | Inr response \<Rightarrow>
          if response_status response < 500 then Inr response else Inl (status_error E response))"

definition sui_validate ::
  "js_runtime \<Rightarrow> sui_env \<Rightarrow> jsval \<Rightarrow> jsval \<Rightarrow> jsval \<Rightarrow> jsval \<Rightarrow> event list \<times> unit step" where
  "sui_validate R E privateKey collectionId mintQuantity mintStage =
     ([],
      if \<not> truthy privateKey then
        Return (failure ''Private key is required'' ''MISSING_PRIVATE_KEY'')
      else if \<not> truthy collectionId then
        Return (failure ''Collection ID is required'' ''MISSING_COLLECTION_ID'')
      else if \<not> truthy mintStage then
        Return (failure ''Mint stage is required'' ''MISSING_MINT_STAGE'')
      else if \<not> truthy mintQuantity \<or> js_lt R mintQuantity 1 then
        Return (failure ''Mint quantity must be at least 1'' ''INVALID_QUANTITY'')
      else if js_gt R mintQuantity 100 then
        Return (failure ''Mint quantity cannot exceed 100'' ''QUANTITY_TOO_HIGH'')
      else if js_lt R (js_read privateKey ''length'') 32 then
        Return (failure ''Private key appears to be too short'' ''INVALID_PRIVATE_KEY_LENGTH'')
      else
        (case matches_hex R collectionId of
           Inl e \<Rightarrow> Throw e
         | Inr matched \<Rightarrow>
             if \<not> matched then
               Return (failure ''Invalid collection ID format'' ''INVALID_COLLECTION_ID_FORMAT'')
             else if env_missing (INDEXER_ENDPOINT E) then
               Return (failure ''SUI indexer endpoint not configured'' ''MISSING_INDEXER_ENDPOINT'')
             else if env_missing (TRADEPORT_API_USER E) \<or> env_missing (TRADEPORT_API_KEY E) then
               Return (failure ''TradePort API credentials not configured'' ''MISSING_API_CREDENTIALS'')
             else Next ()))"

text \<open>
  The retry loop, \<open>for (attempt = 1; attempt <= maxRetries; attempt++)\<close>, over its three
  attempt numbers. It ends with the response, with a result (after the last attempt
  failed with one of three transport codes), or with no response and \<open>lastError\<close>.
\<close>

definition maxRetries :: nat where
  "maxRetries = 3"

definition sui_attempt_numbers :: "nat list" where
  "sui_attempt_numbers = [1, 2, 3]"

definition step_after :: "event list \<Rightarrow> event list \<times> 'a step \<Rightarrow> event list \<times> 'a step" where
  "step_after evs m = (evs @ fst m, snd m)"

fun sui_retry ::
  "sui_env \<Rightarrow> nat list \<Rightarrow> jserror option \<Rightarrow> event list \<times> (http_response option \<times> jserror option) step" where
  "sui_retry E [] lastError = ([], Next (None, lastError))"
| "sui_retry E (attempt # rest) lastError =
     (case axios E attempt of
        Inr response \<Rightarrow> ([AxiosPost attempt], Next (Some response, lastError))
      | Inl networkError \<Rightarrow>
          if attempt = maxRetries then
            (if err_code networkError = Some ''ECONNABORTED'' then
               ([AxiosPost attempt],
                Return (failure ''Request timed out. SUI network might be congested.'' ''REQUEST_TIMEOUT''))
             else if err_code networkError = Some ''ENOTFOUND'' then
               ([AxiosPost attempt],
                Return (failure ''Cannot reach SUI indexer endpoint. Check network connection.''
                  ''NETWORK_UNREACHABLE''))
             else if err_code networkError = Some ''ECONNREFUSED'' then
               ([AxiosPost attempt],
                Return (failure ''SUI indexer endpoint refused connection.'' ''CONNECTION_REFUSED''))
             else step_after [AxiosPost attempt] (sui_retry E rest (Some networkError)))
          else
            step_after [AxiosPost attempt, Delay (1000 * attempt)]
              (sui_retry E rest (Some networkError)))"

text \<open>\<open>details: lastError?.message\<close>.\<close>

definition sui_connection_failed :: "jserror option \<Rightarrow> jsobj" where
  "sui_connection_failed lastError =
     details_result ''Failed to connect to SUI network after multiple attempts'' ''CONNECTION_FAILED''
       (case lastError of None \<Rightarrow> Undefined | Some e \<Rightarrow> Str (err_message e))"

definition sui_http_error :: "http_response \<Rightarrow> jsobj" where
  "sui_http_error response =
     (if response_status response = 401 then
        failure ''Invalid API credentials'' ''INVALID_CREDENTIALS''
      else if response_status response = 403 then
        failure ''Access forbidden. Check API permissions.'' ''ACCESS_FORBIDDEN''
      else if response_status response = 404 then
        failure ''SUI indexer endpoint not found'' ''ENDPOINT_NOT_FOUND''
      else if response_status response = 429 then
        failure ''Rate limited by SUI API. Please try again later.'' ''RATE_LIMITED''
      else
        details_result (''SUI API error: HTTP '' @ decimal (response_status response)) ''HTTP_ERROR''
          (response_data response))"

text \<open>The mapping of the first GraphQL error; \<open>message\<close> is \<open>error.message\<close>.\<close>

definition sui_graphql_error :: "js_runtime \<Rightarrow> jsval \<Rightarrow> jserror + jsobj" where
  "sui_graphql_error R message =
     (case js_includes R message ''insufficient'' of
        Inl e \<Rightarrow> Inl e
      | Inr _ \<Rightarrow>
          Inr (if js_includes R message ''insufficient'' = Inr True then
                 details_result ''Insufficient balance for minting'' ''INSUFFICIENT_BALANCE'' message
               else if js_includes R message ''not found'' = Inr True then
                 details_result ''Collection not found or invalid collection ID''
                   ''COLLECTION_NOT_FOUND'' message
               else if js_includes R message ''unauthorized'' = Inr True then
                 details_result ''Unauthorized to mint from this collection'' ''MINT_UNAUTHORIZED'' message
               else if js_includes R message ''sold out'' = Inr True
                       \<or> js_includes R message ''exceeds'' = Inr True then
                 details_result ''Mint quantity exceeds available supply'' ''MINT_SOLD_OUT'' message
               else if js_includes R message ''not active'' = Inr True then
                 details_result ''Mint stage is not currently active'' ''MINT_STAGE_INACTIVE'' message
               else details_result ''GraphQL error occurred'' ''GRAPHQL_ERROR'' message))"

definition sui_mint_failed :: "js_runtime \<Rightarrow> jsval \<Rightarrow> jsobj" where
  "sui_mint_failed R mintResult =
     (let error = js_read mintResult ''error'';
          errorMsg = js_or (js_read error ''message'') (Str ''Unknown mint error'');
          errorCode = js_or (js_read error ''code'') (Str ''MINT_FAILED'')
      in [(''success'', Bool False),
          (''msg'', Str (''Mint failed: '' @ ToString R errorMsg)),
          (''code'', errorCode),
          (''details'', error)])"

definition sui_success :: "js_runtime \<Rightarrow> jsval \<Rightarrow> jsval \<Rightarrow> jsval \<Rightarrow> jsobj" where
  "sui_success R digest mintQuantity collectionId =
     [(''success'', Bool True),
      (''msg'', Str (''Successfully minted '' @ ToString R mintQuantity @ '' NFT(s)'')),
      (''code'', Str ''MINT_SUCCESS''),
      (''transactionHash'', digest),
      (''quantity'', mintQuantity),
      (''collectionId'', collectionId)]"

text \<open>
  Reading the response. \<open>data\<close> is \<open>response.data\<close>, truthy here, so the reads on it do
  not throw; the reads on the first GraphQL error can.
\<close>

definition sui_read_data :: "js_runtime \<Rightarrow> jsval \<Rightarrow> jsval \<Rightarrow> jsval \<Rightarrow> jsobj step" where
  "sui_read_data R data mintQuantity collectionId =
     (let errors = js_read data ''errors'' in
      if truthy errors \<and> js_gt R (js_read errors ''length'') 0 then
        (case js_first R errors of
           Inl e \<Rightarrow> Throw e
         | Inr error \<Rightarrow>
             (case js_member R error ''message'' of
                Inl e \<Rightarrow> Throw e
              | Inr message \<Rightarrow>
                  (case sui_graphql_error R message of
                     Inl e \<Rightarrow> Throw e
                   | Inr r \<Rightarrow> Return r)))
      else if \<not> truthy (js_read data ''data'')
              \<or> \<not> truthy (js_read (js_read data ''data'') ''mintNFT'') then
        Return (failure ''Invalid response structure from SUI API'' ''INVALID_RESPONSE_STRUCTURE'')
      else
        (let mintResult = js_read (js_read data ''data'') ''mintNFT'' in
         if \<not> truthy (js_read mintResult ''success'') then Return (sui_mint_failed R mintResult)
         else if truthy (js_read mintResult ''transactionBlockDigest'') then
           Return (sui_success R (js_read mintResult ''transactionBlockDigest'')
                     mintQuantity collectionId)
         else
           Return (failure ''Mint completed but no transaction hash returned''
                     ''MISSING_TRANSACTION_HASH'')))"

definition sui_read_response ::
  "js_runtime \<Rightarrow> http_response option \<times> jserror option \<Rightarrow> jsval \<Rightarrow> jsval \<Rightarrow> event list \<times> jsobj step" where
  "sui_read_response R outcome mintQuantity collectionId =
     ([],
      case fst outcome of
        None \<Rightarrow> Return (sui_connection_failed (snd outcome))
      | Some response \<Rightarrow>
          if response_status response \<ge> 400 then Return (sui_http_error response)
          else if \<not> truthy (response_data response) then
            Return (failure ''Empty response from SUI API'' ''EMPTY_RESPONSE'')
          else sui_read_data R (response_data response) mintQuantity collectionId)"

definition sui_catch :: "jserror \<Rightarrow> jsobj" where
  "sui_catch error =
     (if err_name error = ''ValidationError'' then
        details_result ''Validation error occurred'' ''VALIDATION_ERROR'' (Str (err_message error))
      else if err_name error = ''TypeError'' then
        details_result ''Type error in request'' ''TYPE_ERROR'' (Str (err_message error))
      else
        details_result ''An unexpected error occurred during minting'' ''UNEXPECTED_ERROR''
          (Str (err_message error)))"

definition sui_body ::
  "js_runtime \<Rightarrow> sui_env \<Rightarrow> jsval \<Rightarrow> jsval \<Rightarrow> jsval \<Rightarrow> jsval \<Rightarrow> event list \<times> jsobj step" where
  "sui_body R E privateKey collectionId mintQuantity mintStage =
     and_then (sui_validate R E privateKey collectionId mintQuantity mintStage) (\<lambda>_.
     and_then (sui_retry E sui_attempt_numbers None) (\<lambda>outcome.
     sui_read_response R outcome mintQuantity collectionId))"

definition mintSUI :: "js_runtime \<Rightarrow> sui_env \<Rightarrow> jsobj \<Rightarrow> event list \<times> jsobj" where
  "mintSUI R E mintData =
     catch_all sui_catch
       (sui_body R E (get_prop mintData ''privateKey'') (get_prop mintData ''collectionId'')
          (get_prop mintData ''mintQuantity'') (get_prop mintData ''mintStage''))"

section \<open>The dispatcher\<close>

text \<open>
  \<open>String.prototype.toUpperCase\<close> on the letters \<open>a\<close> to \<open>z\<close>. The other characters
  are left as they are. Among the 8-bit characters of this model JavaScript changes some
  of them too, but only the sharp s becomes ASCII letters (\<open>SS\<close>), and no chain tag
  contains \<open>SS\<close>: whether the upper-cased string equals one of the four tags is decided
  here as it is in JavaScript.
\<close>

definition upper_char :: "char \<Rightarrow> char" where
  "upper_char c =
     (case map_of (zip ''abcdefghijklmnopqrstuvwxyz'' ''ABCDEFGHIJKLMNOPQRSTUVWXYZ'') c of
        Some u \<Rightarrow> u
      | None \<Rightarrow> c)"

definition toUpperCase :: "string \<Rightarrow> string" where
  "toUpperCase s = map upper_char s"

record http_reply =
  reply_status :: nat
  reply_body :: jsobj

text \<open>\<open>res.status(200).json({ success: true, ...result })\<close>.\<close>

definition respond_ok :: "event list \<times> jsobj \<Rightarrow> event list \<times> http_reply" where
  "respond_ok m =
     (fst m, \<lparr>reply_status = 200, reply_body = spread [(''success'', Bool True)] (snd m)\<rparr>)"

definition sol_stub :: jsobj where
  "sol_stub = [(''success'', Bool False), (''msg'', Str ''SOL mint not yet implemented'')]"

text \<open>
  \<open>handleMint\<close>, with \<open>const { chain, ...mintData } = req.body\<close>. Only a string has
  \<open>toUpperCase\<close>; for any other \<open>chain\<close> the call throws a \<open>TypeError\<close> inside the \<open>try\<close>.
  The three executors catch every exception themselves, so the dispatcher's \<open>catch\<close> is
  reached from that call only.
\<close>

definition handleMint ::
  "js_runtime \<Rightarrow> sui_env \<Rightarrow> evm_env \<Rightarrow> evm_env \<Rightarrow> jsobj \<Rightarrow> event list \<times> http_reply" where
  "handleMint R sui bsc base body =
     (let chain = get_prop body ''chain'';
          mintData = filter (\<lambda>kv. fst kv \<noteq> ''chain'') body
      in case chain of
           Str s \<Rightarrow>
             if toUpperCase s = ''SUI'' then respond_ok (mintSUI R sui mintData)
             else if toUpperCase s = ''BSC'' then respond_ok (mintBSC R bsc mintData)
             else if toUpperCase s = ''BASE'' then respond_ok (mintBASE R base mintData)
             else if toUpperCase s = ''SOL'' then respond_ok ([], sol_stub)
             else
               ([], \<lparr>reply_status = 400,
                     reply_body = [(''success'', Bool False), (''msg'', Str ''Unsupported chain'')]\<rparr>)
         | v \<Rightarrow>
             ([], \<lparr>reply_status = 500,
                   reply_body =
                     [(''success'', Bool False), (''msg'', Str ''Minting error''),
                      (''error'', Str (err_message (TypeError R v ''toUpperCase'')))]\<rparr>))"

section \<open>Properties of results and traces\<close>

text \<open>
  The invariant of a MintResult: exactly one of "success is true and a transaction hash
  is present" and "success is false and a code is set". The SUI executor names the hash
  \<open>transactionHash\<close>, the others \<open>txHash\<close>.
\<close>

definition hash_present :: "jsobj \<Rightarrow> bool" where
  "hash_present r = (get_prop r ''txHash'' \<noteq> Undefined \<or> get_prop r ''transactionHash'' \<noteq> Undefined)"

definition code_set :: "jsobj \<Rightarrow> bool" where
  "code_set r = (get_prop r ''code'' \<noteq> Undefined)"

definition mint_result_inv :: "jsobj \<Rightarrow> bool" where
  "mint_result_inv r =
     ((get_prop r ''success'' = Bool True \<and> hash_present r)
      \<noteq> (get_prop r ''success'' = Bool False \<and> code_set r))"

text \<open>
  What trying one candidate mint function comes to, in the words of the specification: a
  candidate is workable when the contract exposes it and a submission of it succeeds, and
  then this is the gas limit and the hash of that submission. On BSC the first submission
  carries the estimate plus 50000 and a second one the fixed limit 300000; on BASE a
  candidate is submitted once, with the limit 500000, and only after its estimate
  succeeded. The loops are compared with these below.
\<close>

definition bsc_candidate :: "evm_env \<Rightarrow> url \<Rightarrow> nat \<Rightarrow> mint_call \<Rightarrow> (nat \<times> string) option" where
  "bsc_candidate E u gasPrice func =
     (if \<not> has_function E (fn_name func) then None
      else
        (case estimateGas E u func of
           Inr g \<Rightarrow>
             (case sendTransaction E u func 0 (g + 50000) gasPrice of
                Inr tx \<Rightarrow> Some (g + 50000, tx)
              | Inl _ \<Rightarrow>
                  (case sendTransaction E u func 1 300000 gasPrice of
                     Inr tx \<Rightarrow> Some (300000, tx)
                   | Inl _ \<Rightarrow> None))
         | Inl _ \<Rightarrow>
             (case sendTransaction E u func 1 300000 gasPrice of
                Inr tx \<Rightarrow> Some (300000, tx)
              | Inl _ \<Rightarrow> None)))"

definition base_candidate :: "evm_env \<Rightarrow> url \<Rightarrow> mint_call \<Rightarrow> (nat \<times> string) option" where
  "base_candidate E u func =
     (if \<not> has_function E (fn_name func) then None
      else
        (case estimateGas E u func of
           Inr g \<Rightarrow>
             (case sendTransaction E u func 0 500000 (gwei 20) of
                Inr tx \<Rightarrow> Some (500000, tx)
              | Inl _ \<Rightarrow> None)
         | Inl _ \<Rightarrow> None))"

text \<open>An event that puts a transaction on the network.\<close>

fun submits :: "event \<Rightarrow> bool" where
  "submits (SendTransaction u f gasLimit gasPrice) = True"
| "submits (SendRawTransaction u) = True"
| "submits (AxiosPost n) = True"
| "submits _ = False"

text \<open>
  \<open>returns P m\<close>: if the step \<open>m\<close> makes the executor return, the result satisfies \<open>P\<close>;
  \<open>finishes P m\<close> says the same of a last step, whose value is the result as well.
\<close>

definition returns :: "(jsobj \<Rightarrow> bool) \<Rightarrow> event list \<times> 'a step \<Rightarrow> bool" where
  "returns P m = (case snd m of Return r \<Rightarrow> P r | Throw e \<Rightarrow> True | Next x \<Rightarrow> True)"

definition finishes :: "(jsobj \<Rightarrow> bool) \<Rightarrow> event list \<times> jsobj step \<Rightarrow> bool" where
  "finishes P m = (case snd m of Return r \<Rightarrow> P r | Throw e \<Rightarrow> True | Next x \<Rightarrow> P x)"

text \<open>The object literals each executor can return.\<close>

inductive evm_shape :: "evm_env \<Rightarrow> jsobj \<Rightarrow> bool" for E :: evm_env where
  evm_failure: "evm_shape E (failure m c)"
| evm_details: "evm_shape E (details_result m c d)"
| evm_timed_out: "evm_shape E (evm_timeout h)"
| evm_succeeded: "wait_tx E u h = Resolved rc \<Longrightarrow> evm_shape E (evm_success rc)"

inductive sol_shape :: "sol_env \<Rightarrow> jsobj \<Rightarrow> bool" for S :: sol_env where
  sol_failure: "sol_shape S (failure m c)"
| sol_details: "sol_shape S (details_result m c d)"
| sol_failed_on_chain: "sol_shape S (sol_transaction_failed S err signature)"
| sol_succeeded: "sol_shape S (sol_success signature account)"

inductive sui_shape :: "js_runtime \<Rightarrow> jsobj \<Rightarrow> bool" for R :: js_runtime where
  sui_failure: "sui_shape R (failure m c)"
| sui_details: "sui_shape R (details_result m c d)"
| sui_failed_mint: "sui_shape R (sui_mint_failed R mintResult)"
| sui_succeeded: "truthy digest \<Longrightarrow> sui_shape R (sui_success R digest q c)"

section \<open>Mock environments\<close>

text \<open>
  Concrete environments, in the manner of the mocks the specification's testable
  properties call for, on which the theorems are instantiated. The mock engine reads the
  empty string as 0 and a string of decimal digits as its value, and every other string
  as NaN; it prints a number by the decimal digits of its integer part.
\<close>

definition mock_StringToNumber :: "string \<Rightarrow> jsnum" where
  "mock_StringToNumber s =
     (if s = [] then Fin 0
      else if list_all (\<lambda>c. c \<in> set ''0123456789'') s then
        Fin (of_nat (foldl (\<lambda>n c. 10 * n + (of_char c - 48)) 0 s))
      else NaN)"

definition mock_runtime :: js_runtime where
  "mock_runtime =
     \<lparr>StringToNumber = mock_StringToNumber,
      ToString_nonstring = (\<lambda>v. case v of Num r \<Rightarrow> decimal (nat \<lfloor>r\<rfloor>) | _ \<Rightarrow> ''[object Object]''),
      TypeError_message = (\<lambda>v p. p @ '' is not a function'')\<rparr>"

definition mock_key :: string where
  "mock_key = ''0x0123456789abcdef0123456789abcdef0123456789abcdef0123456789abcdef''"

definition mock_contract :: string where
  "mock_contract = ''0x00000000000000000000000000000000000000c1''"

definition mock_address :: string where
  "mock_address = ''0x00000000000000000000000000000000000000a1''"

text \<open>
  The receipt of a confirmed transaction as version 6 of \<open>ethers\<close> gives it, the version
  whose interface the executors use (\<open>ethers.JsonRpcProvider\<close>, \<open>ethers.parseUnits\<close>): the
  hash of the transaction is its \<open>hash\<close> property, and the \<open>transactionHash\<close> property the
  executors read is not defined.
\<close>

definition mock_receipt :: receipt where
  "mock_receipt =
     \<lparr>receipt_status = Some 1, receipt_transactionHash = Undefined,
      receipt_gasUsed = 85000, receipt_blockNumber = 123\<rparr>"

text \<open>An EVM network on which everything succeeds; the scenarios below change one answer.\<close>

definition mock_evm :: evm_env where
  "mock_evm =
     \<lparr>isAddress = (\<lambda>v. v = Str mock_contract),
      getNetwork = (\<lambda>u. Inr ()),
      new_Wallet = (\<lambda>k. if k = Str mock_key then Inr mock_address
                         else Inl (JSError ''TypeError'' ''invalid private key'' (Some ''INVALID_ARGUMENT''))),
      getBalance = (\<lambda>u a. Inr (2 * 10 ^ 18)),
      balance_toFixed4 = (\<lambda>b. decimal (b div 10 ^ 18) @ ''.'' @ tl (decimal (10000 + b div 10 ^ 14 mod 10000))),
      new_Contract = (\<lambda>a. Inr ()),
      getCode = (\<lambda>u a. Inr ''0x6080''),
      getFeeData = (\<lambda>u. Inr (Some (gwei 3))),
      has_function = (\<lambda>n. True),
      estimateGas = (\<lambda>u f. Inr 90000),
      sendTransaction = (\<lambda>u f n gasLimit gasPrice. Inr ''0xabc''),
      wait_tx = (\<lambda>u h. Resolved mock_receipt)\<rparr>"

definition mock_request :: "jsval \<Rightarrow> jsobj" where
  "mock_request mintQuantity =
     [(''privateKey'', Str mock_key), (''contractAddress'', Str mock_contract),
      (''mintQuantity'', mintQuantity)]"

definition unreachable :: jserror where
  "unreachable = JSError ''Error'' ''could not detect network'' (Some ''NETWORK_ERROR'')"

text \<open>A Solana network on which everything succeeds, with a 128-character hex key.\<close>

definition mock_sol_key :: string where
  "mock_sol_key =
     ''0123456789abcdef0123456789abcdef0123456789abcdef0123456789abcdef0123456789abcdef0123456789abcdef0123456789abcdef0123456789abcdef''"

definition mock_mint :: string where
  "mock_mint = ''So11111111111111111111111111111111111111112''"

definition mock_sol :: sol_env where
  "mock_sol =
     \<lparr>getVersion = (\<lambda>u. Inr ()),
      json_bytes = (\<lambda>s. if s = ''[1,2,3]'' then Inr [1, 2, 3]
                         else Inl (JSError ''SyntaxError'' ''Unexpected token in JSON'' None)),
      hex_bytes = (\<lambda>s. Inr (replicate (length s div 2) 170)),
      bs58_decode = (\<lambda>s. Inl (JSError ''Error'' ''Non-base58 character'' None)),
      fromSecretKey = (\<lambda>b. Inr ''Payer1111111111111111111111111111111111111''),
      new_PublicKey = (\<lambda>v. case v of Str a \<Rightarrow> Inr a
                           | _ \<Rightarrow> Inl (JSError ''Error'' ''Invalid public key input'' None)),
      sol_getBalance = (\<lambda>u a. Inr (5 * 10 ^ 9)),
      sol_toFixed4 = (\<lambda>b. decimal (b div 10 ^ 9) @ ''.'' @ tl (decimal (10000 + b div 10 ^ 5 mod 10000))),
      TOKEN_PROGRAM_ID = ''TokenkegQfeZyiNwAJbNbGKPFXCWuBvf9Ss623VQ5DA'',
      getAccountInfo = (\<lambda>u a. if a = mock_mint then Inr (Some ''TokenkegQfeZyiNwAJbNbGKPFXCWuBvf9Ss623VQ5DA'')
                               else Inr None),
      getAssociatedTokenAddress = (\<lambda>m owner. Inr ''Ata11111111111111111111111111111111111111''),
      build_instructions = (\<lambda>create q. Inr ()),
      getLatestBlockhash = (\<lambda>u. Inr ''blockhash1''),
      sign_and_serialize = (\<lambda>b. Inr ()),
      sendRawTransaction = (\<lambda>u. Inr ''5sig''),
      confirmTransaction = (\<lambda>u g. Resolved Null),
      JSON_stringify = (\<lambda>v. ''{}'')\<rparr>"

definition mock_sol_request :: "jsval \<Rightarrow> jsobj" where
  "mock_sol_request privateKey =
     [(''privateKey'', privateKey), (''contractAddress'', Str mock_mint), (''mintQuantity'', Num 1)]"

text \<open>The indexer of the specification's end-to-end scenario.\<close>

definition mock_sui :: sui_env where
  "mock_sui =
     \<lparr>INDEXER_ENDPOINT = Some ''https://indexer.example/graphql'',
      TRADEPORT_API_USER = Some ''user'',
      TRADEPORT_API_KEY = Some ''key'',
      http_post = (\<lambda>n. Inr \<lparr>response_status = 200,
         response_data = Obj [(''data'', Obj [(''mintNFT'',
           Obj [(''success'', Bool True), (''transactionBlockDigest'', Str ''0xDEAD'')])])]\<rparr>),
      status_error = (\<lambda>r. JSError ''AxiosError'' ''Request failed'' (Some ''ERR_BAD_RESPONSE''))\<rparr>"

definition mock_sui_request :: "jsval \<Rightarrow> jsobj" where
  "mock_sui_request mintQuantity =
     [(''collectionId'', Str ''abc123''), (''mintQuantity'', mintQuantity),
      (''mintStage'', Str ''public''), (''privateKey'', Str mock_key)]"

section \<open>The dispatcher's own replies\<close>

text \<open>
  C3. A request whose chain tag, upper-cased, is none of SUI, BSC, BASE and SOL is answered
  at once with HTTP 400 and \<open>{ success: false, msg: "Unsupported chain" }\<close>; the empty
  trace shows that no executor ran and no network call was made.
\<close>

theorem unsupported_chain_rejected:
  assumes "get_prop body ''chain'' = Str s"
    and "toUpperCase s \<notin> {''SUI'', ''BSC'', ''BASE'', ''SOL''}"
  shows "handleMint R sui bsc base body =
           ([], \<lparr>reply_status = 400,
                 reply_body = [(''success'', Bool False), (''msg'', Str ''Unsupported chain'')]\<rparr>)"
  using assms by (simp add: handleMint_def)

theorem unsupported_chain_rejected_witness:
  "get_prop [(''chain'', Str ''Eth''), (''mintQuantity'', Num 1)] ''chain'' = Str ''Eth''
   \<and> toUpperCase ''Eth'' \<notin> {''SUI'', ''BSC'', ''BASE'', ''SOL''}
   \<and> handleMint mock_runtime mock_sui mock_evm mock_evm
         [(''chain'', Str ''Eth''), (''mintQuantity'', Num 1)] =
       ([], \<lparr>reply_status = 400,
             reply_body = [(''success'', Bool False), (''msg'', Str ''Unsupported chain'')]\<rparr>)"
proof -
  have chain: "get_prop [(''chain'', Str ''Eth''), (''mintQuantity'', Num 1)] ''chain'' = Str ''Eth''"
    by (simp add: get_prop_def)
  have tag: "toUpperCase ''Eth'' \<notin> {''SUI'', ''BSC'', ''BASE'', ''SOL''}"
    by (simp add: toUpperCase_def upper_char_def)
  from unsupported_chain_rejected [OF chain tag] chain tag show ?thesis by blast
qed

text \<open>
  C10. When \<open>chain\<close> is absent from the body, or is any value that is not a string,
  \<open>chain.toUpperCase()\<close> throws; the dispatcher's \<open>catch\<close> answers with HTTP 500 and
  \<open>{ success: false, msg: "Minting error", error: <the exception's message> }\<close>, not with
  the HTTP 400 of an unsupported chain, and no executor runs.
\<close>

theorem missing_chain_is_server_error:
  assumes "\<forall>s. get_prop body ''chain'' \<noteq> Str s"
  shows "handleMint R sui bsc base body =
           ([], \<lparr>reply_status = 500,
                 reply_body =
                   [(''success'', Bool False), (''msg'', Str ''Minting error''),
                    (''error'',
                     Str (err_message (TypeError R (get_prop body ''chain'') ''toUpperCase'')))]\<rparr>)"
  using assms by (cases "get_prop body ''chain''") (simp_all add: handleMint_def)

theorem missing_chain_is_server_error_witness:
  "(\<forall>s. get_prop (mock_request (Num 1)) ''chain'' \<noteq> Str s)
   \<and> fst (handleMint mock_runtime mock_sui mock_evm mock_evm (mock_request (Num 1))) = []
   \<and> reply_status (snd (handleMint mock_runtime mock_sui mock_evm mock_evm (mock_request (Num 1)))) = 500
   \<and> get_prop (reply_body (snd (handleMint mock_runtime mock_sui mock_evm mock_evm
         (mock_request (Num 1))))) ''msg'' = Str ''Minting error''"
proof -
  have absent: "\<forall>s. get_prop (mock_request (Num 1)) ''chain'' \<noteq> Str s"
    by (simp add: get_prop_def mock_request_def)
  from missing_chain_is_server_error [OF absent] absent show ?thesis
    by (simp add: get_prop_def)
qed

section \<open>The shapes of executor results\<close>

text \<open>
  Each step of an executor returns one of its object literals, and the steps compose; so
  every result of an executor is one of the shapes listed above.
\<close>

lemma finishes_and_then:
  assumes "returns P m" and "\<And>x. finishes P (f x)"
  shows "finishes P (and_then m f)"
proof (cases "snd m")
  case (Return r)
  with assms(1) show ?thesis by (simp add: returns_def finishes_def and_then_def)
next
  case (Throw e)
  then show ?thesis by (simp add: finishes_def and_then_def)
next
  case (Next x)
  with assms(2)[of x] show ?thesis by (simp add: finishes_def and_then_def)
qed

lemma catch_all_result:
  "finishes P m \<Longrightarrow> (\<And>e. P (handler e)) \<Longrightarrow> P (snd (catch_all handler m))"
  by (auto simp: finishes_def catch_all_def split: step.splits)

lemma evm_wallet_returns: "returns (evm_shape E) (evm_wallet E k)"
  by (auto simp: returns_def evm_wallet_def intro: evm_shape.intros split: sum.splits)

lemma base_balance_returns: "returns (evm_shape E) (base_balance E u a)"
  by (auto simp: returns_def base_balance_def intro: evm_shape.intros split: sum.splits)

lemma bsc_balance_returns: "returns (evm_shape E) (bsc_balance E u a)"
  by (auto simp: returns_def bsc_balance_def intro: evm_shape.intros split: sum.splits)

lemma evm_contract_returns: "returns (evm_shape E) (evm_contract E u a)"
  by (auto simp: returns_def evm_contract_def intro: evm_shape.intros split: sum.splits)

lemma evm_confirm_finishes: "finishes (evm_shape E) (evm_confirm E u h)"
  by (auto simp: finishes_def evm_confirm_def race_with_timeout_def
      intro: evm_shape.intros split: sum.splits wait_outcome.splits)

lemma base_no_tx_shape: "evm_shape E (base_no_tx l)"
  by (simp add: base_no_tx_def Let_def evm_shape.intros)

lemma bsc_no_tx_shape: "evm_shape E (bsc_no_tx l)"
  by (simp add: bsc_no_tx_def Let_def evm_shape.intros)

lemma base_catch_shape: "evm_shape E (base_catch e)"
  by (simp add: base_catch_def Let_def evm_shape.intros)

lemma bsc_catch_shape: "evm_shape E (bsc_catch e)"
  by (simp add: bsc_catch_def Let_def evm_shape.intros)

lemma base_submit_finishes: "finishes (evm_shape E) (base_submit E u a q)"
proof (cases "fst (snd (base_try_mint E u (base_mintFunctions a q) None))")
  case None
  then show ?thesis by (simp add: base_submit_def Let_def finishes_def base_no_tx_shape)
next
  case (Some h)
  have "finishes (evm_shape E) (and_then (fst (base_try_mint E u (base_mintFunctions a q) None), Next h) (evm_confirm E u))"
    by (rule finishes_and_then) (simp_all add: returns_def evm_confirm_finishes)
  with Some show ?thesis by (simp add: base_submit_def Let_def)
qed

lemma bsc_submit_finishes: "finishes (evm_shape E) (bsc_submit E u a q)"
proof (cases "fst (snd (after_events [GetFeeData u] (bsc_try_mint E u (bsc_gasPrice E u) (bsc_mintFunctions a q) None)))")
  case None
  then show ?thesis by (simp add: bsc_submit_def Let_def finishes_def bsc_no_tx_shape)
next
  case (Some h)
  have "finishes (evm_shape E) (and_then (fst (after_events [GetFeeData u] (bsc_try_mint E u (bsc_gasPrice E u) (bsc_mintFunctions a q) None)), Next h) (evm_confirm E u))"
    by (rule finishes_and_then) (simp_all add: returns_def evm_confirm_finishes)
  with Some show ?thesis by (simp add: bsc_submit_def Let_def)
qed

lemma base_connected_finishes: "finishes (evm_shape E) (base_connected E u k c q)"
  unfolding base_connected_def
  by (intro finishes_and_then evm_wallet_returns base_balance_returns evm_contract_returns
      base_submit_finishes)

lemma bsc_connected_finishes: "finishes (evm_shape E) (bsc_connected E u k c q)"
  unfolding bsc_connected_def
  by (intro finishes_and_then evm_wallet_returns bsc_balance_returns evm_contract_returns
      bsc_submit_finishes)

lemma evm_validate_shape: "evm_validate R E k c q = Some r \<Longrightarrow> evm_shape E r"
  by (auto simp: evm_validate_def intro: evm_shape.intros split: if_splits)

lemma base_body_finishes: "finishes (evm_shape E) (base_body R E k c q)"
proof (cases "evm_validate R E k c q")
  case (Some r)
  then show ?thesis by (simp add: base_body_def finishes_def evm_validate_shape)
next
  case None
  show ?thesis
  proof (cases "snd (connect (getNetwork E) base_rpcUrls)")
    case None
    with \<open>evm_validate R E k c q = None\<close> show ?thesis
      by (simp add: base_body_def finishes_def evm_shape.intros)
  next
    case (Some u)
    have "finishes (evm_shape E) (and_then (fst (connect (getNetwork E) base_rpcUrls), Next u)
            (\<lambda>u. base_connected E u k c q))"
      by (rule finishes_and_then) (simp_all add: returns_def base_connected_finishes)
    with Some \<open>evm_validate R E k c q = None\<close> show ?thesis by (simp add: base_body_def)
  qed
qed

lemma mintBASE_shape: "evm_shape E (snd (mintBASE R E d))"
  unfolding mintBASE_def by (rule catch_all_result[OF base_body_finishes base_catch_shape])


lemma bsc_body_finishes: "finishes (evm_shape E) (bsc_body R E k c q)"
proof (cases "evm_validate R E k c q")
  case (Some r)
  then show ?thesis by (simp add: bsc_body_def finishes_def evm_validate_shape)
next
  case None
  show ?thesis
  proof (cases "snd (connect (getNetwork E) bsc_rpcUrls)")
    case None
    with \<open>evm_validate R E k c q = None\<close> show ?thesis
      by (simp add: bsc_body_def finishes_def evm_shape.intros)
  next
    case (Some u)
    have "finishes (evm_shape E) (and_then (fst (connect (getNetwork E) bsc_rpcUrls), Next u)
            (\<lambda>u. bsc_connected E u k c q))"
      by (rule finishes_and_then) (simp_all add: returns_def bsc_connected_finishes)
    with Some \<open>evm_validate R E k c q = None\<close> show ?thesis by (simp add: bsc_body_def)
  qed
qed

lemma mintBSC_shape: "evm_shape E (snd (mintBSC R E d))"
  unfolding mintBSC_def by (rule catch_all_result[OF bsc_body_finishes bsc_catch_shape])

text \<open>The same for the SOL executor.\<close>

lemma sol_keypair_returns: "returns (sol_shape S) (sol_keypair R S k)"
  by (auto simp: returns_def sol_keypair_def intro: sol_shape.intros split: sum.splits option.splits)

lemma sol_mint_address_returns: "returns (sol_shape S) (sol_mint_address S c)"
  by (auto simp: returns_def sol_mint_address_def intro: sol_shape.intros split: sum.splits)

lemma sol_balance_returns: "returns (sol_shape S) (sol_balance S u a)"
  by (auto simp: returns_def sol_balance_def intro: sol_shape.intros split: sum.splits)

lemma sol_mint_account_returns: "returns (sol_shape S) (sol_mint_account S u a)"
  by (auto simp: returns_def sol_mint_account_def intro: sol_shape.intros split: sum.splits option.splits)

lemma sol_transaction_error_shape: "sol_shape S (sol_transaction_error e)"
  by (simp add: sol_transaction_error_def Let_def sol_shape.intros)

lemma sol_catch_shape: "sol_shape S (sol_catch e)"
  by (simp add: sol_catch_def sol_shape.intros)

lemma sol_try_transaction_shape:
  "snd (sol_try_transaction S u pk m q) = Inr r \<Longrightarrow> sol_shape S r"
  by (auto simp: sol_try_transaction_def try_step_def intro: sol_shape.intros
      split: sum.splits if_splits)

lemma sol_transaction_finishes: "finishes (sol_shape S) (sol_transaction S u pk m q)"
  by (auto simp: finishes_def sol_transaction_def sol_transaction_error_shape
      sol_try_transaction_shape split: sum.splits)

lemma sol_connected_finishes: "finishes (sol_shape S) (sol_connected R S u k c q)"
  unfolding sol_connected_def
  by (intro finishes_and_then sol_keypair_returns sol_mint_address_returns sol_balance_returns
      sol_mint_account_returns sol_transaction_finishes)

lemma sol_validate_shape: "sol_validate R k c q = Some r \<Longrightarrow> sol_shape S r"
  by (auto simp: sol_validate_def intro: sol_shape.intros split: if_splits)

lemma sol_body_finishes: "finishes (sol_shape S) (sol_body R S k c q)"
proof (cases "sol_validate R k c q")
  case (Some r)
  then show ?thesis by (simp add: sol_body_def finishes_def sol_validate_shape)
next
  case None
  show ?thesis
  proof (cases "snd (connect (getVersion S) sol_rpcUrls)")
    case None
    with \<open>sol_validate R k c q = None\<close> show ?thesis
      by (simp add: sol_body_def finishes_def sol_shape.intros)
  next
    case (Some u)
    have "finishes (sol_shape S) (and_then (fst (connect (getVersion S) sol_rpcUrls), Next u)
            (\<lambda>u. sol_connected R S u k c q))"
      by (rule finishes_and_then) (simp_all add: returns_def sol_connected_finishes)
    with Some \<open>sol_validate R k c q = None\<close> show ?thesis by (simp add: sol_body_def)
  qed
qed

lemma mintSOL_shape: "sol_shape S (snd (mintSOL R S d))"
  unfolding mintSOL_def by (rule catch_all_result[OF sol_body_finishes sol_catch_shape])

text \<open>The same for the SUI executor.\<close>

lemma sui_validate_returns: "returns (sui_shape R) (sui_validate R E k c q st)"
  by (simp add: returns_def sui_validate_def sui_shape.intros split: sum.splits)

lemma sui_retry_returns: "returns (sui_shape R) (sui_retry E ns l)"
  by (induction E ns l rule: sui_retry.induct)
     (simp_all add: returns_def step_after_def sui_shape.intros split: sum.splits)

lemma sui_graphql_error_shape: "sui_graphql_error R m = Inr r \<Longrightarrow> sui_shape R r"
  by (auto simp: sui_graphql_error_def intro: sui_shape.intros split: sum.splits if_splits)

lemma sui_http_error_shape: "sui_shape R (sui_http_error resp)"
  by (simp add: sui_http_error_def sui_shape.intros)

lemma sui_read_data_finishes: "finishes (sui_shape R) ([], sui_read_data R data q c)"
  by (auto simp: finishes_def sui_read_data_def Let_def sui_graphql_error_shape
      intro: sui_shape.intros split: sum.splits)

lemma sui_read_response_finishes: "finishes (sui_shape R) (sui_read_response R outcome q c)"
  using sui_read_data_finishes[of R]
  by (auto simp: finishes_def sui_read_response_def sui_connection_failed_def sui_http_error_shape
      intro: sui_shape.intros split: option.splits)

lemma sui_catch_shape: "sui_shape R (sui_catch e)"
  by (simp add: sui_catch_def sui_shape.intros)

lemma sui_body_finishes: "finishes (sui_shape R) (sui_body R E k c q st)"
  unfolding sui_body_def
  by (intro finishes_and_then sui_validate_returns sui_retry_returns sui_read_response_finishes)

lemma mintSUI_shape: "sui_shape R (snd (mintSUI R E d))"
  unfolding mintSUI_def by (rule catch_all_result[OF sui_body_finishes sui_catch_shape])

section \<open>The MintResult invariant\<close>

lemma evm_shape_inv:
  assumes "evm_shape E r"
  shows "get_prop r ''success'' = Bool True
         \<or> (get_prop r ''success'' = Bool False \<and> code_set r \<and> mint_result_inv r)"
  using assms
  by (cases rule: evm_shape.cases)
     (auto simp: mint_result_inv_def hash_present_def code_set_def get_prop_def failure_def
        details_result_def evm_timeout_def evm_success_def)

lemma sol_shape_inv: "sol_shape S r \<Longrightarrow> mint_result_inv r"
  by (cases rule: sol_shape.cases)
     (auto simp: mint_result_inv_def hash_present_def code_set_def get_prop_def failure_def
        details_result_def sol_transaction_failed_def sol_success_def)

lemma js_or_defined: "js_or a (Str s) \<noteq> Undefined"
  by (cases a) (simp_all add: js_or_def)

lemma sui_shape_inv: "sui_shape R r \<Longrightarrow> mint_result_inv r"
  by (cases rule: sui_shape.cases)
     (auto simp: mint_result_inv_def hash_present_def code_set_def get_prop_def failure_def
        details_result_def sui_mint_failed_def sui_success_def Let_def js_or_defined)

text \<open>
  C1, as amended. Every result of the SUI and of the SOL executor satisfies the
  invariant: exactly one of "success is true and a transaction hash is present" and
  "success is false and a code is set" holds. Every result of the BASE and of the BSC
  executor has success true or success false, and every one with success false has a code
  set, so that the invariant holds of it. The dispatcher's SOL branch is not covered: its
  result has no code (see the counterexample below). Nothing is said here of the hash
  of a BASE or BSC result with success true.
\<close>

theorem executor_result_invariant:
  "mint_result_inv (snd (mintSUI R sui d1))
   \<and> mint_result_inv (snd (mintSOL R sol d2))
   \<and> (get_prop (snd (mintBASE R evm d3)) ''success'' = Bool True
        \<or> (get_prop (snd (mintBASE R evm d3)) ''success'' = Bool False
            \<and> code_set (snd (mintBASE R evm d3))
            \<and> mint_result_inv (snd (mintBASE R evm d3))))
   \<and> (get_prop (snd (mintBSC R evm d4)) ''success'' = Bool True
        \<or> (get_prop (snd (mintBSC R evm d4)) ''success'' = Bool False
            \<and> code_set (snd (mintBSC R evm d4))
            \<and> mint_result_inv (snd (mintBSC R evm d4))))"
  using sui_shape_inv [OF mintSUI_shape] sol_shape_inv [OF mintSOL_shape]
    evm_shape_inv [OF mintBASE_shape] evm_shape_inv [OF mintBSC_shape]
  by blast

lemma zero_quantity_fails:
  "get_prop (snd (mintBASE mock_runtime mock_evm (mock_request (Num 0)))) ''success'' = Bool False
   \<and> get_prop (snd (mintBSC mock_runtime mock_evm (mock_request (Num 0)))) ''success'' = Bool False"
  by (simp add: mintBASE_def base_body_def mintBSC_def bsc_body_def evm_validate_def catch_all_def
      mock_request_def mock_evm_def mock_key_def mock_contract_def get_prop_def failure_def)

theorem executor_result_invariant_witness:
  "mint_result_inv (snd (mintSUI mock_runtime mock_sui (mock_sui_request (Num 2))))
   \<and> mint_result_inv (snd (mintSOL mock_runtime mock_sol (mock_sol_request (Str mock_sol_key))))
   \<and> get_prop (snd (mintBASE mock_runtime mock_evm (mock_request (Num 0)))) ''success'' = Bool False
   \<and> code_set (snd (mintBASE mock_runtime mock_evm (mock_request (Num 0))))
   \<and> mint_result_inv (snd (mintBASE mock_runtime mock_evm (mock_request (Num 0))))
   \<and> get_prop (snd (mintBSC mock_runtime mock_evm (mock_request (Num 0)))) ''success'' = Bool False
   \<and> code_set (snd (mintBSC mock_runtime mock_evm (mock_request (Num 0))))
   \<and> mint_result_inv (snd (mintBSC mock_runtime mock_evm (mock_request (Num 0))))"
  using zero_quantity_fails
    executor_result_invariant [of mock_runtime mock_sui "mock_sui_request (Num 2)" mock_sol
      "mock_sol_request (Str mock_sol_key)" mock_evm "mock_request (Num 0)" "mock_request (Num 0)"]
  by simp

text \<open>
  The hash a confirmed BASE or BSC mint returns is the \<open>transactionHash\<close> property of the
  receipt, where the timeout path of the same executors returns \<open>tx.hash\<close>. A receipt
  without that property gives a result with success true and no hash.
\<close>

lemma success_reads_receipt_property:
  "get_prop (evm_success rc) ''success'' = Bool True
   \<and> get_prop (evm_success rc) ''txHash'' = receipt_transactionHash rc
   \<and> get_prop (evm_timeout h) ''txHash'' = Str h
   \<and> (receipt_transactionHash rc = Undefined \<longrightarrow> \<not> mint_result_inv (evm_success rc))"
  by (simp add: evm_success_def evm_timeout_def get_prop_def mint_result_inv_def hash_present_def)

text \<open>
  The claim as stated fails on the dispatcher's SOL branch: the result there is
  \<open>{ success: false, msg: "SOL mint not yet implemented" }\<close>, a failure with no code.
\<close>

theorem sol_branch_has_no_code:
  "snd (handleMint mock_runtime mock_sui mock_evm mock_evm [(''chain'', Str ''SOL'')]) =
     \<lparr>reply_status = 200, reply_body = sol_stub\<rparr>
   \<and> get_prop sol_stub ''success'' = Bool False
   \<and> \<not> code_set sol_stub
   \<and> \<not> mint_result_inv sol_stub"
  by (simp add: handleMint_def get_prop_def toUpperCase_def upper_char_def respond_ok_def
      spread_def sol_stub_def code_set_def mint_result_inv_def hash_present_def)

section \<open>The dispatcher's wrapping of an executor result\<close>

lemma map_of_set_prop: "map_of (set_prop k v obj) = (map_of obj)(k \<mapsto> v)"
  by (induction obj) (auto simp: fun_eq_iff)

lemma map_of_spread:
  "distinct (map fst src) \<Longrightarrow> map_of (spread target src) = map_of target ++ map_of src"
proof (induction src arbitrary: target)
  case Nil
  then show ?case by (simp add: spread_def)
next
  case (Cons kv src)
  obtain k v where kv: "kv = (k, v)" by (cases kv)
  from Cons.prems kv have fresh: "map_of src k = None" and rest: "distinct (map fst src)"
    by (auto simp: map_of_eq_None_iff)
  have "map_of (spread target (kv # src)) = map_of (spread (set_prop k v target) src)"
    by (simp add: spread_def kv)
  also have "\<dots> = (map_of target)(k \<mapsto> v) ++ map_of src"
    by (simp only: Cons.IH [OF rest] map_of_set_prop)
  also have "\<dots> = map_of target ++ map_of (kv # src)"
    using fresh by (auto simp: fun_eq_iff map_add_def kv split: option.splits)
  finally show ?case .
qed

lemma spread_keeps_result:
  assumes "distinct (map fst r)" and "map_of r ''success'' \<noteq> None"
  shows "get_prop (spread [(''success'', v)] r) k = get_prop r k"
  using assms by (auto simp: get_prop_def map_of_spread map_add_def split: option.splits)

lemma evm_shape_keys: "evm_shape E r \<Longrightarrow> distinct (map fst r) \<and> map_of r ''success'' \<noteq> None"
  by (cases rule: evm_shape.cases)
     (auto simp: failure_def details_result_def evm_timeout_def evm_success_def)

lemma sui_shape_keys: "sui_shape R r \<Longrightarrow> distinct (map fst r) \<and> map_of r ''success'' \<noteq> None"
  by (cases rule: sui_shape.cases)
     (auto simp: failure_def details_result_def sui_mint_failed_def sui_success_def Let_def)

text \<open>
  C2, as amended. For the chains SUI, BSC and BASE the dispatcher answers HTTP 200 with
  \<open>{ success: true, ...result }\<close>. Every executor result has a \<open>success\<close> property of its
  own, and the spread writes it over the literal \<open>true\<close>: each property of the response,
  the top-level \<open>success\<close> flag included, reads as it does in the executor's result. A
  failure result therefore reaches the caller with \<open>success: false\<close>.
\<close>

theorem dispatcher_keeps_executor_flag:
  fixes body :: jsobj
  defines "mintData \<equiv> filter (\<lambda>kv. fst kv \<noteq> ''chain'') body"
  assumes "get_prop body ''chain'' = Str s"
  shows "(toUpperCase s = ''SUI'' \<longrightarrow>
            handleMint R sui bsc base body =
              (fst (mintSUI R sui mintData),
               \<lparr>reply_status = 200,
                reply_body = spread [(''success'', Bool True)] (snd (mintSUI R sui mintData))\<rparr>)
            \<and> (\<forall>k. get_prop (spread [(''success'', Bool True)] (snd (mintSUI R sui mintData))) k
                    = get_prop (snd (mintSUI R sui mintData)) k))
       \<and> (toUpperCase s = ''BSC'' \<longrightarrow>
            handleMint R sui bsc base body =
              (fst (mintBSC R bsc mintData),
               \<lparr>reply_status = 200,
                reply_body = spread [(''success'', Bool True)] (snd (mintBSC R bsc mintData))\<rparr>)
            \<and> (\<forall>k. get_prop (spread [(''success'', Bool True)] (snd (mintBSC R bsc mintData))) k
                    = get_prop (snd (mintBSC R bsc mintData)) k))
       \<and> (toUpperCase s = ''BASE'' \<longrightarrow>
            handleMint R sui bsc base body =
              (fst (mintBASE R base mintData),
               \<lparr>reply_status = 200,
                reply_body = spread [(''success'', Bool True)] (snd (mintBASE R base mintData))\<rparr>)
            \<and> (\<forall>k. get_prop (spread [(''success'', Bool True)] (snd (mintBASE R base mintData))) k
                    = get_prop (snd (mintBASE R base mintData)) k))"
proof -
  have sui: "get_prop (spread [(''success'', Bool True)] (snd (mintSUI R sui mintData))) k
               = get_prop (snd (mintSUI R sui mintData)) k" for k
    using sui_shape_keys [OF mintSUI_shape] by (intro spread_keeps_result) blast+
  have bsc: "get_prop (spread [(''success'', Bool True)] (snd (mintBSC R bsc mintData))) k
               = get_prop (snd (mintBSC R bsc mintData)) k" for k
    using evm_shape_keys [OF mintBSC_shape] by (intro spread_keeps_result) blast+
  have base: "get_prop (spread [(''success'', Bool True)] (snd (mintBASE R base mintData))) k
               = get_prop (snd (mintBASE R base mintData)) k" for k
    using evm_shape_keys [OF mintBASE_shape] by (intro spread_keeps_result) blast+
  have "toUpperCase s = ''SUI'' \<Longrightarrow> handleMint R sui bsc base body =
      (fst (mintSUI R sui mintData),
       \<lparr>reply_status = 200,
        reply_body = spread [(''success'', Bool True)] (snd (mintSUI R sui mintData))\<rparr>)"
    using assms by (simp add: handleMint_def respond_ok_def Let_def)
  moreover have "toUpperCase s = ''BSC'' \<Longrightarrow> handleMint R sui bsc base body =
      (fst (mintBSC R bsc mintData),
       \<lparr>reply_status = 200,
        reply_body = spread [(''success'', Bool True)] (snd (mintBSC R bsc mintData))\<rparr>)"
    using assms by (simp add: handleMint_def respond_ok_def Let_def)
  moreover have "toUpperCase s = ''BASE'' \<Longrightarrow> handleMint R sui bsc base body =
      (fst (mintBASE R base mintData),
       \<lparr>reply_status = 200,
        reply_body = spread [(''success'', Bool True)] (snd (mintBASE R base mintData))\<rparr>)"
    using assms by (simp add: handleMint_def respond_ok_def Let_def)
  ultimately show ?thesis using sui bsc base by blast
qed

lemma quantity_zero_rejected:
  "mintBASE mock_runtime mock_evm (filter (\<lambda>kv. fst kv \<noteq> ''chain'') (mock_request (Num 0))) =
     ([], failure ''Mint quantity must be at least 1'' ''INVALID_QUANTITY'')"
  by (simp add: mintBASE_def base_body_def evm_validate_def catch_all_def mock_request_def
      get_prop_def mock_evm_def mock_key_def mock_contract_def)

theorem dispatcher_keeps_executor_flag_witness:
  "get_prop ((''chain'', Str ''base'') # mock_request (Num 0)) ''chain'' = Str ''base''
   \<and> toUpperCase ''base'' = ''BASE''
   \<and> reply_status (snd (handleMint mock_runtime mock_sui mock_evm mock_evm
         ((''chain'', Str ''base'') # mock_request (Num 0)))) = 200
   \<and> get_prop (reply_body (snd (handleMint mock_runtime mock_sui mock_evm mock_evm
         ((''chain'', Str ''base'') # mock_request (Num 0))))) ''code'' = Str ''INVALID_QUANTITY''"
proof -
  have chain: "get_prop ((''chain'', Str ''base'') # mock_request (Num 0)) ''chain'' = Str ''base''"
    by (simp add: get_prop_def)
  have tag: "toUpperCase ''base'' = ''BASE''"
    by (simp add: toUpperCase_def upper_char_def)
  from dispatcher_keeps_executor_flag [OF chain, of mock_runtime mock_sui mock_evm mock_evm] tag
  have "handleMint mock_runtime mock_sui mock_evm mock_evm ((''chain'', Str ''base'') # mock_request (Num 0)) =
          ([], \<lparr>reply_status = 200,
                reply_body = spread [(''success'', Bool True)]
                  (failure ''Mint quantity must be at least 1'' ''INVALID_QUANTITY'')\<rparr>)"
    by (simp add: quantity_zero_rejected)
  with chain tag show ?thesis
    by (simp add: spread_def failure_def get_prop_def)
qed

text \<open>
  The claim as stated fails: for a BASE request with quantity 0 the executor returns a
  failure, and the top-level flag of the 200 response is \<open>false\<close>, not \<open>true\<close>.
\<close>

theorem failure_flag_survives_spread:
  "snd (mintBASE mock_runtime mock_evm (mock_request (Num 0))) =
     [(''success'', Bool False), (''msg'', Str ''Mint quantity must be at least 1''),
      (''code'', Str ''INVALID_QUANTITY'')]
   \<and> snd (handleMint mock_runtime mock_sui mock_evm mock_evm
         ((''chain'', Str ''base'') # mock_request (Num 0))) =
       \<lparr>reply_status = 200,
        reply_body = [(''success'', Bool False), (''msg'', Str ''Mint quantity must be at least 1''),
                      (''code'', Str ''INVALID_QUANTITY'')]\<rparr>
   \<and> get_prop (reply_body (snd (handleMint mock_runtime mock_sui mock_evm mock_evm
         ((''chain'', Str ''base'') # mock_request (Num 0))))) ''success'' \<noteq> Bool True"
  by (simp add: handleMint_def respond_ok_def Let_def toUpperCase_def upper_char_def
      mintBASE_def base_body_def evm_validate_def catch_all_def mock_request_def
      get_prop_def mock_evm_def mock_key_def mock_contract_def spread_def failure_def)

section \<open>The fallback endpoint list\<close>

lemma connect_all_fail:
  "\<forall>u\<in>set urls. isl (probe u) \<Longrightarrow> connect probe urls = (map Probe urls, None)"
  by (induction urls) (auto split: sum.splits)

lemma connect_first:
  "find (\<lambda>u. \<not> isl (probe u)) urls = Some u \<Longrightarrow>
     connect probe urls = (map Probe (takeWhile (\<lambda>u. isl (probe u)) urls) @ [Probe u], Some u)"
  by (induction urls) (auto split: sum.splits if_splits)

lemma find_some_working:
  "\<not> (\<forall>u\<in>set urls. isl (probe u)) \<Longrightarrow> \<exists>u. find (\<lambda>u. \<not> isl (probe u)) urls = Some u"
  by (cases "find (\<lambda>u. \<not> isl (probe u)) urls") (auto simp: find_None_iff)

lemma and_then_Next: "and_then (t, Next x) f = step_after t (f x)"
  by (simp add: and_then_def step_after_def)

lemma base_all_down:
  assumes "evm_validate R E k c q = None" and "\<forall>u\<in>set base_rpcUrls. isl (getNetwork E u)"
  shows "catch_all base_catch (base_body R E k c q) =
           (map Probe base_rpcUrls,
            failure ''Unable to connect to BASE network. All RPC endpoints are down.''
              ''RPC_CONNECTION_FAILED'')"
  using assms(1) connect_all_fail [OF assms(2)] by (simp add: base_body_def catch_all_def)

lemma base_connects:
  assumes "evm_validate R E k c q = None"
    and "find (\<lambda>u. \<not> isl (getNetwork E u)) base_rpcUrls = Some u"
  shows "catch_all base_catch (base_body R E k c q) =
           catch_all base_catch
             (step_after (map Probe (takeWhile (\<lambda>u. isl (getNetwork E u)) base_rpcUrls) @ [Probe u])
                (base_connected E u k c q))"
  using assms(1) connect_first [OF assms(2)] by (simp add: base_body_def and_then_Next)

lemma bsc_all_down:
  assumes "evm_validate R E k c q = None" and "\<forall>u\<in>set bsc_rpcUrls. isl (getNetwork E u)"
  shows "catch_all bsc_catch (bsc_body R E k c q) =
           (map Probe bsc_rpcUrls,
            failure ''Unable to connect to BSC network. All RPC endpoints are down.''
              ''RPC_CONNECTION_FAILED'')"
  using assms(1) connect_all_fail [OF assms(2)] by (simp add: bsc_body_def catch_all_def)

lemma bsc_connects:
  assumes "evm_validate R E k c q = None"
    and "find (\<lambda>u. \<not> isl (getNetwork E u)) bsc_rpcUrls = Some u"
  shows "catch_all bsc_catch (bsc_body R E k c q) =
           catch_all bsc_catch
             (step_after (map Probe (takeWhile (\<lambda>u. isl (getNetwork E u)) bsc_rpcUrls) @ [Probe u])
                (bsc_connected E u k c q))"
  using assms(1) connect_first [OF assms(2)] by (simp add: bsc_body_def and_then_Next)

lemma sol_all_down:
  assumes "sol_validate R k c q = None" and "\<forall>u\<in>set sol_rpcUrls. isl (getVersion S u)"
  shows "catch_all sol_catch (sol_body R S k c q) =
           (map Probe sol_rpcUrls,
            failure ''Unable to connect to Solana network. All RPC endpoints are down.''
              ''RPC_CONNECTION_FAILED'')"
  using assms(1) connect_all_fail [OF assms(2)] by (simp add: sol_body_def catch_all_def)

lemma sol_connects:
  assumes "sol_validate R k c q = None"
    and "find (\<lambda>u. \<not> isl (getVersion S u)) sol_rpcUrls = Some u"
  shows "catch_all sol_catch (sol_body R S k c q) =
           catch_all sol_catch
             (step_after (map Probe (takeWhile (\<lambda>u. isl (getVersion S u)) sol_rpcUrls) @ [Probe u])
                (sol_connected R S u k c q))"
  using assms(1) connect_first [OF assms(2)] by (simp add: sol_body_def and_then_Next)

text \<open>
  C5. For BASE, BSC and SOL, on an input that passes validation: when the liveness probe
  fails on every endpoint of the list, the executor probes each endpoint once, in order,
  and returns RPC_CONNECTION_FAILED; the trace holds nothing but the probes, so neither
  key parsing nor the balance check nor a submission is reached. Otherwise the probes
  stop at the first endpoint whose probe succeeds, and the rest of the run
  (\<open>base_connected\<close>, \<open>bsc_connected\<close>, \<open>sol_connected\<close>) is carried out on that endpoint.
\<close>

theorem fallback_endpoints:
  fixes d :: jsobj
  defines "k \<equiv> get_prop d ''privateKey''"
    and "c \<equiv> get_prop d ''contractAddress''"
    and "q \<equiv> get_prop d ''mintQuantity''"
  shows
    "(evm_validate R E k c q = None \<longrightarrow>
        (if \<forall>u\<in>set base_rpcUrls. isl (getNetwork E u) then
           mintBASE R E d =
             (map Probe base_rpcUrls,
              failure ''Unable to connect to BASE network. All RPC endpoints are down.''
                ''RPC_CONNECTION_FAILED'')
         else
           \<exists>u. find (\<lambda>u. \<not> isl (getNetwork E u)) base_rpcUrls = Some u
             \<and> mintBASE R E d =
                 catch_all base_catch
                   (step_after
                      (map Probe (takeWhile (\<lambda>u. isl (getNetwork E u)) base_rpcUrls) @ [Probe u])
                      (base_connected E u k c q))))
     \<and> (evm_validate R E k c q = None \<longrightarrow>
        (if \<forall>u\<in>set bsc_rpcUrls. isl (getNetwork E u) then
           mintBSC R E d =
             (map Probe bsc_rpcUrls,
              failure ''Unable to connect to BSC network. All RPC endpoints are down.''
                ''RPC_CONNECTION_FAILED'')
         else
           \<exists>u. find (\<lambda>u. \<not> isl (getNetwork E u)) bsc_rpcUrls = Some u
             \<and> mintBSC R E d =
                 catch_all bsc_catch
                   (step_after
                      (map Probe (takeWhile (\<lambda>u. isl (getNetwork E u)) bsc_rpcUrls) @ [Probe u])
                      (bsc_connected E u k c q))))
     \<and> (sol_validate R k c q = None \<longrightarrow>
        (if \<forall>u\<in>set sol_rpcUrls. isl (getVersion S u) then
           mintSOL R S d =
             (map Probe sol_rpcUrls,
              failure ''Unable to connect to Solana network. All RPC endpoints are down.''
                ''RPC_CONNECTION_FAILED'')
         else
           \<exists>u. find (\<lambda>u. \<not> isl (getVersion S u)) sol_rpcUrls = Some u
             \<and> mintSOL R S d =
                 catch_all sol_catch
                   (step_after
                      (map Probe (takeWhile (\<lambda>u. isl (getVersion S u)) sol_rpcUrls) @ [Probe u])
                      (sol_connected R S u k c q))))"
proof (intro conjI impI)
  assume v: "evm_validate R E k c q = None"
  show "if \<forall>u\<in>set base_rpcUrls. isl (getNetwork E u) then
           mintBASE R E d =
             (map Probe base_rpcUrls,
              failure ''Unable to connect to BASE network. All RPC endpoints are down.''
                ''RPC_CONNECTION_FAILED'')
         else
           \<exists>u. find (\<lambda>u. \<not> isl (getNetwork E u)) base_rpcUrls = Some u
             \<and> mintBASE R E d =
                 catch_all base_catch
                   (step_after
                      (map Probe (takeWhile (\<lambda>u. isl (getNetwork E u)) base_rpcUrls) @ [Probe u])
                      (base_connected E u k c q))"
  proof (cases "\<forall>u\<in>set base_rpcUrls. isl (getNetwork E u)")
    case True
    with base_all_down [OF v] show ?thesis by (simp add: mintBASE_def k_def c_def q_def)
  next
    case False
    from find_some_working [OF False] obtain u
      where u: "find (\<lambda>u. \<not> isl (getNetwork E u)) base_rpcUrls = Some u" by blast
    from base_connects [OF v u] have "mintBASE R E d =
        catch_all base_catch
          (step_after (map Probe (takeWhile (\<lambda>u. isl (getNetwork E u)) base_rpcUrls) @ [Probe u])
             (base_connected E u k c q))"
      by (simp add: mintBASE_def k_def c_def q_def)
    with u show ?thesis by (subst if_not_P [OF False]) blast
  qed
next
  assume v: "evm_validate R E k c q = None"
  show "if \<forall>u\<in>set bsc_rpcUrls. isl (getNetwork E u) then
           mintBSC R E d =
             (map Probe bsc_rpcUrls,
              failure ''Unable to connect to BSC network. All RPC endpoints are down.''
                ''RPC_CONNECTION_FAILED'')
         else
           \<exists>u. find (\<lambda>u. \<not> isl (getNetwork E u)) bsc_rpcUrls = Some u
             \<and> mintBSC R E d =
                 catch_all bsc_catch
                   (step_after
                      (map Probe (takeWhile (\<lambda>u. isl (getNetwork E u)) bsc_rpcUrls) @ [Probe u])
                      (bsc_connected E u k c q))"
  proof (cases "\<forall>u\<in>set bsc_rpcUrls. isl (getNetwork E u)")
    case True
    with bsc_all_down [OF v] show ?thesis by (simp add: mintBSC_def k_def c_def q_def)
  next
    case False
    from find_some_working [OF False] obtain u
      where u: "find (\<lambda>u. \<not> isl (getNetwork E u)) bsc_rpcUrls = Some u" by blast
    from bsc_connects [OF v u] have "mintBSC R E d =
        catch_all bsc_catch
          (step_after (map Probe (takeWhile (\<lambda>u. isl (getNetwork E u)) bsc_rpcUrls) @ [Probe u])
             (bsc_connected E u k c q))"
      by (simp add: mintBSC_def k_def c_def q_def)
    with u show ?thesis by (subst if_not_P [OF False]) blast
  qed
next
  assume v: "sol_validate R k c q = None"
  show "if \<forall>u\<in>set sol_rpcUrls. isl (getVersion S u) then
           mintSOL R S d =
             (map Probe sol_rpcUrls,
              failure ''Unable to connect to Solana network. All RPC endpoints are down.''
                ''RPC_CONNECTION_FAILED'')
         else
           \<exists>u. find (\<lambda>u. \<not> isl (getVersion S u)) sol_rpcUrls = Some u
             \<and> mintSOL R S d =
                 catch_all sol_catch
                   (step_after
                      (map Probe (takeWhile (\<lambda>u. isl (getVersion S u)) sol_rpcUrls) @ [Probe u])
                      (sol_connected R S u k c q))"
  proof (cases "\<forall>u\<in>set sol_rpcUrls. isl (getVersion S u)")
    case True
    with sol_all_down [OF v] show ?thesis by (simp add: mintSOL_def k_def c_def q_def)
  next
    case False
    from find_some_working [OF False] obtain u
      where u: "find (\<lambda>u. \<not> isl (getVersion S u)) sol_rpcUrls = Some u" by blast
    from sol_connects [OF v u] have "mintSOL R S d =
        catch_all sol_catch
          (step_after (map Probe (takeWhile (\<lambda>u. isl (getVersion S u)) sol_rpcUrls) @ [Probe u])
             (sol_connected R S u k c q))"
      by (simp add: mintSOL_def k_def c_def q_def)
    with u show ?thesis by (subst if_not_P [OF False]) blast
  qed
qed

text \<open>The definitions a concrete run of an EVM executor unfolds.\<close>

lemmas evm_run =
  mintBASE_def base_body_def base_connected_def base_submit_def base_balance_def
  mintBSC_def bsc_body_def bsc_connected_def bsc_submit_def bsc_balance_def bsc_gasPrice_def
  evm_validate_def evm_wallet_def evm_contract_def evm_confirm_def
  base_mintFunctions_def bsc_mintFunctions_def base_rpcUrls_def bsc_rpcUrls_def
  base_min_wei_def bsc_min_wei_def gwei_def after_events_def step_after_def
  and_then_def catch_all_def race_with_timeout_def get_prop_def js_lt_def failure_def

lemmas mock_evm_run =
  mock_evm_def mock_request_def mock_key_def mock_contract_def mock_address_def
  mock_receipt_def mock_runtime_def unreachable_def

lemma second_endpoint_used:
  "mintBASE mock_runtime
     (mock_evm\<lparr>getNetwork := \<lambda>u. if u = ''https://base.drpc.org/'' then Inl unreachable else Inr ()\<rparr>)
     (mock_request (Num 1)) =
   ([Probe ''https://base.drpc.org/'', Probe ''https://mainnet.base.org/'', ParseKey,
     GetBalance ''https://mainnet.base.org/'' mock_address,
     GetCode ''https://mainnet.base.org/'',
     EstimateGas ''https://mainnet.base.org/'' (MintCall ''mint'' [Num 1]),
     SendTransaction ''https://mainnet.base.org/'' (MintCall ''mint'' [Num 1]) 500000 20000000000,
     WaitConfirmation ''https://mainnet.base.org/'' ''0xabc''],
    evm_success mock_receipt)"
  by (simp add: evm_run mock_evm_run)

theorem fallback_endpoints_witness:
  "evm_validate mock_runtime (mock_evm\<lparr>getNetwork := \<lambda>u. Inl unreachable\<rparr>)
      (Str mock_key) (Str mock_contract) (Num 1) = None
   \<and> getNetwork (mock_evm\<lparr>getNetwork := \<lambda>u. Inl unreachable\<rparr>) = (\<lambda>u. Inl unreachable)
   \<and> mintBASE mock_runtime (mock_evm\<lparr>getNetwork := \<lambda>u. Inl unreachable\<rparr>) (mock_request (Num 1)) =
       ([Probe ''https://base.drpc.org/'', Probe ''https://mainnet.base.org/'',
         Probe ''https://base-mainnet.public.blastapi.io''],
        [(''success'', Bool False),
         (''msg'', Str ''Unable to connect to BASE network. All RPC endpoints are down.''),
         (''code'', Str ''RPC_CONNECTION_FAILED'')])
   \<and> fst (mintBASE mock_runtime
         (mock_evm\<lparr>getNetwork :=
            \<lambda>u. if u = ''https://base.drpc.org/'' then Inl unreachable else Inr ()\<rparr>)
         (mock_request (Num 1))) =
       [Probe ''https://base.drpc.org/'', Probe ''https://mainnet.base.org/'', ParseKey,
        GetBalance ''https://mainnet.base.org/'' mock_address,
        GetCode ''https://mainnet.base.org/'',
        EstimateGas ''https://mainnet.base.org/'' (MintCall ''mint'' [Num 1]),
        SendTransaction ''https://mainnet.base.org/'' (MintCall ''mint'' [Num 1]) 500000 20000000000,
        WaitConfirmation ''https://mainnet.base.org/'' ''0xabc'']"
proof -
  let ?E = "mock_evm\<lparr>getNetwork := \<lambda>u. Inl unreachable\<rparr>"
  have v: "evm_validate mock_runtime ?E (Str mock_key) (Str mock_contract) (Num 1) = None"
    by (simp add: evm_validate_def js_lt_def mock_evm_def mock_key_def mock_contract_def)
  have down: "\<forall>u\<in>set base_rpcUrls. isl (getNetwork ?E u)"
    by simp
  have d: "get_prop (mock_request (Num 1)) ''privateKey'' = Str mock_key"
    "get_prop (mock_request (Num 1)) ''contractAddress'' = Str mock_contract"
    "get_prop (mock_request (Num 1)) ''mintQuantity'' = Num 1"
    by (simp_all add: get_prop_def mock_request_def)
  from fallback_endpoints [of mock_runtime ?E "mock_request (Num 1)"] v down d
  have "mintBASE mock_runtime ?E (mock_request (Num 1)) =
          (map Probe base_rpcUrls,
           failure ''Unable to connect to BASE network. All RPC endpoints are down.''
             ''RPC_CONNECTION_FAILED'')"
    by simp
  with v show ?thesis by (simp add: base_rpcUrls_def failure_def second_endpoint_used)
qed

section \<open>Gas budget and gas price of the EVM executors\<close>

lemma base_sends:
  "SendTransaction u' f gasLimit gasPrice \<in> set (fst (base_try_mint E u fs l)) \<Longrightarrow>
     u' = u \<and> gasLimit = 500000 \<and> gasPrice = gwei 20 \<and> \<not> isl (estimateGas E u f)"
proof (induction E u fs l rule: base_try_mint.induct)
  case (1 E u lastError)
  then show ?case by simp
next
  case (2 E u func rest lastError)
  show ?case
  proof (cases "has_function E (fn_name func)")
    case False
    with 2 show ?thesis by simp
  next
    case True
    show ?thesis
    proof (cases "estimateGas E u func")
      case (Inl gasError)
      with 2 True show ?thesis by (simp add: after_events_def)
    next
      case (Inr gasEstimate)
      show ?thesis
      proof (cases "sendTransaction E u func 0 500000 (gwei 20)")
        case (Inl funcError)
        with 2 True Inr show ?thesis by (auto simp: after_events_def)
      next
        case (Inr tx)
        with 2 True \<open>estimateGas E u func = Inr gasEstimate\<close> show ?thesis by auto
      qed
    qed
  qed
qed

lemma bsc_sends:
  "SendTransaction u' f gasLimit gasPrice \<in> set (fst (bsc_try_mint E u p fs l)) \<Longrightarrow>
     u' = u \<and> gasPrice = p
     \<and> ((\<exists>g. estimateGas E u f = Inr g \<and> gasLimit = g + 50000)
          \<or> (gasLimit = 300000
              \<and> (isl (estimateGas E u f)
                  \<or> (\<exists>g. estimateGas E u f = Inr g \<and> isl (sendTransaction E u f 0 (g + 50000) p)))))"
proof (induction E u p fs l rule: bsc_try_mint.induct)
  case (1 E u gasPrice lastError)
  then show ?case by simp
next
  case (2 E u gasPrice func rest lastError)
  show ?case
  proof (cases "has_function E (fn_name func)")
    case False
    with 2 show ?thesis by simp
  next
    case True
    show ?thesis
    proof (cases "estimateGas E u func")
      case (Inl gasError)
      show ?thesis
      proof (cases "sendTransaction E u func 1 300000 gasPrice")
        case (Inl fixedGasError)
        with 2 True \<open>estimateGas E u func = Inl gasError\<close> show ?thesis
          by (auto simp: after_events_def)
      next
        case (Inr tx)
        with 2 True \<open>estimateGas E u func = Inl gasError\<close> show ?thesis by auto
      qed
    next
      case (Inr gasEstimate)
      show ?thesis
      proof (cases "sendTransaction E u func 0 (gasEstimate + 50000) gasPrice")
        case (Inr tx)
        with 2 True \<open>estimateGas E u func = Inr gasEstimate\<close> show ?thesis by auto
      next
        case (Inl gasError)
        show ?thesis
        proof (cases "sendTransaction E u func 1 300000 gasPrice")
          case (Inl fixedGasError)
          with 2 True \<open>estimateGas E u func = Inr gasEstimate\<close>
            \<open>sendTransaction E u func 0 (gasEstimate + 50000) gasPrice = Inl gasError\<close>
          show ?thesis by (auto simp: after_events_def)
        next
          case (Inr tx)
          with 2 True \<open>estimateGas E u func = Inr gasEstimate\<close>
            \<open>sendTransaction E u func 0 (gasEstimate + 50000) gasPrice = Inl gasError\<close>
          show ?thesis by auto
        qed
      qed
    qed
  qed
qed

text \<open>Where the events of a composed step come from.\<close>

lemma events_and_then:
  "e \<in> set (fst (and_then m f)) \<Longrightarrow> e \<in> set (fst m) \<or> (\<exists>x. e \<in> set (fst (f x)))"
  by (cases "snd m") (auto simp: and_then_def)

lemma events_connect: "e \<in> set (fst (connect probe urls)) \<Longrightarrow> \<exists>u. e = Probe u"
  by (induction urls) (auto split: sum.splits)

lemma events_base_submit:
  assumes "SendTransaction u' f gasLimit gasPrice \<in> set (fst (base_submit E u a q))"
  shows "SendTransaction u' f gasLimit gasPrice
           \<in> set (fst (base_try_mint E u (base_mintFunctions a q) None))"
proof (cases "fst (snd (base_try_mint E u (base_mintFunctions a q) None))")
  case None
  with assms show ?thesis by (simp add: base_submit_def Let_def)
next
  case (Some h)
  with assms show ?thesis
    by (auto simp: base_submit_def Let_def and_then_def evm_confirm_def)
qed

lemma events_bsc_submit:
  assumes "SendTransaction u' f gasLimit gasPrice \<in> set (fst (bsc_submit E u a q))"
  shows "SendTransaction u' f gasLimit gasPrice
           \<in> set (fst (bsc_try_mint E u (bsc_gasPrice E u) (bsc_mintFunctions a q) None))"
proof (cases "fst (snd (bsc_try_mint E u (bsc_gasPrice E u) (bsc_mintFunctions a q) None))")
  case None
  with assms show ?thesis by (simp add: bsc_submit_def Let_def after_events_def)
next
  case (Some h)
  with assms show ?thesis
    by (auto simp: bsc_submit_def Let_def and_then_def evm_confirm_def after_events_def)
qed

lemma sends_base_connected:
  assumes "SendTransaction u' f gasLimit gasPrice \<in> set (fst (base_connected E u k c q))"
  shows "\<exists>a. SendTransaction u' f gasLimit gasPrice
           \<in> set (fst (base_try_mint E u (base_mintFunctions a q) None))"
  using assms unfolding base_connected_def
  by (auto dest!: events_and_then events_base_submit
      simp: evm_wallet_def base_balance_def evm_contract_def split: sum.splits)

lemma sends_bsc_connected:
  assumes "SendTransaction u' f gasLimit gasPrice \<in> set (fst (bsc_connected E u k c q))"
  shows "\<exists>a. SendTransaction u' f gasLimit gasPrice
           \<in> set (fst (bsc_try_mint E u (bsc_gasPrice E u) (bsc_mintFunctions a q) None))"
  using assms unfolding bsc_connected_def
  by (auto dest!: events_and_then events_bsc_submit
      simp: evm_wallet_def bsc_balance_def evm_contract_def split: sum.splits)

lemma sends_mintBASE:
  assumes "SendTransaction u' f gasLimit gasPrice \<in> set (fst (mintBASE R E d))"
  shows "\<exists>u a q. SendTransaction u' f gasLimit gasPrice
           \<in> set (fst (base_try_mint E u (base_mintFunctions a q) None))"
proof -
  let ?k = "get_prop d ''privateKey''" and ?c = "get_prop d ''contractAddress''"
    and ?q = "get_prop d ''mintQuantity''"
  from assms have body: "SendTransaction u' f gasLimit gasPrice \<in> set (fst (base_body R E ?k ?c ?q))"
    by (simp add: mintBASE_def catch_all_def)
  show ?thesis
  proof (cases "evm_validate R E ?k ?c ?q")
    case (Some r)
    with body show ?thesis by (simp add: base_body_def)
  next
    case None
    show ?thesis
    proof (cases "snd (connect (getNetwork E) base_rpcUrls)")
      case None
      with body \<open>evm_validate R E ?k ?c ?q = None\<close> show ?thesis
        by (auto simp: base_body_def dest: events_connect)
    next
      case (Some u)
      with body \<open>evm_validate R E ?k ?c ?q = None\<close>
      have "SendTransaction u' f gasLimit gasPrice \<in> set (fst (connect (getNetwork E) base_rpcUrls))
            \<or> SendTransaction u' f gasLimit gasPrice \<in> set (fst (base_connected E u ?k ?c ?q))"
        by (auto simp: base_body_def and_then_def)
      then show ?thesis
      proof
        assume "SendTransaction u' f gasLimit gasPrice \<in> set (fst (connect (getNetwork E) base_rpcUrls))"
        from events_connect [OF this] show ?thesis by simp
      next
        assume "SendTransaction u' f gasLimit gasPrice \<in> set (fst (base_connected E u ?k ?c ?q))"
        from sends_base_connected [OF this] show ?thesis by blast
      qed
    qed
  qed
qed

lemma sends_mintBSC:
  assumes "SendTransaction u' f gasLimit gasPrice \<in> set (fst (mintBSC R E d))"
  shows "\<exists>u a q. SendTransaction u' f gasLimit gasPrice
           \<in> set (fst (bsc_try_mint E u (bsc_gasPrice E u) (bsc_mintFunctions a q) None))"
proof -
  let ?k = "get_prop d ''privateKey''" and ?c = "get_prop d ''contractAddress''"
    and ?q = "get_prop d ''mintQuantity''"
  from assms have body: "SendTransaction u' f gasLimit gasPrice \<in> set (fst (bsc_body R E ?k ?c ?q))"
    by (simp add: mintBSC_def catch_all_def)
  show ?thesis
  proof (cases "evm_validate R E ?k ?c ?q")
    case (Some r)
    with body show ?thesis by (simp add: bsc_body_def)
  next
    case None
    show ?thesis
    proof (cases "snd (connect (getNetwork E) bsc_rpcUrls)")
      case None
      with body \<open>evm_validate R E ?k ?c ?q = None\<close> show ?thesis
        by (auto simp: bsc_body_def dest: events_connect)
    next
      case (Some u)
      with body \<open>evm_validate R E ?k ?c ?q = None\<close>
      have "SendTransaction u' f gasLimit gasPrice \<in> set (fst (connect (getNetwork E) bsc_rpcUrls))
            \<or> SendTransaction u' f gasLimit gasPrice \<in> set (fst (bsc_connected E u ?k ?c ?q))"
        by (auto simp: bsc_body_def and_then_def)
      then show ?thesis
      proof
        assume "SendTransaction u' f gasLimit gasPrice \<in> set (fst (connect (getNetwork E) bsc_rpcUrls))"
        from events_connect [OF this] show ?thesis by simp
      next
        assume "SendTransaction u' f gasLimit gasPrice \<in> set (fst (bsc_connected E u ?k ?c ?q))"
        from sends_bsc_connected [OF this] show ?thesis by blast
      qed
    qed
  qed
qed

text \<open>The loops stop at the first workable candidate of the list.\<close>

lemma bsc_first_workable:
  "(find (\<lambda>f. bsc_candidate E u p f \<noteq> None) fs = None \<longrightarrow>
      fst (snd (bsc_try_mint E u p fs l)) = None)
   \<and> (find (\<lambda>f. bsc_candidate E u p f \<noteq> None) fs = Some f
        \<and> bsc_candidate E u p f = Some (gasLimit, h) \<longrightarrow>
      fst (snd (bsc_try_mint E u p fs l)) = Some h
      \<and> fst (bsc_try_mint E u p fs l) \<noteq> []
      \<and> last (fst (bsc_try_mint E u p fs l)) = SendTransaction u f gasLimit p)"
proof (induction E u p fs l rule: bsc_try_mint.induct)
  case (1 E u gasPrice lastError)
  then show ?case by simp
next
  case (2 E u gasPrice func rest lastError)
  show ?case
  proof (cases "has_function E (fn_name func)")
    case False
    then have c: "bsc_candidate E u gasPrice func = None" by (simp add: bsc_candidate_def)
    from 2 False show ?thesis by (simp add: c)
  next
    case True
    show ?thesis
    proof (cases "estimateGas E u func")
      case (Inl gasError)
      show ?thesis
      proof (cases "sendTransaction E u func 1 300000 gasPrice")
        case (Inl fixedGasError)
        with True \<open>estimateGas E u func = Inl gasError\<close>
        have c: "bsc_candidate E u gasPrice func = None" by (simp add: bsc_candidate_def)
        from 2 True \<open>estimateGas E u func = Inl gasError\<close> Inl show ?thesis
          by (simp add: c after_events_def)
      next
        case (Inr tx)
        with True \<open>estimateGas E u func = Inl gasError\<close>
        have c: "bsc_candidate E u gasPrice func = Some (300000, tx)" by (simp add: bsc_candidate_def)
        from True \<open>estimateGas E u func = Inl gasError\<close> Inr c show ?thesis
          by auto
      qed
    next
      case (Inr gasEstimate)
      show ?thesis
      proof (cases "sendTransaction E u func 0 (gasEstimate + 50000) gasPrice")
        case (Inr tx)
        with True \<open>estimateGas E u func = Inr gasEstimate\<close>
        have c: "bsc_candidate E u gasPrice func = Some (gasEstimate + 50000, tx)"
          by (simp add: bsc_candidate_def)
        from True \<open>estimateGas E u func = Inr gasEstimate\<close> Inr c show ?thesis
          by auto
      next
        case (Inl gasError)
        show ?thesis
        proof (cases "sendTransaction E u func 1 300000 gasPrice")
          case (Inl fixedGasError)
          with True \<open>estimateGas E u func = Inr gasEstimate\<close>
            \<open>sendTransaction E u func 0 (gasEstimate + 50000) gasPrice = Inl gasError\<close>
          have c: "bsc_candidate E u gasPrice func = None" by (simp add: bsc_candidate_def)
          from 2 True \<open>estimateGas E u func = Inr gasEstimate\<close>
            \<open>sendTransaction E u func 0 (gasEstimate + 50000) gasPrice = Inl gasError\<close> Inl
          show ?thesis by (simp add: c after_events_def)
        next
          case (Inr tx)
          with True \<open>estimateGas E u func = Inr gasEstimate\<close>
            \<open>sendTransaction E u func 0 (gasEstimate + 50000) gasPrice = Inl gasError\<close>
          have c: "bsc_candidate E u gasPrice func = Some (300000, tx)"
            by (simp add: bsc_candidate_def)
          from True \<open>estimateGas E u func = Inr gasEstimate\<close>
            \<open>sendTransaction E u func 0 (gasEstimate + 50000) gasPrice = Inl gasError\<close> Inr c
          show ?thesis by auto
        qed
      qed
    qed
  qed
qed

lemma base_first_workable:
  "(find (\<lambda>f. base_candidate E u f \<noteq> None) fs = None \<longrightarrow>
      fst (snd (base_try_mint E u fs l)) = None)
   \<and> (find (\<lambda>f. base_candidate E u f \<noteq> None) fs = Some f
        \<and> base_candidate E u f = Some (gasLimit, h) \<longrightarrow>
      fst (snd (base_try_mint E u fs l)) = Some h
      \<and> fst (base_try_mint E u fs l) \<noteq> []
      \<and> last (fst (base_try_mint E u fs l)) = SendTransaction u f gasLimit (gwei 20))"
proof (induction E u fs l rule: base_try_mint.induct)
  case (1 E u lastError)
  then show ?case by simp
next
  case (2 E u func rest lastError)
  show ?case
  proof (cases "has_function E (fn_name func)")
    case False
    then have c: "base_candidate E u func = None" by (simp add: base_candidate_def)
    from 2 False show ?thesis by (simp add: c)
  next
    case True
    show ?thesis
    proof (cases "estimateGas E u func")
      case (Inl gasError)
      with True have c: "base_candidate E u func = None" by (simp add: base_candidate_def)
      from 2 True Inl show ?thesis by (simp add: c after_events_def)
    next
      case (Inr gasEstimate)
      show ?thesis
      proof (cases "sendTransaction E u func 0 500000 (gwei 20)")
        case (Inl funcError)
        with True \<open>estimateGas E u func = Inr gasEstimate\<close>
        have c: "base_candidate E u func = None" by (simp add: base_candidate_def)
        from 2 True \<open>estimateGas E u func = Inr gasEstimate\<close> Inl show ?thesis
          by (simp add: c after_events_def)
      next
        case (Inr tx)
        with True \<open>estimateGas E u func = Inr gasEstimate\<close>
        have c: "base_candidate E u func = Some (500000, tx)" by (simp add: base_candidate_def)
        from True \<open>estimateGas E u func = Inr gasEstimate\<close> Inr c show ?thesis
          by auto
      qed
    qed
  qed
qed

text \<open>The run of an executor that reaches the loop over the candidates.\<close>

lemma base_reaches_loop:
  assumes "new_Wallet E k = Inr a" and "getBalance E u a = Inr b" and "\<not> b < base_min_wei"
    and "new_Contract E c = Inr ()" and "getCode E u c = Inr code" and "code \<noteq> ''0x''"
  shows "base_connected E u k c q =
           step_after [ParseKey, GetBalance u a, GetCode u] (base_submit E u a q)"
  using assms
  by (simp add: base_connected_def evm_wallet_def base_balance_def evm_contract_def and_then_def
      step_after_def)

lemma bsc_reaches_loop:
  assumes "new_Wallet E k = Inr a" and "getBalance E u a = Inr b" and "\<not> b < bsc_min_wei"
    and "new_Contract E c = Inr ()" and "getCode E u c = Inr code" and "code \<noteq> ''0x''"
  shows "bsc_connected E u k c q =
           step_after [ParseKey, GetBalance u a, GetCode u] (bsc_submit E u a q)"
  using assms
  by (simp add: bsc_connected_def evm_wallet_def bsc_balance_def evm_contract_def and_then_def
      step_after_def)

lemma base_submit_workable:
  assumes "find (\<lambda>f. base_candidate E u f \<noteq> None) (base_mintFunctions a q) = Some f'"
    and "base_candidate E u f' = Some (limit, h)"
  shows "base_submit E u a q =
           step_after (fst (base_try_mint E u (base_mintFunctions a q) None)) (evm_confirm E u h)"
proof -
  from base_first_workable [of E u "base_mintFunctions a q" None f' limit h] assms
  have "fst (snd (base_try_mint E u (base_mintFunctions a q) None)) = Some h" by blast
  then show ?thesis by (simp add: base_submit_def Let_def and_then_def step_after_def)
qed

lemma base_submit_unworkable:
  assumes "find (\<lambda>f. base_candidate E u f \<noteq> None) (base_mintFunctions a q) = None"
  shows "base_submit E u a q =
           (fst (base_try_mint E u (base_mintFunctions a q) None),
            Return (base_no_tx (snd (snd (base_try_mint E u (base_mintFunctions a q) None)))))"
proof -
  from base_first_workable [of E u "base_mintFunctions a q" None] assms
  have "fst (snd (base_try_mint E u (base_mintFunctions a q) None)) = None" by blast
  then show ?thesis by (simp add: base_submit_def Let_def)
qed

lemma bsc_submit_workable:
  assumes "find (\<lambda>f. bsc_candidate E u (bsc_gasPrice E u) f \<noteq> None) (bsc_mintFunctions a q) = Some f'"
    and "bsc_candidate E u (bsc_gasPrice E u) f' = Some (limit, h)"
  shows "bsc_submit E u a q =
           step_after
             (GetFeeData u # fst (bsc_try_mint E u (bsc_gasPrice E u) (bsc_mintFunctions a q) None))
             (evm_confirm E u h)"
proof -
  from bsc_first_workable [of E u "bsc_gasPrice E u" "bsc_mintFunctions a q" None f' limit h] assms
  have "fst (snd (bsc_try_mint E u (bsc_gasPrice E u) (bsc_mintFunctions a q) None)) = Some h"
    by blast
  then show ?thesis
    by (simp add: bsc_submit_def Let_def and_then_def step_after_def after_events_def)
qed

lemma bsc_submit_unworkable:
  assumes "find (\<lambda>f. bsc_candidate E u (bsc_gasPrice E u) f \<noteq> None) (bsc_mintFunctions a q) = None"
  shows "bsc_submit E u a q =
           (GetFeeData u # fst (bsc_try_mint E u (bsc_gasPrice E u) (bsc_mintFunctions a q) None),
            Return (bsc_no_tx
              (snd (snd (bsc_try_mint E u (bsc_gasPrice E u) (bsc_mintFunctions a q) None)))))"
proof -
  from bsc_first_workable [of E u "bsc_gasPrice E u" "bsc_mintFunctions a q" None] assms
  have "fst (snd (bsc_try_mint E u (bsc_gasPrice E u) (bsc_mintFunctions a q) None)) = None"
    by blast
  then show ?thesis by (simp add: bsc_submit_def Let_def after_events_def)
qed

lemma base_loop_events:
  "e \<in> set (fst (base_try_mint E u fs l)) \<Longrightarrow>
     (\<exists>f. e = EstimateGas u f) \<or> (\<exists>f. e = SendTransaction u f 500000 (gwei 20))"
  by (induction E u fs l rule: base_try_mint.induct)
     (auto simp: after_events_def split: if_splits sum.splits)

lemma bsc_loop_events:
  "e \<in> set (fst (bsc_try_mint E u p fs l)) \<Longrightarrow>
     (\<exists>f. e = EstimateGas u f) \<or> (\<exists>f g. e = SendTransaction u f g p)"
  by (induction E u p fs l rule: bsc_try_mint.induct)
     (auto simp: after_events_def Let_def split: if_splits sum.splits option.splits)

lemma base_candidate_sent:
  "base_candidate E u f = Some (limit, h) \<Longrightarrow>
     limit = 500000 \<and> has_function E (fn_name f) \<and> \<not> isl (estimateGas E u f)
     \<and> sendTransaction E u f 0 500000 (gwei 20) = Inr h"
  by (auto simp: base_candidate_def split: if_splits sum.splits)

lemma bsc_candidate_sent:
  "bsc_candidate E u p f = Some (limit, h) \<Longrightarrow>
     has_function E (fn_name f)
     \<and> ((\<exists>g. estimateGas E u f = Inr g \<and> limit = g + 50000
              \<and> sendTransaction E u f 0 (g + 50000) p = Inr h)
         \<or> (limit = 300000 \<and> sendTransaction E u f 1 300000 p = Inr h
             \<and> (isl (estimateGas E u f)
                 \<or> (\<exists>g. estimateGas E u f = Inr g \<and> isl (sendTransaction E u f 0 (g + 50000) p)))))"
  by (auto simp: bsc_candidate_def split: if_splits sum.splits)

lemma base_submit_fee_free: "GetFeeData v \<notin> set (fst (base_submit E u a q))"
  by (auto simp: base_submit_def Let_def and_then_def evm_confirm_def
      dest: base_loop_events split: option.splits)

lemma base_connected_fee_free: "GetFeeData v \<notin> set (fst (base_connected E u k c q))"
  unfolding base_connected_def
  by (auto dest!: events_and_then
      simp: evm_wallet_def base_balance_def evm_contract_def base_submit_fee_free split: sum.splits)

lemma mintBASE_fee_free: "GetFeeData v \<notin> set (fst (mintBASE R E d))"
proof
  let ?k = "get_prop d ''privateKey''" and ?c = "get_prop d ''contractAddress''"
    and ?q = "get_prop d ''mintQuantity''"
  assume "GetFeeData v \<in> set (fst (mintBASE R E d))"
  then have body: "GetFeeData v \<in> set (fst (base_body R E ?k ?c ?q))"
    by (simp add: mintBASE_def catch_all_def)
  show False
  proof (cases "evm_validate R E ?k ?c ?q")
    case (Some r)
    with body show ?thesis by (simp add: base_body_def)
  next
    case None
    show ?thesis
    proof (cases "snd (connect (getNetwork E) base_rpcUrls)")
      case None
      with body \<open>evm_validate R E ?k ?c ?q = None\<close> show ?thesis
        by (auto simp: base_body_def dest: events_connect)
    next
      case (Some u)
      with body \<open>evm_validate R E ?k ?c ?q = None\<close>
      have "GetFeeData v \<in> set (fst (connect (getNetwork E) base_rpcUrls))
            \<or> GetFeeData v \<in> set (fst (base_connected E u ?k ?c ?q))"
        by (auto simp: base_body_def and_then_def)
      then show ?thesis
        using base_connected_fee_free by (auto dest: events_connect)
    qed
  qed
qed


lemma fst_evm_confirm: "fst (evm_confirm E u h) = [WaitConfirmation u h]"
  by (simp add: evm_confirm_def)

lemma base_run_workable:
  fixes d :: jsobj
  defines "k \<equiv> get_prop d ''privateKey''"
    and "c \<equiv> get_prop d ''contractAddress''"
    and "q \<equiv> get_prop d ''mintQuantity''"
  assumes valid: "evm_validate R E k c q = None"
    and endpoint: "find (\<lambda>u. \<not> isl (getNetwork E u)) base_rpcUrls = Some u"
    and wallet: "new_Wallet E k = Inr a"
    and balance: "getBalance E u a = Inr b" "\<not> b < base_min_wei"
    and contract: "new_Contract E c = Inr ()" "getCode E u c = Inr code" "code \<noteq> ''0x''"
    and first: "find (\<lambda>f. base_candidate E u f \<noteq> None) (base_mintFunctions a q) = Some f'"
    and sent: "base_candidate E u f' = Some (limit, h)"
  shows "mintBASE R E d =
           (map Probe (takeWhile (\<lambda>u. isl (getNetwork E u)) base_rpcUrls)
              @ [Probe u, ParseKey, GetBalance u a, GetCode u]
              @ fst (base_try_mint E u (base_mintFunctions a q) None)
              @ [WaitConfirmation u h],
            snd (catch_all base_catch (evm_confirm E u h)))"
proof -
  have "mintBASE R E d = catch_all base_catch (base_body R E k c q)"
    by (simp add: mintBASE_def k_def c_def q_def)
  also note base_connects [OF valid endpoint]
  also note base_reaches_loop [OF wallet balance contract]
  also note base_submit_workable [OF first sent]
  finally show ?thesis
    by (simp add: catch_all_def step_after_def fst_evm_confirm)
qed

lemma base_run_unworkable:
  fixes d :: jsobj
  defines "k \<equiv> get_prop d ''privateKey''"
    and "c \<equiv> get_prop d ''contractAddress''"
    and "q \<equiv> get_prop d ''mintQuantity''"
  assumes valid: "evm_validate R E k c q = None"
    and endpoint: "find (\<lambda>u. \<not> isl (getNetwork E u)) base_rpcUrls = Some u"
    and wallet: "new_Wallet E k = Inr a"
    and balance: "getBalance E u a = Inr b" "\<not> b < base_min_wei"
    and contract: "new_Contract E c = Inr ()" "getCode E u c = Inr code" "code \<noteq> ''0x''"
    and none: "find (\<lambda>f. base_candidate E u f \<noteq> None) (base_mintFunctions a q) = None"
  shows "mintBASE R E d =
           (map Probe (takeWhile (\<lambda>u. isl (getNetwork E u)) base_rpcUrls)
              @ [Probe u, ParseKey, GetBalance u a, GetCode u]
              @ fst (base_try_mint E u (base_mintFunctions a q) None),
            base_no_tx (snd (snd (base_try_mint E u (base_mintFunctions a q) None))))"
proof -
  have "mintBASE R E d = catch_all base_catch (base_body R E k c q)"
    by (simp add: mintBASE_def k_def c_def q_def)
  also note base_connects [OF valid endpoint]
  also note base_reaches_loop [OF wallet balance contract]
  also note base_submit_unworkable [OF none]
  finally show ?thesis
    by (simp add: catch_all_def step_after_def)
qed

lemma bsc_run_workable:
  fixes d :: jsobj
  defines "k \<equiv> get_prop d ''privateKey''"
    and "c \<equiv> get_prop d ''contractAddress''"
    and "q \<equiv> get_prop d ''mintQuantity''"
  assumes valid: "evm_validate R E k c q = None"
    and endpoint: "find (\<lambda>u. \<not> isl (getNetwork E u)) bsc_rpcUrls = Some u"
    and wallet: "new_Wallet E k = Inr a"
    and balance: "getBalance E u a = Inr b" "\<not> b < bsc_min_wei"
    and contract: "new_Contract E c = Inr ()" "getCode E u c = Inr code" "code \<noteq> ''0x''"
    and first: "find (\<lambda>f. bsc_candidate E u (bsc_gasPrice E u) f \<noteq> None) (bsc_mintFunctions a q)
                  = Some f'"
    and sent: "bsc_candidate E u (bsc_gasPrice E u) f' = Some (limit, h)"
  shows "mintBSC R E d =
           (map Probe (takeWhile (\<lambda>u. isl (getNetwork E u)) bsc_rpcUrls)
              @ [Probe u, ParseKey, GetBalance u a, GetCode u, GetFeeData u]
              @ fst (bsc_try_mint E u (bsc_gasPrice E u) (bsc_mintFunctions a q) None)
              @ [WaitConfirmation u h],
            snd (catch_all bsc_catch (evm_confirm E u h)))"
proof -
  have "mintBSC R E d = catch_all bsc_catch (bsc_body R E k c q)"
    by (simp add: mintBSC_def k_def c_def q_def)
  also note bsc_connects [OF valid endpoint]
  also note bsc_reaches_loop [OF wallet balance contract]
  also note bsc_submit_workable [OF first sent]
  finally show ?thesis
    by (simp add: catch_all_def step_after_def fst_evm_confirm)
qed

lemma bsc_run_unworkable:
  fixes d :: jsobj
  defines "k \<equiv> get_prop d ''privateKey''"
    and "c \<equiv> get_prop d ''contractAddress''"
    and "q \<equiv> get_prop d ''mintQuantity''"
  assumes valid: "evm_validate R E k c q = None"
    and endpoint: "find (\<lambda>u. \<not> isl (getNetwork E u)) bsc_rpcUrls = Some u"
    and wallet: "new_Wallet E k = Inr a"
    and balance: "getBalance E u a = Inr b" "\<not> b < bsc_min_wei"
    and contract: "new_Contract E c = Inr ()" "getCode E u c = Inr code" "code \<noteq> ''0x''"
    and none: "find (\<lambda>f. bsc_candidate E u (bsc_gasPrice E u) f \<noteq> None) (bsc_mintFunctions a q)
                 = None"
  shows "mintBSC R E d =
           (map Probe (takeWhile (\<lambda>u. isl (getNetwork E u)) bsc_rpcUrls)
              @ [Probe u, ParseKey, GetBalance u a, GetCode u, GetFeeData u]
              @ fst (bsc_try_mint E u (bsc_gasPrice E u) (bsc_mintFunctions a q) None),
            bsc_no_tx (snd (snd (bsc_try_mint E u (bsc_gasPrice E u) (bsc_mintFunctions a q) None))))"
proof -
  have "mintBSC R E d = catch_all bsc_catch (bsc_body R E k c q)"
    by (simp add: mintBSC_def k_def c_def q_def)
  also note bsc_connects [OF valid endpoint]
  also note bsc_reaches_loop [OF wallet balance contract]
  also note bsc_submit_unworkable [OF none]
  finally show ?thesis
    by (simp add: catch_all_def step_after_def)
qed

lemma no_wait_in_probes: "WaitConfirmation v h \<notin> set (map Probe urls)"
  by (induction urls) simp_all

text \<open>
  C7, as amended. BSC reads the fee data once, before the loop, and uses its gas price
  for every submission, or 5 gwei when the fee data cannot be read or holds no (or a zero)
  gas price. A BSC candidate is submitted with its gas estimate plus 50000; when the
  estimate or that submission throws, it is submitted again with the fixed limit 300000.
  BASE never reads fee data: every BASE submission carries the fixed gas limit 500000 and
  the fixed gas price 20 gwei, and happens only for a candidate whose gas estimate
  succeeded (a candidate whose estimate throws is skipped). In both executors the loop
  ends at the first workable candidate of the list: on a run that reaches the loop, the
  trace of the executor is the probes, key parsing, the balance query and the code query
  (and on BSC the fee data query), then the events of the loop, whose last one is the
  submission of that candidate, then the wait for the confirmation of the hash this
  submission returned; the result is what that confirmation gives. With no workable
  candidate the trace ends with the loop, nothing is waited for, and the result is the
  failure made from the last error.
\<close>

theorem evm_gas_budget:
  fixes d :: jsobj
  defines "key \<equiv> get_prop d ''privateKey''"
    and "contract \<equiv> get_prop d ''contractAddress''"
    and "quantity \<equiv> get_prop d ''mintQuantity''"
  shows
  "(SendTransaction u f gasLimit gasPrice \<in> set (fst (mintBSC R E d)) \<longrightarrow>
      gasPrice = bsc_gasPrice E u
      \<and> ((\<exists>g. estimateGas E u f = Inr g \<and> gasLimit = g + 50000)
           \<or> (gasLimit = 300000
               \<and> (isl (estimateGas E u f)
                   \<or> (\<exists>g. estimateGas E u f = Inr g
                        \<and> isl (sendTransaction E u f 0 (g + 50000) gasPrice))))))
   \<and> (isl (getFeeData E u) \<or> getFeeData E u = Inr None \<or> getFeeData E u = Inr (Some 0)
        \<longrightarrow> bsc_gasPrice E u = gwei 5)
   \<and> (\<forall>p. getFeeData E u = Inr (Some p) \<and> p \<noteq> 0 \<longrightarrow> bsc_gasPrice E u = p)
   \<and> (SendTransaction u f gasLimit gasPrice \<in> set (fst (mintBASE R E d)) \<longrightarrow>
        gasLimit = 500000 \<and> gasPrice = gwei 20 \<and> \<not> isl (estimateGas E u f))
   \<and> (find (\<lambda>f. bsc_candidate E u (bsc_gasPrice E u) f \<noteq> None) (bsc_mintFunctions a q) = None \<longrightarrow>
        fst (snd (bsc_try_mint E u (bsc_gasPrice E u) (bsc_mintFunctions a q) None)) = None)
   \<and> (find (\<lambda>f. bsc_candidate E u (bsc_gasPrice E u) f \<noteq> None) (bsc_mintFunctions a q) = Some f'
          \<and> bsc_candidate E u (bsc_gasPrice E u) f' = Some (limit, h) \<longrightarrow>
        fst (snd (bsc_try_mint E u (bsc_gasPrice E u) (bsc_mintFunctions a q) None)) = Some h
        \<and> last (fst (bsc_try_mint E u (bsc_gasPrice E u) (bsc_mintFunctions a q) None))
            = SendTransaction u f' limit (bsc_gasPrice E u))
   \<and> (find (\<lambda>f. base_candidate E u f \<noteq> None) (base_mintFunctions a q) = None \<longrightarrow>
        fst (snd (base_try_mint E u (base_mintFunctions a q) None)) = None)
   \<and> (find (\<lambda>f. base_candidate E u f \<noteq> None) (base_mintFunctions a q) = Some f'
          \<and> base_candidate E u f' = Some (limit, h) \<longrightarrow>
        fst (snd (base_try_mint E u (base_mintFunctions a q) None)) = Some h
        \<and> last (fst (base_try_mint E u (base_mintFunctions a q) None))
            = SendTransaction u f' limit (gwei 20))
   \<and> GetFeeData v \<notin> set (fst (mintBASE R E d))
   \<and> (evm_validate R E key contract quantity = None
        \<and> find (\<lambda>u. \<not> isl (getNetwork E u)) bsc_rpcUrls = Some u
        \<and> new_Wallet E key = Inr a \<and> getBalance E u a = Inr b \<and> \<not> b < bsc_min_wei
        \<and> new_Contract E contract = Inr () \<and> getCode E u contract = Inr code \<and> code \<noteq> ''0x''
        \<and> find (\<lambda>f. bsc_candidate E u (bsc_gasPrice E u) f \<noteq> None) (bsc_mintFunctions a quantity)
            = Some f'
        \<and> bsc_candidate E u (bsc_gasPrice E u) f' = Some (limit, h) \<longrightarrow>
      mintBSC R E d =
        (map Probe (takeWhile (\<lambda>u. isl (getNetwork E u)) bsc_rpcUrls)
           @ [Probe u, ParseKey, GetBalance u a, GetCode u, GetFeeData u]
           @ fst (bsc_try_mint E u (bsc_gasPrice E u) (bsc_mintFunctions a quantity) None)
           @ [WaitConfirmation u h],
         snd (catch_all bsc_catch (evm_confirm E u h)))
      \<and> last (fst (bsc_try_mint E u (bsc_gasPrice E u) (bsc_mintFunctions a quantity) None))
          = SendTransaction u f' limit (bsc_gasPrice E u)
      \<and> ((\<exists>g. estimateGas E u f' = Inr g \<and> limit = g + 50000
               \<and> sendTransaction E u f' 0 (g + 50000) (bsc_gasPrice E u) = Inr h)
          \<or> (limit = 300000 \<and> sendTransaction E u f' 1 300000 (bsc_gasPrice E u) = Inr h
              \<and> (isl (estimateGas E u f')
                  \<or> (\<exists>g. estimateGas E u f' = Inr g
                       \<and> isl (sendTransaction E u f' 0 (g + 50000) (bsc_gasPrice E u)))))))
   \<and> (evm_validate R E key contract quantity = None
        \<and> find (\<lambda>u. \<not> isl (getNetwork E u)) bsc_rpcUrls = Some u
        \<and> new_Wallet E key = Inr a \<and> getBalance E u a = Inr b \<and> \<not> b < bsc_min_wei
        \<and> new_Contract E contract = Inr () \<and> getCode E u contract = Inr code \<and> code \<noteq> ''0x''
        \<and> find (\<lambda>f. bsc_candidate E u (bsc_gasPrice E u) f \<noteq> None) (bsc_mintFunctions a quantity)
            = None \<longrightarrow>
      mintBSC R E d =
        (map Probe (takeWhile (\<lambda>u. isl (getNetwork E u)) bsc_rpcUrls)
           @ [Probe u, ParseKey, GetBalance u a, GetCode u, GetFeeData u]
           @ fst (bsc_try_mint E u (bsc_gasPrice E u) (bsc_mintFunctions a quantity) None),
         bsc_no_tx
           (snd (snd (bsc_try_mint E u (bsc_gasPrice E u) (bsc_mintFunctions a quantity) None))))
      \<and> WaitConfirmation v h \<notin> set (fst (mintBSC R E d)))
   \<and> (evm_validate R E key contract quantity = None
        \<and> find (\<lambda>u. \<not> isl (getNetwork E u)) base_rpcUrls = Some u
        \<and> new_Wallet E key = Inr a \<and> getBalance E u a = Inr b \<and> \<not> b < base_min_wei
        \<and> new_Contract E contract = Inr () \<and> getCode E u contract = Inr code \<and> code \<noteq> ''0x''
        \<and> find (\<lambda>f. base_candidate E u f \<noteq> None) (base_mintFunctions a quantity) = Some f'
        \<and> base_candidate E u f' = Some (limit, h) \<longrightarrow>
      mintBASE R E d =
        (map Probe (takeWhile (\<lambda>u. isl (getNetwork E u)) base_rpcUrls)
           @ [Probe u, ParseKey, GetBalance u a, GetCode u]
           @ fst (base_try_mint E u (base_mintFunctions a quantity) None)
           @ [WaitConfirmation u h],
         snd (catch_all base_catch (evm_confirm E u h)))
      \<and> last (fst (base_try_mint E u (base_mintFunctions a quantity) None))
          = SendTransaction u f' 500000 (gwei 20)
      \<and> limit = 500000 \<and> \<not> isl (estimateGas E u f')
      \<and> sendTransaction E u f' 0 500000 (gwei 20) = Inr h)
   \<and> (evm_validate R E key contract quantity = None
        \<and> find (\<lambda>u. \<not> isl (getNetwork E u)) base_rpcUrls = Some u
        \<and> new_Wallet E key = Inr a \<and> getBalance E u a = Inr b \<and> \<not> b < base_min_wei
        \<and> new_Contract E contract = Inr () \<and> getCode E u contract = Inr code \<and> code \<noteq> ''0x''
        \<and> find (\<lambda>f. base_candidate E u f \<noteq> None) (base_mintFunctions a quantity) = None \<longrightarrow>
      mintBASE R E d =
        (map Probe (takeWhile (\<lambda>u. isl (getNetwork E u)) base_rpcUrls)
           @ [Probe u, ParseKey, GetBalance u a, GetCode u]
           @ fst (base_try_mint E u (base_mintFunctions a quantity) None),
         base_no_tx (snd (snd (base_try_mint E u (base_mintFunctions a quantity) None))))
      \<and> WaitConfirmation v h \<notin> set (fst (mintBASE R E d)))"
proof (intro conjI impI)
  assume "SendTransaction u f gasLimit gasPrice \<in> set (fst (mintBSC R E d))"
  from sends_mintBSC [OF this] obtain u0 a0 q0
    where "SendTransaction u f gasLimit gasPrice
             \<in> set (fst (bsc_try_mint E u0 (bsc_gasPrice E u0) (bsc_mintFunctions a0 q0) None))"
    by blast
  from bsc_sends [OF this]
  show "gasPrice = bsc_gasPrice E u"
    and "(\<exists>g. estimateGas E u f = Inr g \<and> gasLimit = g + 50000)
           \<or> (gasLimit = 300000
               \<and> (isl (estimateGas E u f)
                   \<or> (\<exists>g. estimateGas E u f = Inr g
                        \<and> isl (sendTransaction E u f 0 (g + 50000) gasPrice))))"
    by auto
next
  assume "isl (getFeeData E u) \<or> getFeeData E u = Inr None \<or> getFeeData E u = Inr (Some 0)"
  then show "bsc_gasPrice E u = gwei 5"
    by (auto simp: bsc_gasPrice_def split: sum.splits)
next
  show "\<forall>p. getFeeData E u = Inr (Some p) \<and> p \<noteq> 0 \<longrightarrow> bsc_gasPrice E u = p"
    by (simp add: bsc_gasPrice_def)
next
  assume "SendTransaction u f gasLimit gasPrice \<in> set (fst (mintBASE R E d))"
  from sends_mintBASE [OF this] obtain u0 a0 q0
    where "SendTransaction u f gasLimit gasPrice
             \<in> set (fst (base_try_mint E u0 (base_mintFunctions a0 q0) None))"
    by blast
  from base_sends [OF this]
  show "gasLimit = 500000" and "gasPrice = gwei 20" and "\<not> isl (estimateGas E u f)"
    by auto
next
  assume "find (\<lambda>f. bsc_candidate E u (bsc_gasPrice E u) f \<noteq> None) (bsc_mintFunctions a q) = None"
  with bsc_first_workable [of E u "bsc_gasPrice E u" "bsc_mintFunctions a q" None]
  show "fst (snd (bsc_try_mint E u (bsc_gasPrice E u) (bsc_mintFunctions a q) None)) = None"
    by blast
next
  assume "find (\<lambda>f. bsc_candidate E u (bsc_gasPrice E u) f \<noteq> None) (bsc_mintFunctions a q) = Some f'
          \<and> bsc_candidate E u (bsc_gasPrice E u) f' = Some (limit, h)"
  with bsc_first_workable [of E u "bsc_gasPrice E u" "bsc_mintFunctions a q" None f' limit h]
  show "fst (snd (bsc_try_mint E u (bsc_gasPrice E u) (bsc_mintFunctions a q) None)) = Some h"
    and "last (fst (bsc_try_mint E u (bsc_gasPrice E u) (bsc_mintFunctions a q) None))
            = SendTransaction u f' limit (bsc_gasPrice E u)"
    by blast+
next
  assume "find (\<lambda>f. base_candidate E u f \<noteq> None) (base_mintFunctions a q) = None"
  with base_first_workable [of E u "base_mintFunctions a q" None]
  show "fst (snd (base_try_mint E u (base_mintFunctions a q) None)) = None"
    by blast
next
  assume "find (\<lambda>f. base_candidate E u f \<noteq> None) (base_mintFunctions a q) = Some f'
          \<and> base_candidate E u f' = Some (limit, h)"
  with base_first_workable [of E u "base_mintFunctions a q" None f' limit h]
  show "fst (snd (base_try_mint E u (base_mintFunctions a q) None)) = Some h"
    and "last (fst (base_try_mint E u (base_mintFunctions a q) None))
            = SendTransaction u f' limit (gwei 20)"
    by blast+
next
  show "GetFeeData v \<notin> set (fst (mintBASE R E d))" by (rule mintBASE_fee_free)
next
  assume reach: "evm_validate R E key contract quantity = None
        \<and> find (\<lambda>u. \<not> isl (getNetwork E u)) bsc_rpcUrls = Some u
        \<and> new_Wallet E key = Inr a \<and> getBalance E u a = Inr b \<and> \<not> b < bsc_min_wei
        \<and> new_Contract E contract = Inr () \<and> getCode E u contract = Inr code \<and> code \<noteq> ''0x''
        \<and> find (\<lambda>f. bsc_candidate E u (bsc_gasPrice E u) f \<noteq> None) (bsc_mintFunctions a quantity)
            = Some f'
        \<and> bsc_candidate E u (bsc_gasPrice E u) f' = Some (limit, h)"
  then show "mintBSC R E d =
        (map Probe (takeWhile (\<lambda>u. isl (getNetwork E u)) bsc_rpcUrls)
           @ [Probe u, ParseKey, GetBalance u a, GetCode u, GetFeeData u]
           @ fst (bsc_try_mint E u (bsc_gasPrice E u) (bsc_mintFunctions a quantity) None)
           @ [WaitConfirmation u h],
         snd (catch_all bsc_catch (evm_confirm E u h)))"
    using bsc_run_workable [of R E d u a b code f' limit h, folded key_def contract_def quantity_def]
    by blast
  from reach
    bsc_first_workable [of E u "bsc_gasPrice E u" "bsc_mintFunctions a quantity" None f' limit h]
  show "last (fst (bsc_try_mint E u (bsc_gasPrice E u) (bsc_mintFunctions a quantity) None))
          = SendTransaction u f' limit (bsc_gasPrice E u)"
    by blast
  from reach bsc_candidate_sent [of E u "bsc_gasPrice E u" f' limit h]
  show "(\<exists>g. estimateGas E u f' = Inr g \<and> limit = g + 50000
               \<and> sendTransaction E u f' 0 (g + 50000) (bsc_gasPrice E u) = Inr h)
          \<or> (limit = 300000 \<and> sendTransaction E u f' 1 300000 (bsc_gasPrice E u) = Inr h
              \<and> (isl (estimateGas E u f')
                  \<or> (\<exists>g. estimateGas E u f' = Inr g
                       \<and> isl (sendTransaction E u f' 0 (g + 50000) (bsc_gasPrice E u)))))"
    by blast
next
  assume reach: "evm_validate R E key contract quantity = None
        \<and> find (\<lambda>u. \<not> isl (getNetwork E u)) bsc_rpcUrls = Some u
        \<and> new_Wallet E key = Inr a \<and> getBalance E u a = Inr b \<and> \<not> b < bsc_min_wei
        \<and> new_Contract E contract = Inr () \<and> getCode E u contract = Inr code \<and> code \<noteq> ''0x''
        \<and> find (\<lambda>f. bsc_candidate E u (bsc_gasPrice E u) f \<noteq> None) (bsc_mintFunctions a quantity)
            = None"
  then show run: "mintBSC R E d =
        (map Probe (takeWhile (\<lambda>u. isl (getNetwork E u)) bsc_rpcUrls)
           @ [Probe u, ParseKey, GetBalance u a, GetCode u, GetFeeData u]
           @ fst (bsc_try_mint E u (bsc_gasPrice E u) (bsc_mintFunctions a quantity) None),
         bsc_no_tx
           (snd (snd (bsc_try_mint E u (bsc_gasPrice E u) (bsc_mintFunctions a quantity) None))))"
    using bsc_run_unworkable [of R E d u a b code, folded key_def contract_def quantity_def]
    by blast
  show "WaitConfirmation v h \<notin> set (fst (mintBSC R E d))"
    by (auto simp: run no_wait_in_probes dest: bsc_loop_events)
next
  assume reach: "evm_validate R E key contract quantity = None
        \<and> find (\<lambda>u. \<not> isl (getNetwork E u)) base_rpcUrls = Some u
        \<and> new_Wallet E key = Inr a \<and> getBalance E u a = Inr b \<and> \<not> b < base_min_wei
        \<and> new_Contract E contract = Inr () \<and> getCode E u contract = Inr code \<and> code \<noteq> ''0x''
        \<and> find (\<lambda>f. base_candidate E u f \<noteq> None) (base_mintFunctions a quantity) = Some f'
        \<and> base_candidate E u f' = Some (limit, h)"
  then show "mintBASE R E d =
        (map Probe (takeWhile (\<lambda>u. isl (getNetwork E u)) base_rpcUrls)
           @ [Probe u, ParseKey, GetBalance u a, GetCode u]
           @ fst (base_try_mint E u (base_mintFunctions a quantity) None)
           @ [WaitConfirmation u h],
         snd (catch_all base_catch (evm_confirm E u h)))"
    using base_run_workable [of R E d u a b code f' limit h, folded key_def contract_def quantity_def]
    by blast
  from reach base_candidate_sent [of E u f' limit h]
  show "limit = 500000" and "\<not> isl (estimateGas E u f')"
    and "sendTransaction E u f' 0 500000 (gwei 20) = Inr h"
    by blast+
  with reach base_first_workable [of E u "base_mintFunctions a quantity" None f' limit h]
  show "last (fst (base_try_mint E u (base_mintFunctions a quantity) None))
          = SendTransaction u f' 500000 (gwei 20)"
    by blast
next
  assume reach: "evm_validate R E key contract quantity = None
        \<and> find (\<lambda>u. \<not> isl (getNetwork E u)) base_rpcUrls = Some u
        \<and> new_Wallet E key = Inr a \<and> getBalance E u a = Inr b \<and> \<not> b < base_min_wei
        \<and> new_Contract E contract = Inr () \<and> getCode E u contract = Inr code \<and> code \<noteq> ''0x''
        \<and> find (\<lambda>f. base_candidate E u f \<noteq> None) (base_mintFunctions a quantity) = None"
  then show run: "mintBASE R E d =
        (map Probe (takeWhile (\<lambda>u. isl (getNetwork E u)) base_rpcUrls)
           @ [Probe u, ParseKey, GetBalance u a, GetCode u]
           @ fst (base_try_mint E u (base_mintFunctions a quantity) None),
         base_no_tx (snd (snd (base_try_mint E u (base_mintFunctions a quantity) None))))"
    using base_run_unworkable [of R E d u a b code, folded key_def contract_def quantity_def]
    by blast
  show "WaitConfirmation v h \<notin> set (fst (mintBASE R E d))"
    by (auto simp: run no_wait_in_probes dest: base_loop_events)
qed

lemma mock_base_run:
  "mintBASE mock_runtime mock_evm (mock_request (Num 1)) =
   ([Probe ''https://base.drpc.org/'', ParseKey,
     GetBalance ''https://base.drpc.org/'' mock_address,
     GetCode ''https://base.drpc.org/'',
     EstimateGas ''https://base.drpc.org/'' (MintCall ''mint'' [Num 1]),
     SendTransaction ''https://base.drpc.org/'' (MintCall ''mint'' [Num 1]) 500000 20000000000,
     WaitConfirmation ''https://base.drpc.org/'' ''0xabc''],
    evm_success mock_receipt)"
  by (simp add: evm_run mock_evm_run)

lemma mock_bsc_resubmits:
  "mintBSC mock_runtime
     (mock_evm\<lparr>sendTransaction :=
        \<lambda>u f n gasLimit gasPrice. if n = 0 then Inl unreachable else Inr ''0xabc''\<rparr>)
     (mock_request (Num 1)) =
   ([Probe ''https://bsc-dataseed.binance.org/'', ParseKey,
     GetBalance ''https://bsc-dataseed.binance.org/'' mock_address,
     GetCode ''https://bsc-dataseed.binance.org/'',
     GetFeeData ''https://bsc-dataseed.binance.org/'',
     EstimateGas ''https://bsc-dataseed.binance.org/'' (MintCall ''mint'' [Num 1]),
     SendTransaction ''https://bsc-dataseed.binance.org/'' (MintCall ''mint'' [Num 1]) 140000 3000000000,
     SendTransaction ''https://bsc-dataseed.binance.org/'' (MintCall ''mint'' [Num 1]) 300000 3000000000,
     WaitConfirmation ''https://bsc-dataseed.binance.org/'' ''0xabc''],
    evm_success mock_receipt)"
  by (simp add: evm_run mock_evm_run)

theorem evm_gas_budget_witness:
  "SendTransaction ''https://bsc-dataseed.binance.org/'' (MintCall ''mint'' [Num 1]) 300000 3000000000
     \<in> set (fst (mintBSC mock_runtime
          (mock_evm\<lparr>sendTransaction :=
             \<lambda>u f n gasLimit gasPrice. if n = 0 then Inl unreachable else Inr ''0xabc''\<rparr>)
          (mock_request (Num 1))))
   \<and> bsc_gasPrice
         (mock_evm\<lparr>sendTransaction :=
            \<lambda>u f n gasLimit gasPrice. if n = 0 then Inl unreachable else Inr ''0xabc''\<rparr>)
         ''https://bsc-dataseed.binance.org/'' = 3000000000
   \<and> SendTransaction ''https://base.drpc.org/'' (MintCall ''mint'' [Num 1]) 500000 20000000000
     \<in> set (fst (mintBASE mock_runtime mock_evm (mock_request (Num 1))))
   \<and> gwei 20 = 20000000000
   \<and> estimateGas mock_evm ''https://base.drpc.org/'' (MintCall ''mint'' [Num 1]) = Inr 90000
   \<and> bsc_candidate
       (mock_evm\<lparr>sendTransaction :=
          \<lambda>u f n gasLimit gasPrice. if n = 0 then Inl unreachable else Inr ''0xabc''\<rparr>)
       ''https://bsc-dataseed.binance.org/'' 3000000000 (MintCall ''mint'' [Num 1])
     = Some (300000, ''0xabc'')
   \<and> last (fst (mintBSC mock_runtime
          (mock_evm\<lparr>sendTransaction :=
             \<lambda>u f n gasLimit gasPrice. if n = 0 then Inl unreachable else Inr ''0xabc''\<rparr>)
          (mock_request (Num 1))))
     = WaitConfirmation ''https://bsc-dataseed.binance.org/'' ''0xabc''
   \<and> base_candidate mock_evm ''https://base.drpc.org/'' (MintCall ''mint'' [Num 1])
     = Some (500000, ''0xabc'')
   \<and> last (fst (mintBASE mock_runtime mock_evm (mock_request (Num 1))))
     = WaitConfirmation ''https://base.drpc.org/'' ''0xabc''
   \<and> GetFeeData ''https://base.drpc.org/''
     \<notin> set (fst (mintBASE mock_runtime mock_evm (mock_request (Num 1))))"
proof -
  let ?E = "mock_evm\<lparr>sendTransaction :=
              \<lambda>u f n gasLimit gasPrice. if n = 0 then Inl unreachable else Inr ''0xabc''\<rparr>"
  let ?u = "''https://bsc-dataseed.binance.org/''" and ?v = "''https://base.drpc.org/''"
  let ?f = "MintCall ''mint'' [Num 1]"
  have bsc: "SendTransaction ?u ?f 300000 3000000000
               \<in> set (fst (mintBSC mock_runtime ?E (mock_request (Num 1))))"
    by (simp add: mock_bsc_resubmits)
  have base: "SendTransaction ?v ?f 500000 20000000000
               \<in> set (fst (mintBASE mock_runtime mock_evm (mock_request (Num 1))))"
    by (simp add: mock_base_run)
  from evm_gas_budget [of ?u ?f 300000 3000000000 mock_runtime ?E "mock_request (Num 1)"] bsc
  have price: "3000000000 = bsc_gasPrice ?E ?u" by blast
  from evm_gas_budget [of ?v ?f 500000 20000000000 mock_runtime mock_evm "mock_request (Num 1)"] base
  have fixed: "20000000000 = gwei 20" by blast
  have est: "estimateGas mock_evm ?v ?f = Inr 90000" by (simp add: mock_evm_def)
  let ?d = "mock_request (Num 1)"
  let ?k = "get_prop ?d ''privateKey''" and ?c = "get_prop ?d ''contractAddress''"
    and ?q = "get_prop ?d ''mintQuantity''"
  have bsc_cand: "bsc_candidate ?E ?u (bsc_gasPrice ?E ?u) ?f = Some (300000, ''0xabc'')"
    by (simp add: bsc_candidate_def bsc_gasPrice_def mock_evm_def gwei_def)
  have bsc_reach: "evm_validate mock_runtime ?E ?k ?c ?q = None
      \<and> find (\<lambda>u. \<not> isl (getNetwork ?E u)) bsc_rpcUrls = Some ?u
      \<and> new_Wallet ?E ?k = Inr mock_address
      \<and> getBalance ?E ?u mock_address = Inr (2 * 10 ^ 18) \<and> \<not> 2 * 10 ^ 18 < bsc_min_wei
      \<and> new_Contract ?E ?c = Inr () \<and> getCode ?E ?u ?c = Inr ''0x6080'' \<and> ''0x6080'' \<noteq> ''0x''
      \<and> find (\<lambda>f. bsc_candidate ?E ?u (bsc_gasPrice ?E ?u) f \<noteq> None) (bsc_mintFunctions mock_address ?q)
          = Some ?f
      \<and> bsc_candidate ?E ?u (bsc_gasPrice ?E ?u) ?f = Some (300000, ''0xabc'')"
    by (simp add: evm_run mock_evm_run bsc_candidate_def)
  have base_cand: "base_candidate mock_evm ?v ?f = Some (500000, ''0xabc'')"
    by (simp add: base_candidate_def mock_evm_def gwei_def)
  have base_reach: "evm_validate mock_runtime mock_evm ?k ?c ?q = None
      \<and> find (\<lambda>u. \<not> isl (getNetwork mock_evm u)) base_rpcUrls = Some ?v
      \<and> new_Wallet mock_evm ?k = Inr mock_address
      \<and> getBalance mock_evm ?v mock_address = Inr (2 * 10 ^ 18) \<and> \<not> 2 * 10 ^ 18 < base_min_wei
      \<and> new_Contract mock_evm ?c = Inr () \<and> getCode mock_evm ?v ?c = Inr ''0x6080''
      \<and> ''0x6080'' \<noteq> ''0x''
      \<and> find (\<lambda>f. base_candidate mock_evm ?v f \<noteq> None) (base_mintFunctions mock_address ?q)
          = Some ?f
      \<and> base_candidate mock_evm ?v ?f = Some (500000, ''0xabc'')"
    by (simp add: evm_run mock_evm_run base_candidate_def)
  note bsc_inst =
    evm_gas_budget [where R = mock_runtime and E = ?E and d = ?d and u = ?u and a = mock_address
      and b = "2 * 10 ^ 18" and code = "''0x6080''" and f' = ?f and limit = 300000
      and h = "''0xabc''"]
  note bsc_run =
    bsc_inst [THEN conjunct2, THEN conjunct2, THEN conjunct2, THEN conjunct2, THEN conjunct2,
      THEN conjunct2, THEN conjunct2, THEN conjunct2, THEN conjunct2, THEN conjunct1, THEN mp,
      OF bsc_reach, THEN conjunct1]
  have "fst (mintBSC mock_runtime ?E ?d) =
        map Probe (takeWhile (\<lambda>u. isl (getNetwork ?E u)) bsc_rpcUrls)
           @ [Probe ?u, ParseKey, GetBalance ?u mock_address, GetCode ?u, GetFeeData ?u]
           @ fst (bsc_try_mint ?E ?u (bsc_gasPrice ?E ?u) (bsc_mintFunctions mock_address ?q) None)
           @ [WaitConfirmation ?u ''0xabc'']"
    by (simp only: bsc_run fst_conv)
  then have bsc_last: "last (fst (mintBSC mock_runtime ?E ?d)) = WaitConfirmation ?u ''0xabc''"
    by (simp only: append_assoc [symmetric] last_snoc)
  note base_inst =
    evm_gas_budget [where R = mock_runtime and E = mock_evm and d = ?d and u = ?v
      and a = mock_address and b = "2 * 10 ^ 18" and code = "''0x6080''" and f' = ?f
      and limit = 500000 and h = "''0xabc''" and v = ?v]
  note fee =
    base_inst [THEN conjunct2, THEN conjunct2, THEN conjunct2, THEN conjunct2, THEN conjunct2,
      THEN conjunct2, THEN conjunct2, THEN conjunct2, THEN conjunct1]
  note base_run =
    base_inst [THEN conjunct2, THEN conjunct2, THEN conjunct2, THEN conjunct2, THEN conjunct2,
      THEN conjunct2, THEN conjunct2, THEN conjunct2, THEN conjunct2, THEN conjunct2,
      THEN conjunct2, THEN conjunct1, THEN mp, OF base_reach, THEN conjunct1]
  have "fst (mintBASE mock_runtime mock_evm ?d) =
        map Probe (takeWhile (\<lambda>u. isl (getNetwork mock_evm u)) base_rpcUrls)
           @ [Probe ?v, ParseKey, GetBalance ?v mock_address, GetCode ?v]
           @ fst (base_try_mint mock_evm ?v (base_mintFunctions mock_address ?q) None)
           @ [WaitConfirmation ?v ''0xabc'']"
    by (simp only: base_run fst_conv)
  then have base_last: "last (fst (mintBASE mock_runtime mock_evm ?d)) = WaitConfirmation ?v ''0xabc''"
    by (simp only: append_assoc [symmetric] last_snoc)
  from bsc base price fixed est
  have submissions:
    "SendTransaction ?u ?f 300000 3000000000
       \<in> set (fst (mintBSC mock_runtime ?E (mock_request (Num 1))))
     \<and> bsc_gasPrice ?E ?u = 3000000000
     \<and> SendTransaction ?v ?f 500000 20000000000
       \<in> set (fst (mintBASE mock_runtime mock_evm (mock_request (Num 1))))
     \<and> gwei 20 = 20000000000
     \<and> estimateGas mock_evm ?v ?f = Inr 90000"
    by simp
  from submissions bsc_cand [unfolded price [symmetric]] bsc_last base_cand base_last fee
  show ?thesis by simp
qed

text \<open>
  The claim as stated fails for BASE. With an estimate of 90000 and with an estimate of
  200000 the candidate is submitted with the same limit 500000, so the limit is not the
  estimate plus a fixed margin; the gas price is 20 gwei although fee data is available
  (3 gwei in this mock); and when every estimate fails nothing is submitted at all, with
  no fallback budget.
\<close>

theorem base_gas_budget_is_fixed:
  "mintBASE mock_runtime mock_evm (mock_request (Num 1)) =
     ([Probe ''https://base.drpc.org/'', ParseKey,
       GetBalance ''https://base.drpc.org/'' mock_address,
       GetCode ''https://base.drpc.org/'',
       EstimateGas ''https://base.drpc.org/'' (MintCall ''mint'' [Num 1]),
       SendTransaction ''https://base.drpc.org/'' (MintCall ''mint'' [Num 1]) 500000 20000000000,
       WaitConfirmation ''https://base.drpc.org/'' ''0xabc''],
      evm_success mock_receipt)
   \<and> estimateGas mock_evm ''https://base.drpc.org/'' (MintCall ''mint'' [Num 1]) = Inr 90000
   \<and> fst (mintBASE mock_runtime (mock_evm\<lparr>estimateGas := \<lambda>u f. Inr 200000\<rparr>) (mock_request (Num 1))) =
       [Probe ''https://base.drpc.org/'', ParseKey,
        GetBalance ''https://base.drpc.org/'' mock_address,
        GetCode ''https://base.drpc.org/'',
        EstimateGas ''https://base.drpc.org/'' (MintCall ''mint'' [Num 1]),
        SendTransaction ''https://base.drpc.org/'' (MintCall ''mint'' [Num 1]) 500000 20000000000,
        WaitConfirmation ''https://base.drpc.org/'' ''0xabc'']
   \<and> mintBASE mock_runtime (mock_evm\<lparr>estimateGas := \<lambda>u f. Inl unreachable\<rparr>) (mock_request (Num 1)) =
       ([Probe ''https://base.drpc.org/'', ParseKey,
         GetBalance ''https://base.drpc.org/'' mock_address,
         GetCode ''https://base.drpc.org/'',
         EstimateGas ''https://base.drpc.org/'' (MintCall ''mint'' [Num 1]),
         EstimateGas ''https://base.drpc.org/'' (MintCall ''publicMint'' [Num 1]),
         EstimateGas ''https://base.drpc.org/'' (MintCall ''mint'' [Str mock_address, Num 1]),
         EstimateGas ''https://base.drpc.org/'' (MintCall ''mintTo'' [Str mock_address, Num 1])],
        [(''success'', Bool False),
         (''msg'', Str ''No compatible mint function found or all mint attempts failed''),
         (''code'', Str ''MINT_FUNCTION_FAILED'')])"
  by (simp add: evm_run mock_evm_run base_no_tx_def last_message_def)

section \<open>The balance precheck\<close>

lemma no_submission_in_probes [simp]: "\<not> list_ex submits (map Probe urls)"
  by (induction urls) simp_all

lemma base_low_balance:
  assumes "new_Wallet E k = Inr a" and "getBalance E u a = Inr b" and "b < base_min_wei"
  shows "base_connected E u k c q =
           ([ParseKey, GetBalance u a],
            Return (failure
              (''Insufficient balance. Current: '' @ balance_toFixed4 E b @
               '' ETH. Minimum required: 0.001 ETH'')
              ''INSUFFICIENT_BALANCE''))"
  using assms by (simp add: base_connected_def evm_wallet_def base_balance_def and_then_def)

lemma bsc_low_balance:
  assumes "new_Wallet E k = Inr a" and "getBalance E u a = Inr b" and "b < bsc_min_wei"
  shows "bsc_connected E u k c q =
           ([ParseKey, GetBalance u a],
            Return (failure
              (''Insufficient BNB balance. Current: '' @ balance_toFixed4 E b @
               '' BNB. Minimum required: 0.005 BNB'')
              ''INSUFFICIENT_BALANCE''))"
  using assms by (simp add: bsc_connected_def evm_wallet_def bsc_balance_def and_then_def)

lemma sol_low_balance:
  assumes "sol_keypair R S k = ([ParseKey], Next pk)" and "new_PublicKey S c = Inr m"
    and "sol_getBalance S u pk = Inr b" and "b < sol_min_lamports"
  shows "sol_connected R S u k c q =
           ([ParseKey, GetBalance u pk],
            Return (failure
              (''Insufficient SOL balance. Current: '' @ sol_toFixed4 S b @
               '' SOL. Minimum required: 0.01 SOL'')
              ''INSUFFICIENT_BALANCE''))"
  using assms by (simp add: sol_connected_def sol_mint_address_def sol_balance_def and_then_def)

text \<open>
  C8. For BASE, BSC and SOL: when the run reaches the balance check and the balance is
  below the chain's minimum (\<open>10^15\<close> wei = 0.001 ETH, \<open>5 * 10^15\<close> wei = 0.005 BNB,
  \<open>10^7\<close> lamports = 0.01 SOL), the executor returns INSUFFICIENT_BALANCE with a message
  that holds the formatted current balance and the minimum; the trace ends with the
  balance query, and no submission is in it.
\<close>

theorem insufficient_balance_stops:
  fixes d :: jsobj
  defines "k \<equiv> get_prop d ''privateKey''"
    and "c \<equiv> get_prop d ''contractAddress''"
    and "q \<equiv> get_prop d ''mintQuantity''"
  shows
    "(evm_validate R E k c q = None
        \<and> find (\<lambda>u. \<not> isl (getNetwork E u)) base_rpcUrls = Some u
        \<and> new_Wallet E k = Inr a \<and> getBalance E u a = Inr b \<and> b < base_min_wei \<longrightarrow>
      mintBASE R E d =
        (map Probe (takeWhile (\<lambda>u. isl (getNetwork E u)) base_rpcUrls)
           @ [Probe u, ParseKey, GetBalance u a],
         failure
           (''Insufficient balance. Current: '' @ balance_toFixed4 E b @
            '' ETH. Minimum required: 0.001 ETH'')
           ''INSUFFICIENT_BALANCE'')
      \<and> \<not> list_ex submits (fst (mintBASE R E d)))
     \<and> (evm_validate R E k c q = None
        \<and> find (\<lambda>u. \<not> isl (getNetwork E u)) bsc_rpcUrls = Some u
        \<and> new_Wallet E k = Inr a \<and> getBalance E u a = Inr b \<and> b < bsc_min_wei \<longrightarrow>
      mintBSC R E d =
        (map Probe (takeWhile (\<lambda>u. isl (getNetwork E u)) bsc_rpcUrls)
           @ [Probe u, ParseKey, GetBalance u a],
         failure
           (''Insufficient BNB balance. Current: '' @ balance_toFixed4 E b @
            '' BNB. Minimum required: 0.005 BNB'')
           ''INSUFFICIENT_BALANCE'')
      \<and> \<not> list_ex submits (fst (mintBSC R E d)))
     \<and> (sol_validate R k c q = None
        \<and> find (\<lambda>u. \<not> isl (getVersion S u)) sol_rpcUrls = Some u
        \<and> sol_keypair R S k = ([ParseKey], Next pk) \<and> new_PublicKey S c = Inr m
        \<and> sol_getBalance S u pk = Inr b \<and> b < sol_min_lamports \<longrightarrow>
      mintSOL R S d =
        (map Probe (takeWhile (\<lambda>u. isl (getVersion S u)) sol_rpcUrls)
           @ [Probe u, ParseKey, GetBalance u pk],
         failure
           (''Insufficient SOL balance. Current: '' @ sol_toFixed4 S b @
            '' SOL. Minimum required: 0.01 SOL'')
           ''INSUFFICIENT_BALANCE'')
      \<and> \<not> list_ex submits (fst (mintSOL R S d)))"
proof (intro conjI impI)
  assume h: "evm_validate R E k c q = None
        \<and> find (\<lambda>u. \<not> isl (getNetwork E u)) base_rpcUrls = Some u
        \<and> new_Wallet E k = Inr a \<and> getBalance E u a = Inr b \<and> b < base_min_wei"
  then have run: "mintBASE R E d =
        (map Probe (takeWhile (\<lambda>u. isl (getNetwork E u)) base_rpcUrls)
           @ [Probe u, ParseKey, GetBalance u a],
         failure
           (''Insufficient balance. Current: '' @ balance_toFixed4 E b @
            '' ETH. Minimum required: 0.001 ETH'')
           ''INSUFFICIENT_BALANCE'')"
    using base_connects [of R E k c q u] base_low_balance [of E k a u b c q]
    by (simp add: mintBASE_def k_def c_def q_def catch_all_def step_after_def)
  then show "mintBASE R E d =
        (map Probe (takeWhile (\<lambda>u. isl (getNetwork E u)) base_rpcUrls)
           @ [Probe u, ParseKey, GetBalance u a],
         failure
           (''Insufficient balance. Current: '' @ balance_toFixed4 E b @
            '' ETH. Minimum required: 0.001 ETH'')
           ''INSUFFICIENT_BALANCE'')" .
  from run show "\<not> list_ex submits (fst (mintBASE R E d))" by simp
next
  assume h: "evm_validate R E k c q = None
        \<and> find (\<lambda>u. \<not> isl (getNetwork E u)) bsc_rpcUrls = Some u
        \<and> new_Wallet E k = Inr a \<and> getBalance E u a = Inr b \<and> b < bsc_min_wei"
  then have run: "mintBSC R E d =
        (map Probe (takeWhile (\<lambda>u. isl (getNetwork E u)) bsc_rpcUrls)
           @ [Probe u, ParseKey, GetBalance u a],
         failure
           (''Insufficient BNB balance. Current: '' @ balance_toFixed4 E b @
            '' BNB. Minimum required: 0.005 BNB'')
           ''INSUFFICIENT_BALANCE'')"
    using bsc_connects [of R E k c q u] bsc_low_balance [of E k a u b c q]
    by (simp add: mintBSC_def k_def c_def q_def catch_all_def step_after_def)
  then show "mintBSC R E d =
        (map Probe (takeWhile (\<lambda>u. isl (getNetwork E u)) bsc_rpcUrls)
           @ [Probe u, ParseKey, GetBalance u a],
         failure
           (''Insufficient BNB balance. Current: '' @ balance_toFixed4 E b @
            '' BNB. Minimum required: 0.005 BNB'')
           ''INSUFFICIENT_BALANCE'')" .
  from run show "\<not> list_ex submits (fst (mintBSC R E d))" by simp
next
  assume h: "sol_validate R k c q = None
        \<and> find (\<lambda>u. \<not> isl (getVersion S u)) sol_rpcUrls = Some u
        \<and> sol_keypair R S k = ([ParseKey], Next pk) \<and> new_PublicKey S c = Inr m
        \<and> sol_getBalance S u pk = Inr b \<and> b < sol_min_lamports"
  then have run: "mintSOL R S d =
        (map Probe (takeWhile (\<lambda>u. isl (getVersion S u)) sol_rpcUrls)
           @ [Probe u, ParseKey, GetBalance u pk],
         failure
           (''Insufficient SOL balance. Current: '' @ sol_toFixed4 S b @
            '' SOL. Minimum required: 0.01 SOL'')
           ''INSUFFICIENT_BALANCE'')"
    using sol_connects [of R k c q S u] sol_low_balance [of R S k pk c m u b q]
    by (simp add: mintSOL_def k_def c_def q_def catch_all_def step_after_def)
  then show "mintSOL R S d =
        (map Probe (takeWhile (\<lambda>u. isl (getVersion S u)) sol_rpcUrls)
           @ [Probe u, ParseKey, GetBalance u pk],
         failure
           (''Insufficient SOL balance. Current: '' @ sol_toFixed4 S b @
            '' SOL. Minimum required: 0.01 SOL'')
           ''INSUFFICIENT_BALANCE'')" .
  from run show "\<not> list_ex submits (fst (mintSOL R S d))" by simp
qed

text \<open>The decimal printer on numerals.\<close>

lemma decimal_small: "n < 10 \<Longrightarrow> decimal n = [digit_char n]"
  by (subst decimal.simps) simp

lemma decimal_large: "\<not> n < 10 \<Longrightarrow> decimal n = decimal (n div 10) @ [digit_char (n mod 10)]"
  by (subst decimal.simps) simp

theorem insufficient_balance_stops_witness:
  "evm_validate mock_runtime (mock_evm\<lparr>getBalance := \<lambda>u a. Inr (5 * 10 ^ 14)\<rparr>)
      (Str mock_key) (Str mock_contract) (Num 1) = None
   \<and> find (\<lambda>u. \<not> isl (getNetwork (mock_evm\<lparr>getBalance := \<lambda>u a. Inr (5 * 10 ^ 14)\<rparr>) u)) base_rpcUrls
       = Some ''https://base.drpc.org/''
   \<and> new_Wallet (mock_evm\<lparr>getBalance := \<lambda>u a. Inr (5 * 10 ^ 14)\<rparr>) (Str mock_key) = Inr mock_address
   \<and> (5 * 10 ^ 14 :: nat) < base_min_wei
   \<and> mintBASE mock_runtime (mock_evm\<lparr>getBalance := \<lambda>u a. Inr (5 * 10 ^ 14)\<rparr>) (mock_request (Num 1)) =
       ([Probe ''https://base.drpc.org/'', ParseKey, GetBalance ''https://base.drpc.org/'' mock_address],
        [(''success'', Bool False),
         (''msg'', Str ''Insufficient balance. Current: 0.0005 ETH. Minimum required: 0.001 ETH''),
         (''code'', Str ''INSUFFICIENT_BALANCE'')])"
proof -
  let ?E = "mock_evm\<lparr>getBalance := \<lambda>u a. Inr (5 * 10 ^ 14)\<rparr>"
  have v: "evm_validate mock_runtime ?E (Str mock_key) (Str mock_contract) (Num 1) = None"
    by (simp add: evm_validate_def js_lt_def mock_evm_def mock_key_def mock_contract_def)
  have u: "find (\<lambda>u. \<not> isl (getNetwork ?E u)) base_rpcUrls = Some ''https://base.drpc.org/''"
    by (simp add: base_rpcUrls_def mock_evm_def)
  have w: "new_Wallet ?E (Str mock_key) = Inr mock_address"
    by (simp add: mock_evm_def)
  have b: "getBalance ?E ''https://base.drpc.org/'' mock_address = Inr (5 * 10 ^ 14)"
    by simp
  have low: "(5 * 10 ^ 14 :: nat) < base_min_wei"
    by (simp add: base_min_wei_def)
  have fmt: "balance_toFixed4 ?E (5 * 10 ^ 14) = ''0.0005''"
    by (simp add: mock_evm_def decimal_small decimal_large digit_char_def)
  have probes: "takeWhile (\<lambda>u. isl (getNetwork ?E u)) base_rpcUrls = []"
    by (simp add: base_rpcUrls_def mock_evm_def)
  have d: "get_prop (mock_request (Num 1)) ''privateKey'' = Str mock_key"
    "get_prop (mock_request (Num 1)) ''contractAddress'' = Str mock_contract"
    "get_prop (mock_request (Num 1)) ''mintQuantity'' = Num 1"
    by (simp_all add: get_prop_def mock_request_def)
  have "evm_validate mock_runtime ?E (get_prop (mock_request (Num 1)) ''privateKey'')
          (get_prop (mock_request (Num 1)) ''contractAddress'')
          (get_prop (mock_request (Num 1)) ''mintQuantity'') = None
        \<and> find (\<lambda>u. \<not> isl (getNetwork ?E u)) base_rpcUrls = Some ''https://base.drpc.org/''
        \<and> new_Wallet ?E (get_prop (mock_request (Num 1)) ''privateKey'') = Inr mock_address
        \<and> getBalance ?E ''https://base.drpc.org/'' mock_address = Inr (5 * 10 ^ 14)
        \<and> (5 * 10 ^ 14 :: nat) < base_min_wei"
    using v u w b low by (simp only: d simp_thms)
  with insufficient_balance_stops [of mock_runtime ?E "mock_request (Num 1)"
      "''https://base.drpc.org/''" mock_address "5 * 10 ^ 14"]
  have "mintBASE mock_runtime ?E (mock_request (Num 1)) =
        (map Probe (takeWhile (\<lambda>u. isl (getNetwork ?E u)) base_rpcUrls)
           @ [Probe ''https://base.drpc.org/'', ParseKey, GetBalance ''https://base.drpc.org/'' mock_address],
         failure
           (''Insufficient balance. Current: '' @ balance_toFixed4 ?E (5 * 10 ^ 14) @
            '' ETH. Minimum required: 0.001 ETH'')
           ''INSUFFICIENT_BALANCE'')"
    by blast
  then have "mintBASE mock_runtime ?E (mock_request (Num 1)) =
       ([Probe ''https://base.drpc.org/'', ParseKey, GetBalance ''https://base.drpc.org/'' mock_address],
        [(''success'', Bool False),
         (''msg'', Str ''Insufficient balance. Current: 0.0005 ETH. Minimum required: 0.001 ETH''),
         (''code'', Str ''INSUFFICIENT_BALANCE'')])"
    by (simp only: fmt probes failure_def list.map append.simps)
  with v u w low show ?thesis by (simp only: simp_thms)
qed

section \<open>The SOL private key parser\<close>

lemma and_then_Return: "and_then (t, Return r) f = (t, Return r)"
  by (simp add: and_then_def)

lemma sol_parser_failure_ends_run:
  assumes "sol_validate R k c q = None"
    and "find (\<lambda>u. \<not> isl (getVersion S u)) sol_rpcUrls = Some u"
    and "sol_keypair R S k = ([ParseKey], Return r)"
  shows "catch_all sol_catch (sol_body R S k c q) =
           (map Probe (takeWhile (\<lambda>u. isl (getVersion S u)) sol_rpcUrls) @ [Probe u, ParseKey], r)"
  using sol_connects [OF assms(1,2)] assms(3)
  by (simp add: sol_connected_def and_then_Return step_after_def catch_all_def)

text \<open>
  C9, as amended. The SOL key parser chooses its decoder by the shape of the string alone:
  JSON when the string starts with \<open>[\<close> and ends with \<open>]\<close>, hex when its length is 128,
  base58 when its length is 88. A string of no such shape gets
  INVALID_PRIVATE_KEY_FORMAT; a decoded key that is not 64 bytes long gets
  INVALID_PRIVATE_KEY_LENGTH; and a third code, INVALID_PRIVATE_KEY, is returned when the
  chosen decoder or \<open>Keypair.fromSecretKey\<close> throws, or when the key is not a string. A
  64-byte key that \<open>fromSecretKey\<close> accepts is the only way past the parser. Every
  parser failure is local: the trace ends with the parsing step, after the probes.
\<close>

theorem sol_key_parser:
  fixes s :: string
  defines "shaped \<equiv> bracketed s \<or> length s = 128 \<or> length s = 88"
    and "decoded \<equiv> \<lambda>S. if bracketed s then json_bytes S s
                        else if length s = 128 then hex_bytes S s else bs58_decode S s"
  shows
    "(\<not> shaped \<longrightarrow>
        sol_keypair R S (Str s) =
          ([ParseKey],
           Return (failure ''Invalid private key format. Use base58, hex, or array format.''
             ''INVALID_PRIVATE_KEY_FORMAT'')))
     \<and> (shaped \<and> decoded S = Inr bytes \<and> length bytes \<noteq> 64 \<longrightarrow>
        sol_keypair R S (Str s) =
          ([ParseKey],
           Return (failure ''Private key must be 64 bytes long'' ''INVALID_PRIVATE_KEY_LENGTH'')))
     \<and> (shaped \<and> (isl (decoded S)
                    \<or> (decoded S = Inr bytes \<and> length bytes = 64 \<and> isl (fromSecretKey S bytes))) \<longrightarrow>
        sol_keypair R S (Str s) =
          ([ParseKey],
           Return (failure ''Invalid private key format or corrupted key'' ''INVALID_PRIVATE_KEY'')))
     \<and> (shaped \<and> decoded S = Inr bytes \<and> length bytes = 64 \<and> fromSecretKey S bytes = Inr publicKey \<longrightarrow>
        sol_keypair R S (Str s) = ([ParseKey], Next publicKey))
     \<and> ((\<forall>t. k \<noteq> Str t) \<longrightarrow>
        sol_keypair R S k =
          ([ParseKey],
           Return (failure ''Invalid private key format or corrupted key'' ''INVALID_PRIVATE_KEY'')))
     \<and> (sol_validate R (get_prop d ''privateKey'') (get_prop d ''contractAddress'')
            (get_prop d ''mintQuantity'') = None
         \<and> find (\<lambda>u. \<not> isl (getVersion S u)) sol_rpcUrls = Some u
         \<and> sol_keypair R S (get_prop d ''privateKey'') = ([ParseKey], Return r) \<longrightarrow>
        mintSOL R S d =
          (map Probe (takeWhile (\<lambda>u. isl (getVersion S u)) sol_rpcUrls) @ [Probe u, ParseKey], r))"
proof (intro conjI impI)
  assume "\<not> shaped"
  then show "sol_keypair R S (Str s) =
          ([ParseKey],
           Return (failure ''Invalid private key format. Use base58, hex, or array format.''
             ''INVALID_PRIVATE_KEY_FORMAT''))"
    by (simp add: shaped_def sol_keypair_def decode_secret_def)
next
  assume "shaped \<and> decoded S = Inr bytes \<and> length bytes \<noteq> 64"
  then show "sol_keypair R S (Str s) =
          ([ParseKey],
           Return (failure ''Private key must be 64 bytes long'' ''INVALID_PRIVATE_KEY_LENGTH''))"
    by (auto simp: shaped_def decoded_def sol_keypair_def decode_secret_def split: if_splits)
next
  assume "shaped \<and> (isl (decoded S)
                    \<or> (decoded S = Inr bytes \<and> length bytes = 64 \<and> isl (fromSecretKey S bytes)))"
  then show "sol_keypair R S (Str s) =
          ([ParseKey],
           Return (failure ''Invalid private key format or corrupted key'' ''INVALID_PRIVATE_KEY''))"
    by (auto simp: shaped_def decoded_def sol_keypair_def decode_secret_def isl_def
        split: if_splits)
next
  assume "shaped \<and> decoded S = Inr bytes \<and> length bytes = 64 \<and> fromSecretKey S bytes = Inr publicKey"
  then show "sol_keypair R S (Str s) = ([ParseKey], Next publicKey)"
    by (auto simp: shaped_def decoded_def sol_keypair_def decode_secret_def split: if_splits)
next
  assume "\<forall>t. k \<noteq> Str t"
  then show "sol_keypair R S k =
          ([ParseKey],
           Return (failure ''Invalid private key format or corrupted key'' ''INVALID_PRIVATE_KEY''))"
    by (cases k) (simp_all add: sol_keypair_def decode_secret_def)
next
  assume "sol_validate R (get_prop d ''privateKey'') (get_prop d ''contractAddress'')
            (get_prop d ''mintQuantity'') = None
         \<and> find (\<lambda>u. \<not> isl (getVersion S u)) sol_rpcUrls = Some u
         \<and> sol_keypair R S (get_prop d ''privateKey'') = ([ParseKey], Return r)"
  then show "mintSOL R S d =
          (map Probe (takeWhile (\<lambda>u. isl (getVersion S u)) sol_rpcUrls) @ [Probe u, ParseKey], r)"
    using sol_parser_failure_ends_run [of R "get_prop d ''privateKey''" "get_prop d ''contractAddress''"
        "get_prop d ''mintQuantity''" S u r]
    by (simp add: mintSOL_def)
qed

text \<open>The definitions a concrete run of the SOL executor unfolds.\<close>

lemmas sol_run =
  mintSOL_def sol_body_def sol_connected_def sol_validate_def sol_keypair_def decode_secret_def
  bracketed_def sol_mint_address_def sol_balance_def sol_mint_account_def sol_transaction_def
  sol_try_transaction_def try_step_def sol_transaction_error_def sol_rpcUrls_def
  sol_min_lamports_def and_then_def catch_all_def race_with_timeout_def get_prop_def js_lt_def
  failure_def suffix_to_prefix

lemmas mock_sol_run =
  mock_sol_def mock_sol_request_def mock_sol_key_def mock_mint_def mock_runtime_def

text \<open>
  The claim as stated fails: the key \<open>[x]\<close> is none of the three encodings, yet the
  code returned is neither INVALID_PRIVATE_KEY_FORMAT nor INVALID_PRIVATE_KEY_LENGTH.
  \<open>JSON.parse\<close> throws on it, and the \<open>catch\<close> of the parsing block answers
  INVALID_PRIVATE_KEY.
\<close>

theorem malformed_array_key_gets_third_code:
  "mintSOL mock_runtime mock_sol (mock_sol_request (Str ''[x]'')) =
     ([Probe ''https://api.mainnet-beta.solana.com'', ParseKey],
      [(''success'', Bool False),
       (''msg'', Str ''Invalid private key format or corrupted key''),
       (''code'', Str ''INVALID_PRIVATE_KEY'')])
   \<and> json_bytes mock_sol ''[x]'' = Inl (JSError ''SyntaxError'' ''Unexpected token in JSON'' None)
   \<and> get_prop (snd (mintSOL mock_runtime mock_sol (mock_sol_request (Str ''[x]'')))) ''code''
       \<noteq> Str ''INVALID_PRIVATE_KEY_FORMAT''
   \<and> get_prop (snd (mintSOL mock_runtime mock_sol (mock_sol_request (Str ''[x]'')))) ''code''
       \<noteq> Str ''INVALID_PRIVATE_KEY_LENGTH''"
  by (simp add: sol_run mock_sol_run)

theorem sol_key_parser_witness:
  "(bracketed mock_sol_key \<or> length mock_sol_key = 128 \<or> length mock_sol_key = 88)
   \<and> hex_bytes mock_sol mock_sol_key = Inr (replicate (length mock_sol_key div 2) 170)
   \<and> length (replicate (length mock_sol_key div 2) (170 :: 8 word)) = 64
   \<and> sol_keypair mock_runtime mock_sol (Str mock_sol_key) =
       ([ParseKey], Next ''Payer1111111111111111111111111111111111111'')
   \<and> \<not> (bracketed ''secret'' \<or> length ''secret'' = 128 \<or> length ''secret'' = 88)
   \<and> sol_keypair mock_runtime mock_sol (Str ''secret'') =
       ([ParseKey],
        Return (failure ''Invalid private key format. Use base58, hex, or array format.''
          ''INVALID_PRIVATE_KEY_FORMAT''))"
proof -
  let ?bytes = "replicate (length mock_sol_key div 2) (170 :: 8 word)"
  have shape: "bracketed mock_sol_key \<or> length mock_sol_key = 128 \<or> length mock_sol_key = 88"
    by (simp add: mock_sol_key_def)
  have plain: "\<not> bracketed mock_sol_key" and long: "length mock_sol_key = 128"
    by (simp_all add: mock_sol_key_def bracketed_def)
  have hex: "hex_bytes mock_sol mock_sol_key = Inr ?bytes"
    by (simp add: mock_sol_def)
  from plain long hex
  have dec: "(if bracketed mock_sol_key then json_bytes mock_sol mock_sol_key
              else if length mock_sol_key = 128 then hex_bytes mock_sol mock_sol_key
              else bs58_decode mock_sol mock_sol_key) = Inr ?bytes"
    by simp
  have len: "length ?bytes = 64"
    by (simp add: long)
  have pk: "fromSecretKey mock_sol ?bytes = Inr ''Payer1111111111111111111111111111111111111''"
    by (simp add: mock_sol_def)
  have other: "\<not> (bracketed ''secret'' \<or> length ''secret'' = 128 \<or> length ''secret'' = 88)"
    by (simp add: bracketed_def)
  from sol_key_parser [where s = mock_sol_key and S = mock_sol and R = mock_runtime
      and bytes = ?bytes and publicKey = "''Payer1111111111111111111111111111111111111''"]
    shape dec len pk
  have accepted: "sol_keypair mock_runtime mock_sol (Str mock_sol_key) =
       ([ParseKey], Next ''Payer1111111111111111111111111111111111111'')"
    by blast
  from sol_key_parser [where s = "''secret''" and S = mock_sol and R = mock_runtime] other
  have rejected: "sol_keypair mock_runtime mock_sol (Str ''secret'') =
       ([ParseKey],
        Return (failure ''Invalid private key format. Use base58, hex, or array format.''
          ''INVALID_PRIVATE_KEY_FORMAT''))"
    by blast
  from shape hex len accepted other rejected show ?thesis by blast
qed

section \<open>The confirmation timeout\<close>

lemma timeout_is_classified:
  "sol_transaction_error (JSError ''Error'' ''Transaction confirmation timeout'' None) =
     failure ''Transaction timed out. It may still be processing.'' ''TRANSACTION_TIMEOUT''"
  by (simp add: sol_transaction_error_def)

lemma sol_timeout_path:
  assumes "sol_keypair R S k = ([ParseKey], Next pk)" and "new_PublicKey S c = Inr m"
    and "sol_getBalance S u pk = Inr b" and "\<not> b < sol_min_lamports"
    and "getAccountInfo S u m = Inr (Some (TOKEN_PROGRAM_ID S))"
    and "getAssociatedTokenAddress S m pk = Inr ata" and "getAccountInfo S u ata = Inr info"
    and "build_instructions S (info = None) q = Inr ()" and "getLatestBlockhash S u = Inr bh"
    and "sign_and_serialize S bh = Inr ()" and "sendRawTransaction S u = Inr sig"
    and "confirmTransaction S u sig = Pending"
  shows "sol_connected R S u k c q =
           ([ParseKey, GetBalance u pk, GetAccountInfo u m, GetAccountInfo u ata,
             GetLatestBlockhash u, SendRawTransaction u, ConfirmTransaction u sig],
            Return (failure ''Transaction timed out. It may still be processing.''
              ''TRANSACTION_TIMEOUT''))"
  using assms
  by (simp add: sol_connected_def sol_mint_address_def sol_balance_def sol_mint_account_def
      sol_transaction_def sol_try_transaction_def try_step_def race_with_timeout_def
      and_then_def timeout_is_classified)

text \<open>
  BASE and BSC carry the hash through a timeout: when the wait is still pending after
  300 seconds, the result is CONFIRMATION_TIMEOUT with the hash of the transaction sent.
\<close>

lemma evm_timeout_keeps_hash:
  assumes "wait_tx E u h = Pending"
  shows "evm_confirm E u h = ([WaitConfirmation u h], Return (evm_timeout h))"
    and "get_prop (evm_timeout h) ''code'' = Str ''CONFIRMATION_TIMEOUT''"
    and "get_prop (evm_timeout h) ''txHash'' = Str h"
  using assms
  by (simp_all add: evm_confirm_def race_with_timeout_def evm_timeout_def get_prop_def)

text \<open>
  C6. The SOL executor departs from the claim. A run that has sent its transaction and
  holds the signature, and whose confirmation is still pending after 300 seconds, returns
  TRANSACTION_TIMEOUT without the signature: the result has neither \<open>txHash\<close> nor
  \<open>signature\<close>, although the submission is in the trace.
\<close>

theorem sol_timeout_loses_signature:
  fixes d :: jsobj
  defines "k \<equiv> get_prop d ''privateKey''"
    and "c \<equiv> get_prop d ''contractAddress''"
    and "q \<equiv> get_prop d ''mintQuantity''"
  assumes "sol_validate R k c q = None"
    and "find (\<lambda>u. \<not> isl (getVersion S u)) sol_rpcUrls = Some u"
    and "sol_keypair R S k = ([ParseKey], Next pk)" and "new_PublicKey S c = Inr m"
    and "sol_getBalance S u pk = Inr b" and "\<not> b < sol_min_lamports"
    and "getAccountInfo S u m = Inr (Some (TOKEN_PROGRAM_ID S))"
    and "getAssociatedTokenAddress S m pk = Inr ata" and "getAccountInfo S u ata = Inr info"
    and "build_instructions S (info = None) q = Inr ()" and "getLatestBlockhash S u = Inr bh"
    and "sign_and_serialize S bh = Inr ()" and "sendRawTransaction S u = Inr sig"
    and "confirmTransaction S u sig = Pending"
  shows "mintSOL R S d =
           (map Probe (takeWhile (\<lambda>u. isl (getVersion S u)) sol_rpcUrls)
              @ [Probe u, ParseKey, GetBalance u pk, GetAccountInfo u m, GetAccountInfo u ata,
                 GetLatestBlockhash u, SendRawTransaction u, ConfirmTransaction u sig],
            failure ''Transaction timed out. It may still be processing.'' ''TRANSACTION_TIMEOUT'')
         \<and> get_prop (snd (mintSOL R S d)) ''txHash'' = Undefined
         \<and> get_prop (snd (mintSOL R S d)) ''signature'' = Undefined"
proof -
  have "mintSOL R S d =
          catch_all sol_catch
            (step_after (map Probe (takeWhile (\<lambda>u. isl (getVersion S u)) sol_rpcUrls) @ [Probe u])
               (sol_connected R S u k c q))"
    using sol_connects [OF assms(4,5)] by (simp add: mintSOL_def k_def c_def q_def)
  also have "\<dots> =
      (map Probe (takeWhile (\<lambda>u. isl (getVersion S u)) sol_rpcUrls)
         @ [Probe u, ParseKey, GetBalance u pk, GetAccountInfo u m, GetAccountInfo u ata,
            GetLatestBlockhash u, SendRawTransaction u, ConfirmTransaction u sig],
       failure ''Transaction timed out. It may still be processing.'' ''TRANSACTION_TIMEOUT'')"
    by (simp add: sol_timeout_path [OF assms(6-17)] step_after_def catch_all_def)
  finally show ?thesis by (simp add: failure_def get_prop_def)
qed

theorem sol_timeout_loses_signature_witness:
  "sendRawTransaction (mock_sol\<lparr>confirmTransaction := \<lambda>u g. Pending\<rparr>)
      ''https://api.mainnet-beta.solana.com'' = Inr ''5sig''
   \<and> confirmTransaction (mock_sol\<lparr>confirmTransaction := \<lambda>u g. Pending\<rparr>)
      ''https://api.mainnet-beta.solana.com'' ''5sig'' = Pending
   \<and> SendRawTransaction ''https://api.mainnet-beta.solana.com''
       \<in> set (fst (mintSOL mock_runtime (mock_sol\<lparr>confirmTransaction := \<lambda>u g. Pending\<rparr>)
            (mock_sol_request (Str mock_sol_key))))
   \<and> get_prop (snd (mintSOL mock_runtime (mock_sol\<lparr>confirmTransaction := \<lambda>u g. Pending\<rparr>)
         (mock_sol_request (Str mock_sol_key)))) ''code'' = Str ''TRANSACTION_TIMEOUT''
   \<and> get_prop (snd (mintSOL mock_runtime (mock_sol\<lparr>confirmTransaction := \<lambda>u g. Pending\<rparr>)
         (mock_sol_request (Str mock_sol_key)))) ''txHash'' = Undefined
   \<and> get_prop (snd (mintSOL mock_runtime (mock_sol\<lparr>confirmTransaction := \<lambda>u g. Pending\<rparr>)
         (mock_sol_request (Str mock_sol_key)))) ''signature'' = Undefined"
proof -
  let ?S = "mock_sol\<lparr>confirmTransaction := \<lambda>u g. Pending\<rparr>"
  let ?u = "''https://api.mainnet-beta.solana.com''"
  let ?d = "mock_sol_request (Str mock_sol_key)"
  let ?pk = "''Payer1111111111111111111111111111111111111''"
  let ?ata = "''Ata11111111111111111111111111111111111111''"
  have d: "get_prop ?d ''privateKey'' = Str mock_sol_key"
    "get_prop ?d ''contractAddress'' = Str mock_mint"
    "get_prop ?d ''mintQuantity'' = Num 1"
    by (simp_all add: get_prop_def mock_sol_request_def)
  have v: "sol_validate mock_runtime (get_prop ?d ''privateKey'') (get_prop ?d ''contractAddress'')
             (get_prop ?d ''mintQuantity'') = None"
    by (simp only: d) (simp add: sol_validate_def js_lt_def mock_sol_key_def mock_mint_def)
  have u: "find (\<lambda>u. \<not> isl (getVersion ?S u)) sol_rpcUrls = Some ?u"
    by (simp add: sol_rpcUrls_def mock_sol_def)
  have key: "sol_keypair mock_runtime ?S (get_prop ?d ''privateKey'') = ([ParseKey], Next ?pk)"
    by (simp only: d)
       (simp add: sol_keypair_def decode_secret_def bracketed_def mock_sol_def mock_sol_key_def)
  have mint: "new_PublicKey ?S (get_prop ?d ''contractAddress'') = Inr mock_mint"
    by (simp add: d mock_sol_def)
  have bal: "sol_getBalance ?S ?u ?pk = Inr (5 * 10 ^ 9)" "\<not> (5 * 10 ^ 9 :: nat) < sol_min_lamports"
    by (simp_all add: mock_sol_def sol_min_lamports_def)
  have acct: "getAccountInfo ?S ?u mock_mint = Inr (Some (TOKEN_PROGRAM_ID ?S))"
    by (simp add: mock_sol_def)
  have ata: "getAssociatedTokenAddress ?S mock_mint ?pk = Inr ?ata"
    "getAccountInfo ?S ?u ?ata = Inr None"
    by (simp_all add: mock_sol_def mock_mint_def)
  have build: "build_instructions ?S (None = (None :: string option)) (get_prop ?d ''mintQuantity'') = Inr ()"
    "getLatestBlockhash ?S ?u = Inr ''blockhash1''" "sign_and_serialize ?S ''blockhash1'' = Inr ()"
    by (simp_all add: mock_sol_def)
  have sent: "sendRawTransaction ?S ?u = Inr ''5sig''" and pending: "confirmTransaction ?S ?u ''5sig'' = Pending"
    by (simp_all add: mock_sol_def)
  note run = sol_timeout_loses_signature [OF v u key mint bal acct ata build sent pending]
  have "SendRawTransaction ?u \<in> set (fst (mintSOL mock_runtime ?S ?d))"
    by (simp add: run)
  moreover have "get_prop (snd (mintSOL mock_runtime ?S ?d)) ''code'' = Str ''TRANSACTION_TIMEOUT''"
    by (simp add: run failure_def get_prop_def)
  ultimately show ?thesis using sent pending run by blast
qed

section \<open>Quantity validation\<close>

text \<open>
  In every executor a quantity that is missing, null, zero, the empty string, \<open>false\<close>,
  or a number below 1 is rejected with INVALID_QUANTITY before any network call, provided
  the fields checked before it are present.
\<close>

lemma low_quantity:
  "\<not> truthy q \<or> (\<exists>r. q = Num r \<and> r < 1) \<Longrightarrow> \<not> truthy q \<or> js_lt R q 1"
  by (auto simp: js_lt_def)

lemma quantity_below_one_rejected:
  assumes "\<not> truthy (get_prop d ''mintQuantity'')
           \<or> (\<exists>r. get_prop d ''mintQuantity'' = Num r \<and> r < 1)"
    and "truthy (get_prop d ''privateKey'')"
  shows "truthy (get_prop d ''contractAddress'') \<Longrightarrow>
           mintBASE R E d = ([], failure ''Mint quantity must be at least 1'' ''INVALID_QUANTITY'')"
    and "truthy (get_prop d ''contractAddress'') \<Longrightarrow>
           mintBSC R E d = ([], failure ''Mint quantity must be at least 1'' ''INVALID_QUANTITY'')"
    and "truthy (get_prop d ''contractAddress'') \<Longrightarrow>
           mintSOL R S d = ([], failure ''Mint quantity must be at least 1'' ''INVALID_QUANTITY'')"
    and "truthy (get_prop d ''collectionId'') \<Longrightarrow> truthy (get_prop d ''mintStage'') \<Longrightarrow>
           mintSUI R sui d = ([], failure ''Mint quantity must be at least 1'' ''INVALID_QUANTITY'')"
  using low_quantity [OF assms(1), of R] assms(2)
  by (simp_all add: mintBASE_def base_body_def mintBSC_def bsc_body_def evm_validate_def
      mintSOL_def sol_body_def sol_validate_def mintSUI_def sui_body_def sui_validate_def
      and_then_def catch_all_def)

text \<open>
  C4. The code departs from the claim on non-numeric input. A quantity that is a
  non-empty string with no numeric reading is truthy, and its comparisons with 1 and with
  100 are comparisons of NaN, which are false: the quantity check does not reject it. With
  the other fields in order, validation passes in all four executors, and the run goes on
  to the network.
\<close>

theorem nonnumeric_quantity_passes_validation:
  assumes "StringToNumber R s = NaN" and "s \<noteq> []"
  shows "(truthy k \<and> truthy c \<and> isAddress E c \<longrightarrow> evm_validate R E k c (Str s) = None)
     \<and> (truthy k \<and> truthy c \<longrightarrow> sol_validate R k c (Str s) = None)
     \<and> (truthy k \<and> truthy c \<and> truthy st \<and> \<not> js_lt R (js_read k ''length'') 32
          \<and> matches_hex R c = Inr True \<and> \<not> env_missing (INDEXER_ENDPOINT sui)
          \<and> \<not> env_missing (TRADEPORT_API_USER sui) \<and> \<not> env_missing (TRADEPORT_API_KEY sui) \<longrightarrow>
        sui_validate R sui k c (Str s) st = ([], Next ()))"
  using assms
  by (simp add: evm_validate_def sol_validate_def sui_validate_def js_lt_def js_gt_def)

lemma mock_base_run_abc:
  "mintBASE mock_runtime mock_evm (mock_request (Str ''abc'')) =
   ([Probe ''https://base.drpc.org/'', ParseKey,
     GetBalance ''https://base.drpc.org/'' mock_address,
     GetCode ''https://base.drpc.org/'',
     EstimateGas ''https://base.drpc.org/'' (MintCall ''mint'' [Str ''abc'']),
     SendTransaction ''https://base.drpc.org/'' (MintCall ''mint'' [Str ''abc'']) 500000 20000000000,
     WaitConfirmation ''https://base.drpc.org/'' ''0xabc''],
    evm_success mock_receipt)"
  by (simp add: evm_run mock_evm_run mock_StringToNumber_def)

theorem nonnumeric_quantity_passes_validation_witness:
  "StringToNumber mock_runtime ''abc'' = NaN
   \<and> ''abc'' \<noteq> []
   \<and> evm_validate mock_runtime mock_evm (Str mock_key) (Str mock_contract) (Str ''abc'') = None
   \<and> sol_validate mock_runtime (Str mock_sol_key) (Str mock_mint) (Str ''abc'') = None
   \<and> hd (fst (mintBASE mock_runtime mock_evm (mock_request (Str ''abc'')))) = Probe ''https://base.drpc.org/''
   \<and> get_prop (snd (mintBASE mock_runtime mock_evm (mock_request (Str ''abc'')))) ''success'' = Bool True"
proof -
  have nan: "StringToNumber mock_runtime ''abc'' = NaN"
    by (simp add: mock_runtime_def mock_StringToNumber_def)
  have ne: "''abc'' \<noteq> []" by simp
  have evm: "truthy (Str mock_key) \<and> truthy (Str mock_contract) \<and> isAddress mock_evm (Str mock_contract)"
    by (simp add: mock_key_def mock_contract_def mock_evm_def)
  have sol: "truthy (Str mock_sol_key) \<and> truthy (Str mock_mint)"
    by (simp add: mock_sol_key_def mock_mint_def)
  from nonnumeric_quantity_passes_validation [OF nan ne, of "Str mock_key" "Str mock_contract" mock_evm] evm
  have a: "evm_validate mock_runtime mock_evm (Str mock_key) (Str mock_contract) (Str ''abc'') = None"
    by blast
  from nonnumeric_quantity_passes_validation [OF nan ne, of "Str mock_sol_key" "Str mock_mint"] sol
  have b: "sol_validate mock_runtime (Str mock_sol_key) (Str mock_mint) (Str ''abc'') = None"
    by blast
  from nan ne a b show ?thesis
    by (simp add: mock_base_run_abc evm_success_def get_prop_def)
qed

end
